theory Spec2Isabelle
  imports Complex_Main "HOL-Library.AList"
begin

section \<open>Values, cells and the sheet interface\<close>

text \<open>
  A double: a Python \<open>float\<close> and an entry of a \<open>float64\<close> array have the same values, a
  number, an infinity or NaN.
\<close>

datatype npfloat = Num real | PosInf | NegInf | NaN

text \<open>
  Python objects that can sit in a cell or in an exported dictionary. \<open>PBool\<close>, \<open>PInt\<close>,
  \<open>PFloat\<close> and \<open>PComplex\<close> are the instances of \<open>numbers.Number\<close>, the numbers of the
  core language; every other constructor is a non-numeric object. A \<open>dict\<close> is an
  association list updated with \<open>AList.update\<close>: an existing key keeps its position and
  gets the new value, a new key is appended, as in Python.
\<close>

datatype pyobj =
    PNone
  | PBool bool
  | PInt int
  | PFloat npfloat
  | PComplex real real
  | PStr string
  | PList "pyobj list"
  | PDict "(string \<times> pyobj) list"

datatype CellType = value_only | computational

record Cell =
  cell_value :: pyobj
  cell_type :: CellType
  parse :: "string \<Rightarrow> string option"
  description :: "string option"
  excel_format :: "(string \<times> pyobj) list"
  constructing_words :: "string \<Rightarrow> string option"

record CellIndices =
  rows_labels :: "string list"
  columns_labels :: "string list"
  rows_help_text :: "string list option"
  columns_help_text :: "string list option"
  languages :: "string list"
  excel_append_labels :: bool

record SheetVariables =
  vars_empty :: bool
  variables_dict :: "(string \<times> (string \<times> pyobj) list) list"

text \<open>
  The object a \<open>Serialization\<close> method runs on. \<open>shape\<close>, \<open>cell_indices\<close>,
  \<open>_get_cell_at\<close> and \<open>_get_variables\<close> are abstract in the class, so they are fields
  supplied by the concrete sheet; \<open>_get_cell_at\<close> is taken to return a cell for every
  position. \<open>export_offset\<close> and \<open>shape\<close> count rows and columns and are natural
  numbers.
\<close>

record Serialization =
  export_offset :: "nat \<times> nat"
  export_subset :: bool
  shape :: "nat \<times> nat"
  cell_indices :: CellIndices
  cell_at :: "nat \<Rightarrow> nat \<Rightarrow> Cell"
  get_variables :: SheetVariables

section \<open>Effects: the event trace and exceptions\<close>

datatype error =
    ValueError string | IndexError | KeyError string | TypeError string | OverflowError string

datatype worksheet = MainSheet | VariablesSheet

text \<open>
  Everything a call does to the outside world, in order: calls of \<open>warning_logger\<close>,
  calls of \<open>_get_cell_at\<close>, and the calls into the workbook writer.
\<close>

datatype event =
    Warn string
  | CellRead nat nat
  | WorkbookOpen string
  | AddWorksheet worksheet string
  | AddFormat "(string \<times> pyobj) list"
  | DefineName string string
  | SheetWrite worksheet nat nat pyobj "(string \<times> pyobj) list option"
  | SheetWriteFormula worksheet nat nat string pyobj "(string \<times> pyobj) list option"
  | WorkbookClose

type_synonym 'a run = "event list \<times> (error + 'a)"

definition ret :: "'a \<Rightarrow> 'a run" where
  "ret x = ([], Inr x)"

definition raise :: "error \<Rightarrow> 'a run" where
  "raise e = ([], Inl e)"

definition emit :: "event \<Rightarrow> unit run" where
  "emit e = ([e], Inr ())"

definition bind :: "'a run \<Rightarrow> ('a \<Rightarrow> 'b run) \<Rightarrow> 'b run" where
  "bind m f =
     (case m of
        (es, Inl e) \<Rightarrow> (es, Inl e)
      | (es, Inr x) \<Rightarrow> (case f x of (es', r) \<Rightarrow> (es @ es', r)))"

text \<open>\<open>for i in ns: acc = body i acc\<close>, over any sequence \<open>ns\<close>; an exception in the body leaves the loop.\<close>

fun for_loop :: "'i list \<Rightarrow> ('i \<Rightarrow> 'a \<Rightarrow> 'a run) \<Rightarrow> 'a \<Rightarrow> 'a run" where
  "for_loop [] body acc = ret acc"
| "for_loop (i # ns) body acc = bind (body i acc) (for_loop ns body)"

text \<open>\<open>xs[i]\<close> for a non-negative index, and \<open>d[k]\<close> on a dictionary.\<close>

definition py_index :: "'a list \<Rightarrow> nat \<Rightarrow> 'a run" where
  "py_index xs i = (if i < length xs then ret (xs ! i) else raise IndexError)"

definition py_getitem :: "(string \<Rightarrow> 'a option) \<Rightarrow> string \<Rightarrow> 'a run" where
  "py_getitem d k = (case d k of None \<Rightarrow> raise (KeyError k) | Some v \<Rightarrow> ret v)"

text \<open>\<open>label.replace(' ', spaces_replacement)\<close>\<close>

definition replace_spaces :: "string \<Rightarrow> string \<Rightarrow> string" where
  "replace_spaces rep label = concat (map (\<lambda>c. if c = CHR '' '' then rep else [c]) label)"

definition get_cell_at :: "Serialization \<Rightarrow> nat \<Rightarrow> nat \<Rightarrow> Cell run" where
  "get_cell_at s row col = bind (emit (CellRead row col)) (\<lambda>_. ret (cell_at s row col))"

definition subset_warning :: string where
  "subset_warning = ''Slice is being exported => there is a possibility of data losses.''"

definition log_export_subset_warning_if_needed :: "Serialization \<Rightarrow> unit run" where
  "log_export_subset_warning_if_needed s =
     (if export_subset s then emit (Warn subset_warning) else ret ())"

section \<open>to_numpy\<close>

text \<open>
  The array keeps its shape beside its rows, so that an array with no rows still has a
  column count.
\<close>

record ndarray =
  nd_shape :: "nat \<times> nat"
  nd_data :: "npfloat list list"

definition zeros :: "nat \<times> nat \<Rightarrow> ndarray" where
  "zeros sh = \<lparr>nd_shape = sh, nd_data = replicate (fst sh) (replicate (snd sh) (Num 0))\<rparr>"

text \<open>\<open>isinstance(value, Number)\<close>\<close>

definition is_number :: "pyobj \<Rightarrow> bool" where
  "is_number v =
     (case v of PBool b \<Rightarrow> True | PInt n \<Rightarrow> True | PFloat f \<Rightarrow> True
      | PComplex re im \<Rightarrow> True | _ \<Rightarrow> False)"

text \<open>
  What the \<open>float64\<close> array does with a number assigned to one of its items. A float is
  stored as it is and a bool as 0 or 1. An int is rounded to the nearest double, to even
  on a tie: \<open>round_to_double\<close> keeps the 53 leading bits of the magnitude, and the store
  raises \<open>OverflowError\<close> when the rounded magnitude reaches \<open>2 ^ 1024\<close>. A complex raises
  \<open>TypeError\<close>. \<open>float64_of\<close> is applied to numbers only.
\<close>

fun bit_length :: "nat \<Rightarrow> nat" where
  "bit_length n = (if n = 0 then 0 else Suc (bit_length (n div 2)))"

definition round_to_double :: "nat \<Rightarrow> nat" where
  "round_to_double m =
     (let e = bit_length m - 53; q = m div 2 ^ e; r = m mod 2 ^ e
      in if 2 ^ e < 2 * r \<or> (2 * r = 2 ^ e \<and> odd q) then (q + 1) * 2 ^ e else q * 2 ^ e)"

definition float64_of_int :: "int \<Rightarrow> error + npfloat" where
  "float64_of_int n =
     (let m = round_to_double (nat \<bar>n\<bar>)
      in if 2 ^ 1024 \<le> m then Inl (OverflowError ''int too large to convert to float'')
         else Inr (Num (if n < 0 then - real m else real m)))"

definition float64_of :: "pyobj \<Rightarrow> error + npfloat" where
  "float64_of v =
     (case v of
        PBool b \<Rightarrow> Inr (Num (if b then 1 else 0))
      | PInt n \<Rightarrow> float64_of_int n
      | PFloat f \<Rightarrow> Inr f
      | _ \<Rightarrow> Inl (TypeError ''float() argument must be a string or a real number''))"

text \<open>\<open>results[r, c] = v\<close> for a double \<open>v\<close>.\<close>

definition nd_setitem :: "ndarray \<Rightarrow> nat \<Rightarrow> nat \<Rightarrow> npfloat \<Rightarrow> ndarray run" where
  "nd_setitem a r c v =
     (if r < fst (nd_shape a) \<and> c < snd (nd_shape a)
      then ret (a\<lparr>nd_data := (nd_data a)[r := (nd_data a ! r)[c := v]]\<rparr>)
      else raise IndexError)"

definition coercion_warning :: string where
  "coercion_warning = ''Some values in the sheet are not numbers, the nan value is set instead.''"

text \<open>
  The body of the inner loop; the state is \<open>(results, contains_nonumeric_values)\<close>. A
  number goes through the conversion of the array, which can raise; \<open>numpy.nan\<close> is a
  float and is stored as it is.
\<close>

definition numpy_cell :: "Serialization \<Rightarrow> nat \<Rightarrow> nat \<Rightarrow> ndarray \<times> bool \<Rightarrow> (ndarray \<times> bool) run" where
  "numpy_cell s row_idx col_idx st =
     bind (get_cell_at s row_idx col_idx) (\<lambda>c.
       if cell_value c \<noteq> PNone then
         if is_number (cell_value c) then
           bind ([], float64_of (cell_value c)) (\<lambda>x.
           bind (nd_setitem (fst st) row_idx col_idx x) (\<lambda>r. ret (r, snd st)))
         else bind (nd_setitem (fst st) row_idx col_idx NaN) (\<lambda>r. ret (r, True))
       else bind (nd_setitem (fst st) row_idx col_idx NaN) (\<lambda>r. ret (r, snd st)))"

definition to_numpy :: "Serialization \<Rightarrow> ndarray run" where
  "to_numpy s =
     bind (log_export_subset_warning_if_needed s) (\<lambda>_.
     bind (for_loop [0..<fst (shape s)] (\<lambda>row_idx.
             for_loop [0..<snd (shape s)] (numpy_cell s row_idx))
             (zeros (shape s), False)) (\<lambda>st.
     bind (if snd st then emit (Warn coercion_warning) else ret ()) (\<lambda>_.
     ret (fst st))))"

section \<open>to_excel\<close>

text \<open>\<open>sub in s\<close> on strings, and \<open>s[-n:]\<close> for a positive \<open>n\<close>.\<close>

fun py_in :: "string \<Rightarrow> string \<Rightarrow> bool" where
  "py_in sub [] = (sub = [])"
| "py_in sub (c # cs) = (take (length sub) (c # cs) = sub \<or> py_in sub cs)"

definition py_last_n :: "nat \<Rightarrow> string \<Rightarrow> string" where
  "py_last_n n p = drop (length p - n) p"

text \<open>\<open>str(n)\<close> of a non-negative integer, for the row number of a named reference.\<close>

fun string_of_nat :: "nat \<Rightarrow> string" where
  "string_of_nat n =
     (if n < 10 then [''0123456789'' ! n]
      else string_of_nat (n div 10) @ [''0123456789'' ! (n mod 10)])"

text \<open>
  The three ways of registering the variables. \<open>py_str\<close> is Python's \<open>str\<close>, a parameter
  of every encoder that prints values.
\<close>

definition excel_define_names :: "(pyobj \<Rightarrow> string) \<Rightarrow> Serialization \<Rightarrow> unit run" where
  "excel_define_names py_str s =
     for_loop (variables_dict (get_variables s)) (\<lambda>(name, val) _.
       bind (py_getitem (map_of val) ''value'') (\<lambda>v.
       emit (DefineName name (py_str v)))) ()"

definition excel_variables_sheet ::
  "Serialization \<Rightarrow> string \<Rightarrow> (string \<times> string) list \<Rightarrow> (string \<times> pyobj) list \<Rightarrow> unit run" where
  "excel_variables_sheet s variables_sheet_name variables_sheet_header col_label_format =
     bind (emit (AddWorksheet VariablesSheet variables_sheet_name)) (\<lambda>_.
     bind (py_getitem (map_of variables_sheet_header) ''name'') (\<lambda>h.
     bind (emit (SheetWrite VariablesSheet 0 0 (PStr h) (Some col_label_format))) (\<lambda>_.
     bind (py_getitem (map_of variables_sheet_header) ''value'') (\<lambda>h.
     bind (emit (SheetWrite VariablesSheet 0 1 (PStr h) (Some col_label_format))) (\<lambda>_.
     bind (py_getitem (map_of variables_sheet_header) ''description'') (\<lambda>h.
     bind (emit (SheetWrite VariablesSheet 0 2 (PStr h) (Some col_label_format))) (\<lambda>_.
     bind (for_loop (variables_dict (get_variables s)) (\<lambda>(var_n, var_v) row_idx.
             bind (emit (SheetWrite VariablesSheet row_idx 0 (PStr var_n) None)) (\<lambda>_.
             bind (py_getitem (map_of var_v) ''value'') (\<lambda>v.
             bind (emit (SheetWrite VariablesSheet row_idx 1 v None)) (\<lambda>_.
             bind (py_getitem (map_of var_v) ''description'') (\<lambda>d.
             bind (emit (SheetWrite VariablesSheet row_idx 2 d None)) (\<lambda>_.
             bind (emit (DefineName var_n
                      (''='' @ variables_sheet_name @ ''!$B$'' @ string_of_nat (row_idx + 1)))) (\<lambda>_.
             ret (row_idx + 1)))))))) 1) (\<lambda>_.
     ret ()))))))))"

text \<open>The body of the data loop: one cell of the sheet.\<close>

definition excel_cell :: "Serialization \<Rightarrow> nat \<Rightarrow> nat \<Rightarrow> unit \<Rightarrow> unit run" where
  "excel_cell s row_idx col_idx u =
     bind (get_cell_at s row_idx col_idx) (\<lambda>c.
       if cell_value c \<noteq> PNone then
         let offset = (if excel_append_labels (cell_indices s) then 1 else 0) in
         bind (if length (excel_format c) > 0
               then bind (emit (AddFormat (excel_format c))) (\<lambda>_. ret (Some (excel_format c)))
               else ret None) (\<lambda>cell_format.
         if cell_type c = value_only then
           emit (SheetWrite MainSheet (row_idx + offset) (col_idx + offset) (cell_value c) cell_format)
         else
           bind (py_getitem (parse c) ''excel'') (\<lambda>formula.
           emit (SheetWriteFormula MainSheet (row_idx + offset) (col_idx + offset) formula
                   (cell_value c) cell_format)))
       else ret ())"

definition excel_labels ::
  "Serialization \<Rightarrow> string \<Rightarrow> (string \<times> pyobj) list \<Rightarrow> (string \<times> pyobj) list \<Rightarrow> unit run" where
  "excel_labels s spaces_replacement col_label_format row_label_format =
     (if excel_append_labels (cell_indices s) then
        bind (for_loop [0..<snd (shape s)] (\<lambda>col_idx _.
                bind (py_index (columns_labels (cell_indices s))
                        (col_idx + snd (export_offset s))) (\<lambda>label.
                emit (SheetWrite MainSheet 0 (col_idx + 1)
                        (PStr (replace_spaces spaces_replacement label)) (Some col_label_format)))) ())
        (\<lambda>_.
        for_loop [0..<fst (shape s)] (\<lambda>row_idx _.
          bind (py_index (rows_labels (cell_indices s))
                  (row_idx + fst (export_offset s))) (\<lambda>label.
          emit (SheetWrite MainSheet (row_idx + 1) 0
                  (PStr (replace_spaces spaces_replacement label)) (Some row_label_format)))) ())
      else ret ())"

text \<open>
  \<open>sheet_name\<close> is any object, since the code tests \<open>isinstance(sheet_name, str)\<close>.
  Opening the workbook is the event \<open>WorkbookOpen\<close>.
\<close>

definition to_excel ::
  "(pyobj \<Rightarrow> string) \<Rightarrow> Serialization \<Rightarrow> string \<Rightarrow> pyobj \<Rightarrow> string \<Rightarrow> (string \<times> pyobj) list \<Rightarrow>
   (string \<times> pyobj) list \<Rightarrow> string option \<Rightarrow> (string \<times> string) list \<Rightarrow> unit run" where
  "to_excel py_str s file_path sheet_name spaces_replacement label_row_format
      label_column_format variables_sheet_name variables_sheet_header =
     (if \<not> py_in ''.xlsx'' (py_last_n 5 file_path) then
        raise (ValueError (''Suffix of the file has to be '' @ [CHR 0x27] @ ''.xslx'' @ [CHR 0x27] @ ''!''))
      else case sheet_name of
        PStr name \<Rightarrow>
          if length name < 1 then raise (ValueError ''Sheet name has to be non-empty string!'')
          else
            bind (log_export_subset_warning_if_needed s) (\<lambda>_.
            bind (emit (WorkbookOpen file_path)) (\<lambda>_.
            bind (emit (AddWorksheet MainSheet name)) (\<lambda>_.
            bind (emit (AddFormat label_column_format)) (\<lambda>_.
            bind (emit (AddFormat label_row_format)) (\<lambda>_.
            bind (if vars_empty (get_variables s) then ret ()
                  else case variables_sheet_name of
                         None \<Rightarrow> excel_define_names py_str s
                       | Some vname \<Rightarrow>
                           excel_variables_sheet s vname variables_sheet_header label_column_format)
              (\<lambda>_.
            bind (for_loop [0..<fst (shape s)] (\<lambda>row_idx.
                    for_loop [0..<snd (shape s)] (excel_cell s row_idx)) ()) (\<lambda>_.
            bind (excel_labels s spaces_replacement label_column_format label_row_format) (\<lambda>_.
            emit WorkbookClose))))))))
      | _ \<Rightarrow> raise (ValueError ''Sheet name has to be non-empty string!''))"

section \<open>to_dictionary\<close>

text \<open>
  The record of one cell, \<open>pseudolang_and_val\<close>: the text of the cell in every requested
  language under the name used for that language, then \<open>value\<close> and \<open>description\<close>.
\<close>

definition dict_record :: "string list \<Rightarrow> string list \<Rightarrow> pyobj \<Rightarrow> Cell \<Rightarrow> (string \<times> pyobj) list run" where
  "dict_record langs langs_used value c =
     bind (for_loop (enumerate 0 langs) (\<lambda>(i, language) d.
             bind (py_getitem (parse c) language) (\<lambda>txt.
             bind (py_index langs_used i) (\<lambda>k.
             ret (AList.update k (PStr txt) d)))) []) (\<lambda>d.
     let d = AList.update ''value'' value d;
         d = AList.update ''description''
               (case description c of None \<Rightarrow> PNone | Some t \<Rightarrow> PStr t) d
     in ret d)"

text \<open>
  The body of the inner loop: it reads one cell and stores its record under the label of
  the secondary axis in \<open>y_values[y_start_key]\<close>, here \<open>y_dict\<close>. A skipped cell
  (\<open>continue\<close>) leaves the dictionary as it is.
\<close>

definition dict_cell ::
  "Serialization \<Rightarrow> string list \<Rightarrow> string list \<Rightarrow> bool \<Rightarrow> bool \<Rightarrow> pyobj \<Rightarrow> string list \<Rightarrow>
   string list option \<Rightarrow> nat \<Rightarrow> nat \<Rightarrow> (string \<times> pyobj) list \<Rightarrow> (string \<times> pyobj) list run" where
  "dict_cell s langs langs_used by_row skip_nan_cell nan_replacement y y_helptext
      idx_x idx_y y_dict =
     bind (if by_row then get_cell_at s idx_x idx_y else get_cell_at s idx_y idx_x) (\<lambda>c.
       if cell_value c = PNone \<and> skip_nan_cell then ret y_dict
       else
         let value = (if cell_value c = PNone then nan_replacement else cell_value c) in
         bind (dict_record langs langs_used value c) (\<lambda>d.
         bind (py_index y idx_y) (\<lambda>label.
         let y_dict = AList.update label (PDict d) y_dict in
         case y_helptext of
           None \<Rightarrow> ret y_dict
         | Some h \<Rightarrow>
             bind (py_index h idx_y) (\<lambda>ht.
             ret (AList.update label (PDict (AList.update ''help_text'' (PStr ht) d)) y_dict)))))"

text \<open>The body of the outer loop; \<open>x_dict\<close> is \<open>values[x_start_key]\<close>.\<close>

definition dict_row ::
  "Serialization \<Rightarrow> string list \<Rightarrow> string list \<Rightarrow> bool \<Rightarrow> bool \<Rightarrow> pyobj \<Rightarrow>
   string list \<Rightarrow> string list option \<Rightarrow> nat \<Rightarrow> string list \<Rightarrow> string list option \<Rightarrow> string \<Rightarrow>
   nat \<Rightarrow> (string \<times> pyobj) list \<Rightarrow> (string \<times> pyobj) list run" where
  "dict_row s langs langs_used by_row skip_nan_cell nan_replacement
      x x_helptext y_range y y_helptext y_start_key idx_x x_dict =
     bind (for_loop [0..<y_range]
             (dict_cell s langs langs_used by_row skip_nan_cell nan_replacement
                y y_helptext idx_x) []) (\<lambda>y_dict.
     let y_values = [(y_start_key, PDict y_dict)] in
     bind (py_index x idx_x) (\<lambda>label.
     let x_dict = AList.update label (PDict y_values) x_dict in
     case x_helptext of
       None \<Rightarrow> ret x_dict
     | Some h \<Rightarrow>
         bind (py_index h idx_x) (\<lambda>ht.
         ret (AList.update label (PDict (AList.update ''help_text'' (PStr ht) y_values)) x_dict))))"

text \<open>
  The labels and help texts of one axis with the offset applied: \<open>labels[offset:]\<close> with
  the spaces replaced, and \<open>help_text[offset:]\<close> when there is a help text.
\<close>

definition sliced_labels :: "string \<Rightarrow> nat \<Rightarrow> string list \<Rightarrow> string list" where
  "sliced_labels spaces_replacement off labels =
     map (replace_spaces spaces_replacement) (drop off labels)"

definition sliced_help :: "nat \<Rightarrow> string list option \<Rightarrow> string list option" where
  "sliced_help off help_text = map_option (drop off) help_text"

text \<open>
  The source assigns the column axis to \<open>x\<close> and the row axis to \<open>y\<close> first and, when
  \<open>by_row\<close>, overwrites all of them the other way round; none of these assignments can
  fail, so each variable is given once, by a conditional.
\<close>

definition to_dictionary ::
  "Serialization \<Rightarrow> string list option \<Rightarrow> bool \<Rightarrow> string list option \<Rightarrow> string \<Rightarrow> bool \<Rightarrow>
   pyobj \<Rightarrow> pyobj run" where
  "to_dictionary s languages_arg by_row languages_pseudonyms spaces_replacement
      skip_nan_cell nan_replacement =
     bind (log_export_subset_warning_if_needed s) (\<lambda>_.
     let langs = (case languages_arg of None \<Rightarrow> languages (cell_indices s) | Some l \<Rightarrow> l) in
     if languages_pseudonyms \<noteq> None \<and> length (the languages_pseudonyms) \<noteq> length langs then
       raise (ValueError
         ''Language pseudonyms does not have the same size as the language array!'')
     else
       let langs_used =
             (case languages_pseudonyms of None \<Rightarrow> langs | Some p \<Rightarrow> p);
           row_labels = sliced_labels spaces_replacement (fst (export_offset s))
                          (rows_labels (cell_indices s));
           row_help = sliced_help (fst (export_offset s)) (rows_help_text (cell_indices s));
           col_labels = sliced_labels spaces_replacement (snd (export_offset s))
                          (columns_labels (cell_indices s));
           col_help = sliced_help (snd (export_offset s)) (columns_help_text (cell_indices s));
           x_range = (if by_row then fst (shape s) else snd (shape s));
           x = (if by_row then row_labels else col_labels);
           x_helptext = (if by_row then row_help else col_help);
           x_start_key = (if by_row then ''rows'' else ''columns'');
           y_range = (if by_row then snd (shape s) else fst (shape s));
           y = (if by_row then col_labels else row_labels);
           y_helptext = (if by_row then col_help else row_help);
           y_start_key = (if by_row then ''columns'' else ''rows'')
       in
       bind (for_loop [0..<x_range]
               (dict_row s langs langs_used by_row skip_nan_cell nan_replacement
                  x x_helptext y_range y y_helptext y_start_key) []) (\<lambda>x_dict.
       let values = [(x_start_key, PDict x_dict)];
           values = AList.update ''variables''
                      (PDict (map (\<lambda>(n, d). (n, PDict d)) (variables_dict (get_variables s))))
                      values;
           values = AList.update ''row-labels'' (PList (map PStr (if by_row then x else y))) values;
           values = AList.update ''column-labels'' (PList (map PStr (if by_row then y else x)))
                      values
       in ret (PDict values)))"

section \<open>The flat and the textual encoders\<close>

definition to_string_of_values :: "(pyobj \<Rightarrow> string) \<Rightarrow> Serialization \<Rightarrow> string run" where
  "to_string_of_values py_str s =
     bind (log_export_subset_warning_if_needed s) (\<lambda>_.
     bind (for_loop [0..<fst (shape s)] (\<lambda>row_idx export.
             bind (for_loop [0..<snd (shape s)] (\<lambda>col_idx export.
                     bind (get_cell_at s row_idx col_idx) (\<lambda>c.
                     ret (export @ py_str (cell_value c)
                            @ (if col_idx + 1 < snd (shape s) then '', '' else []))))
                     (export @ ''['')) (\<lambda>export.
             ret (export @ '']''
                    @ (if row_idx + 1 < fst (shape s) then '','' @ [CHR 0x0A] else []))))
             ''['') (\<lambda>export.
     ret (export @ '']'')))"

definition to_2d_list :: "Serialization \<Rightarrow> pyobj list list run" where
  "to_2d_list s =
     bind (log_export_subset_warning_if_needed s) (\<lambda>_.
     for_loop [0..<fst (shape s)] (\<lambda>row_idx export.
       bind (for_loop [0..<snd (shape s)] (\<lambda>col_idx row.
               bind (get_cell_at s row_idx col_idx) (\<lambda>c.
               ret (row @ [cell_value c]))) []) (\<lambda>row.
       ret (export @ [row]))) [])"

text \<open>
  In \<open>to_csv\<close>, \<open>to_markdown\<close> and \<open>to_html_table\<close> the row loop starts below zero:
  the iterations with a negative index write the header and come first, then the rows
  \<open>0 .. shape[0] - 1\<close>. The test \<open>i < n - 1\<close> on Python integers is \<open>i + 1 < n\<close>.
\<close>

definition csv_header :: "Serialization \<Rightarrow> string \<Rightarrow> string \<Rightarrow> string \<Rightarrow> string \<Rightarrow> string run" where
  "csv_header s spaces_replacement sep line_terminator export =
     bind (for_loop [0..<snd (shape s)] (\<lambda>col_i export.
             bind (py_index (columns_labels (cell_indices s))
                     (col_i + snd (export_offset s))) (\<lambda>col.
             ret (export @ replace_spaces spaces_replacement col
                    @ (if col_i + 1 < snd (shape s) then sep else []))))
             export) (\<lambda>export.
     ret (export @ (if 0 < fst (shape s) then line_terminator else [])))"

definition csv_row ::
  "(pyobj \<Rightarrow> string) \<Rightarrow> Serialization \<Rightarrow> string \<Rightarrow> string \<Rightarrow> string \<Rightarrow> string \<Rightarrow> nat \<Rightarrow> string \<Rightarrow>
   string run" where
  "csv_row py_str s spaces_replacement sep line_terminator na_rep row_idx export =
     bind (py_index (rows_labels (cell_indices s)) (row_idx + fst (export_offset s))) (\<lambda>label.
     bind (for_loop [0..<snd (shape s)] (\<lambda>col_idx export.
             bind (get_cell_at s row_idx col_idx) (\<lambda>c.
             ret (export @ (if cell_value c = PNone then na_rep else py_str (cell_value c))
                    @ (if col_idx + 1 < snd (shape s) then sep else []))))
             (export @ replace_spaces spaces_replacement label @ sep)) (\<lambda>export.
     ret (export @ (if row_idx + 1 < fst (shape s) then line_terminator else []))))"

definition to_csv ::
  "(pyobj \<Rightarrow> string) \<Rightarrow> Serialization \<Rightarrow> string \<Rightarrow> string \<Rightarrow> string \<Rightarrow> string \<Rightarrow> string \<Rightarrow> string run" where
  "to_csv py_str s spaces_replacement top_right_corner_text sep line_terminator na_rep =
     bind (log_export_subset_warning_if_needed s) (\<lambda>_.
     bind (csv_header s spaces_replacement sep line_terminator (top_right_corner_text @ sep))
       (\<lambda>export.
     for_loop [0..<fst (shape s)]
       (csv_row py_str s spaces_replacement sep line_terminator na_rep) export))"

definition markdown_header :: "Serialization \<Rightarrow> string \<Rightarrow> string \<Rightarrow> string run" where
  "markdown_header s spaces_replacement export =
     bind (for_loop [0..<snd (shape s)] (\<lambda>col_i export.
             bind (py_index (columns_labels (cell_indices s))
                     (col_i + snd (export_offset s))) (\<lambda>col.
             ret (export @ ''*'' @ replace_spaces spaces_replacement col @ ''*''
                    @ (if col_i + 1 < snd (shape s) then '' | ''
                       else if col_i + 1 = snd (shape s) then '' |'' @ [CHR 0x0A] else []))))
             export) (\<lambda>export.
     for_loop [0..<snd (shape s)] (\<lambda>col_i export.
       ret (export @ ''----|''
              @ (if col_i + 1 = snd (shape s) then [CHR 0x0A] else []))) (export @ ''|----|''))"

definition markdown_row ::
  "(pyobj \<Rightarrow> string) \<Rightarrow> Serialization \<Rightarrow> string \<Rightarrow> string \<Rightarrow> nat \<Rightarrow> string \<Rightarrow> string run" where
  "markdown_row py_str s spaces_replacement na_rep row_idx export =
     bind (py_index (rows_labels (cell_indices s)) (row_idx + fst (export_offset s))) (\<lambda>label.
     for_loop [0..<snd (shape s)] (\<lambda>col_idx export.
       bind (get_cell_at s row_idx col_idx) (\<lambda>c.
       ret (export @ (if cell_value c = PNone then na_rep else py_str (cell_value c))
              @ (if col_idx + 1 < snd (shape s) then '' | ''
                 else if col_idx + 1 = snd (shape s) then '' |'' @ [CHR 0x0A] else []))))
       (export @ ''| *'' @ replace_spaces spaces_replacement label @ ''*'' @ '' | ''))"

definition to_markdown ::
  "(pyobj \<Rightarrow> string) \<Rightarrow> Serialization \<Rightarrow> string \<Rightarrow> string \<Rightarrow> string \<Rightarrow> string run" where
  "to_markdown py_str s spaces_replacement top_right_corner_text na_rep =
     bind (log_export_subset_warning_if_needed s) (\<lambda>_.
     bind (markdown_header s spaces_replacement (''| '' @ top_right_corner_text @ '' |''))
       (\<lambda>export.
     for_loop [0..<fst (shape s)] (markdown_row py_str s spaces_replacement na_rep) export))"

section \<open>to_html_table\<close>

text \<open>\<open>' title="{}"'.format(t)\<close> and \<open>f'<a href="javascript:;" {title_attr}>'\<close>\<close>

definition title_attr_of :: "string \<Rightarrow> string" where
  \<open>title_attr_of t = '' title="'' @ t @ ''"''\<close>

definition anchor_open :: "string \<Rightarrow> string" where
  \<open>anchor_open title_attr = ''<a href="javascript:;" '' @ title_attr @ ''>''\<close>

definition html_header :: "Serialization \<Rightarrow> string \<Rightarrow> string \<Rightarrow> string run" where
  "html_header s spaces_replacement export =
     for_loop [0..<snd (shape s)] (\<lambda>col_i export.
       bind (py_index (columns_labels (cell_indices s)) (col_i + snd (export_offset s))) (\<lambda>col.
       bind (case columns_help_text (cell_indices s) of
               Some help_text \<Rightarrow>
                 bind (py_index help_text (col_i + snd (export_offset s))) (\<lambda>t.
                 ret (title_attr_of t))
             | None \<Rightarrow> ret []) (\<lambda>title_attr.
       ret (export @ ''<th>'' @ anchor_open title_attr
              @ replace_spaces spaces_replacement col @ ''</a>'' @ ''</th>''))))
       export"

definition html_cell ::
  "(pyobj \<Rightarrow> string) \<Rightarrow> Serialization \<Rightarrow> string \<Rightarrow> string option \<Rightarrow> nat \<Rightarrow> nat \<Rightarrow> string \<Rightarrow> string run" where
  "html_cell py_str s na_rep language_for_description row_idx col_idx export =
     bind (get_cell_at s row_idx col_idx) (\<lambda>cell_at_pos.
     bind (case description cell_at_pos of
             Some d \<Rightarrow> ret (title_attr_of d)
           | None \<Rightarrow>
               (case language_for_description of
                  Some lang \<Rightarrow>
                    if cell_type cell_at_pos = computational then
                      bind (py_getitem (constructing_words cell_at_pos) lang) (\<lambda>title.
                      ret (title_attr_of title))
                    else ret []
                | None \<Rightarrow> ret [])) (\<lambda>title_attr.
     ret (export @ ''<td>'' @ anchor_open title_attr
            @ (if cell_value cell_at_pos = PNone then na_rep
               else py_str (cell_value cell_at_pos))
            @ ''</a>'' @ ''</td>'')))"

definition html_row ::
  "(pyobj \<Rightarrow> string) \<Rightarrow> Serialization \<Rightarrow> string \<Rightarrow> string \<Rightarrow> string option \<Rightarrow> nat \<Rightarrow> string \<Rightarrow>
   string run" where
  "html_row py_str s spaces_replacement na_rep language_for_description row_idx export =
     bind (case rows_help_text (cell_indices s) of
             Some help_text \<Rightarrow>
               bind (py_index help_text (row_idx + snd (export_offset s))) (\<lambda>t.
               ret (title_attr_of t))
           | None \<Rightarrow> ret []) (\<lambda>title_attr.
     bind (py_index (rows_labels (cell_indices s)) (row_idx + fst (export_offset s))) (\<lambda>label.
     bind (for_loop [0..<snd (shape s)]
             (html_cell py_str s na_rep language_for_description row_idx)
             (export @ ''<tr>'' @ ''<td>'' @ anchor_open title_attr
                @ replace_spaces spaces_replacement label @ ''</a>'' @ ''</td>'')) (\<lambda>export.
     ret (export @ ''</tr>''))))"

definition to_html_table ::
  "(pyobj \<Rightarrow> string) \<Rightarrow> Serialization \<Rightarrow> string \<Rightarrow> string \<Rightarrow> string \<Rightarrow> string option \<Rightarrow> string run" where
  "to_html_table py_str s spaces_replacement top_right_corner_text na_rep
      language_for_description =
     bind (log_export_subset_warning_if_needed s) (\<lambda>_.
     bind (html_header s spaces_replacement
             (''<table>'' @ ''<tr>'' @ ''<th>'' @ top_right_corner_text @ ''</th>'')) (\<lambda>export.
     bind (for_loop [0..<fst (shape s)]
             (html_row py_str s spaces_replacement na_rep language_for_description)
             (export @ ''</tr>'')) (\<lambda>export.
     ret (export @ ''</table>''))))"

section \<open>Notions used to state the properties\<close>

text \<open>
  \<open>non_numeric\<close> is the test of the branch of \<open>to_numpy\<close> that sets
  \<open>contains_nonumeric_values\<close>: the value is not \<open>None\<close> and not a \<open>Number\<close>.
  \<open>storable v\<close>: the array takes \<open>v\<close> if \<open>v\<close> is a number, and \<open>np_of v\<close> is what
  \<open>to_numpy\<close> then stores for \<open>v\<close>: the double of a number, NaN for everything else.
\<close>

definition non_numeric :: "pyobj \<Rightarrow> bool" where
  "non_numeric v = (v \<noteq> PNone \<and> \<not> is_number v)"

definition storable :: "pyobj \<Rightarrow> bool" where
  "storable v = (case float64_of v of Inr x \<Rightarrow> True | Inl e \<Rightarrow> \<not> is_number v)"

definition np_of :: "pyobj \<Rightarrow> npfloat" where
  "np_of v = (case float64_of v of Inr x \<Rightarrow> if is_number v then x else NaN | Inl e \<Rightarrow> NaN)"

definition np_row :: "Serialization \<Rightarrow> nat \<Rightarrow> npfloat list" where
  "np_row s r = map (\<lambda>c. np_of (cell_value (cell_at s r c))) [0..<snd (shape s)]"

text \<open>The reads of a row-major traversal of the whole shape.\<close>

definition cell_reads :: "Serialization \<Rightarrow> event list" where
  "cell_reads s = concat (map (\<lambda>r. map (CellRead r) [0..<snd (shape s)]) [0..<fst (shape s)])"

definition is_cell_read :: "event \<Rightarrow> bool" where
  "is_cell_read e = (case e of CellRead r c \<Rightarrow> True | _ \<Rightarrow> False)"

subsection \<open>Concrete sheets\<close>

definition plain_cell :: "pyobj \<Rightarrow> Cell" where
  "plain_cell v =
     \<lparr>cell_value = v, cell_type = value_only, parse = (\<lambda>l. Some (''text in '' @ l)),
      description = None, excel_format = [], constructing_words = (\<lambda>l. None)\<rparr>"

definition grid_of :: "pyobj list list \<Rightarrow> nat \<Rightarrow> nat \<Rightarrow> Cell" where
  "grid_of rows r c =
     (if r < length rows \<and> c < length (rows ! r) then plain_cell (rows ! r ! c)
      else plain_cell PNone)"

definition no_variables :: SheetVariables where
  "no_variables = \<lparr>vars_empty = True, variables_dict = []\<rparr>"

text \<open>The sheet with the values \<open>[[7, None], [9, 10]]\<close>.\<close>

definition sheet_7_none_9_10 :: Serialization where
  "sheet_7_none_9_10 =
     \<lparr>export_offset = (0, 0), export_subset = False, shape = (2, 2),
      cell_indices =
        \<lparr>rows_labels = [''r0'', ''r1''], columns_labels = [''c0'', ''c1''],
         rows_help_text = None, columns_help_text = None,
         languages = [''python'', ''excel''], excel_append_labels = True\<rparr>,
      cell_at = grid_of [[PInt 7, PNone], [PInt 9, PInt 10]],
      get_variables = no_variables\<rparr>"

text \<open>The sheet with the values \<open>[[7, None], ["n/a", 10]]\<close>.\<close>

definition sheet_7_none_text_10 :: Serialization where
  "sheet_7_none_text_10 =
     sheet_7_none_9_10\<lparr>cell_at := grid_of [[PInt 7, PNone], [PStr ''n/a'', PInt 10]]\<rparr>"

text \<open>
  A sheet exported from its second row on: one exported row, one column, the row offset 1
  and the column offset 0, with help texts on both axes.
\<close>

definition sheet_row_offset :: Serialization where
  "sheet_row_offset =
     \<lparr>export_offset = (1, 0), export_subset = False, shape = (1, 1),
      cell_indices =
        \<lparr>rows_labels = [''r0'', ''r1''], columns_labels = [''c0''],
         rows_help_text = Some [''help r0'', ''help r1''],
         columns_help_text = Some [''help c0''],
         languages = [''python'', ''excel''], excel_append_labels = True\<rparr>,
      cell_at = grid_of [[PInt 5]],
      get_variables = no_variables\<rparr>"

subsection \<open>The subset warning in a trace\<close>

text \<open>
  \<open>quiet\<close>: the run does not send the subset warning. \<open>subset_warning_first\<close>: with
  \<open>export_subset\<close> the trace starts with the subset warning and holds no other one;
  without \<open>export_subset\<close> the trace holds none. \<open>excel_arguments_ok\<close> is the sanity
  check at the head of \<open>to_excel\<close>.
\<close>

definition quiet :: "'a run \<Rightarrow> bool" where
  "quiet m = (Warn subset_warning \<notin> set (fst m))"

definition subset_warning_first :: "Serialization \<Rightarrow> event list \<Rightarrow> bool" where
  "subset_warning_first s evs =
     (if export_subset s
      then (case evs of [] \<Rightarrow> False
            | e # rest \<Rightarrow> e = Warn subset_warning \<and> Warn subset_warning \<notin> set rest)
      else Warn subset_warning \<notin> set evs)"

definition excel_arguments_ok :: "string \<Rightarrow> pyobj \<Rightarrow> bool" where
  "excel_arguments_ok file_path sheet_name =
     (py_in ''.xlsx'' (py_last_n 5 file_path) \<and>
      (case sheet_name of PStr name \<Rightarrow> \<not> length name < 1 | _ \<Rightarrow> False))"

subsection \<open>Calls that write to the main worksheet\<close>

text \<open>
  \<open>main_write_pos\<close> is the position of a call of \<open>write\<close> or \<open>write_formula\<close> on the
  main worksheet; \<open>write_called evs r c\<close> says that the trace holds such a call for the
  position \<open>(r, c)\<close>. \<open>excel_offset\<close> is the local \<open>offset\<close> of the data loop of
  \<open>to_excel\<close>, \<open>excel_data\<close> the data loop itself, and \<open>data_write s p\<close> says that \<open>p\<close>
  is the shifted position of a cell of the shape whose value is not \<open>None\<close>.
  \<open>every_event P m\<close>: every event of the run satisfies \<open>P\<close>.
\<close>

definition main_write_pos :: "event \<Rightarrow> (nat \<times> nat) option" where
  "main_write_pos e =
     (case e of
        SheetWrite MainSheet r c v f \<Rightarrow> Some (r, c)
      | SheetWriteFormula MainSheet r c t v f \<Rightarrow> Some (r, c)
      | _ \<Rightarrow> None)"

definition write_called :: "event list \<Rightarrow> nat \<Rightarrow> nat \<Rightarrow> bool" where
  "write_called evs r c = (Some (r, c) \<in> set (map main_write_pos evs))"

definition every_event :: "(event \<Rightarrow> bool) \<Rightarrow> 'a run \<Rightarrow> bool" where
  "every_event P m = (\<forall>e \<in> set (fst m). P e)"

definition excel_offset :: "Serialization \<Rightarrow> nat" where
  "excel_offset s = (if excel_append_labels (cell_indices s) then 1 else 0)"

definition excel_data :: "Serialization \<Rightarrow> unit run" where
  "excel_data s =
     for_loop [0..<fst (shape s)] (\<lambda>row_idx.
       for_loop [0..<snd (shape s)] (excel_cell s row_idx)) ()"

definition data_write :: "Serialization \<Rightarrow> nat \<times> nat \<Rightarrow> bool" where
  "data_write s p =
     (\<exists>r < fst (shape s). \<exists>c < snd (shape s).
        p = (r + excel_offset s, c + excel_offset s) \<and> cell_value (cell_at s r c) \<noteq> PNone)"

subsection \<open>The dictionary that to_dictionary builds\<close>

text \<open>
  The pure content of the loops of \<open>to_dictionary\<close>, used to state what a call that
  returns has built. \<open>dict_cell_of\<close> is the cell selected for the primary index \<open>idx_x\<close>
  and the secondary index \<open>idx_y\<close>; \<open>record_of\<close> is \<open>pseudolang_and_val\<close>, \<open>base_record\<close>
  the same with the replacement for \<open>None\<close> applied; \<open>with_help\<close> adds the \<open>help_text\<close>
  entry when the axis has help texts; \<open>skipped\<close> is the test before \<open>continue\<close>.
  \<open>axis_range\<close>, \<open>axis_labels\<close>, \<open>axis_help\<close> and \<open>axis_key\<close> are the range, the sliced
  labels, the sliced help texts and the key of the row axis (\<open>True\<close>) or the column axis
  (\<open>False\<close>): \<open>x\<close> is the axis \<open>by_row\<close> and \<open>y\<close> the axis \<open>\<not> by_row\<close>.
  \<open>last_where P n\<close> is the greatest index below \<open>n\<close> that satisfies \<open>P\<close>.
  \<open>cell_entry out k1 l1 k2 l2\<close> is \<open>out[k1][l1][k2][l2]\<close> when all four keys are there, and
  \<open>without_help\<close> removes the \<open>help_text\<close> entry of a record.
\<close>

definition dict_cell_of :: "Serialization \<Rightarrow> bool \<Rightarrow> nat \<Rightarrow> nat \<Rightarrow> Cell" where
  "dict_cell_of s by_row idx_x idx_y =
     (if by_row then cell_at s idx_x idx_y else cell_at s idx_y idx_x)"

definition record_of :: "string list \<Rightarrow> string list \<Rightarrow> pyobj \<Rightarrow> Cell \<Rightarrow> (string \<times> pyobj) list" where
  "record_of langs langs_used v c =
     AList.update ''description'' (case description c of None \<Rightarrow> PNone | Some t \<Rightarrow> PStr t)
       (AList.update ''value'' v
          (fold (\<lambda>(i, language) d.
                   AList.update (langs_used ! i) (PStr (the (parse c language))) d)
             (enumerate 0 langs) []))"

definition base_record :: "string list \<Rightarrow> string list \<Rightarrow> pyobj \<Rightarrow> Cell \<Rightarrow> (string \<times> pyobj) list" where
  "base_record langs langs_used nan_replacement c =
     record_of langs langs_used
       (if cell_value c = PNone then nan_replacement else cell_value c) c"

definition with_help :: "string list option \<Rightarrow> nat \<Rightarrow> (string \<times> pyobj) list \<Rightarrow> (string \<times> pyobj) list" where
  "with_help help_text idx d =
     (case help_text of None \<Rightarrow> d | Some h \<Rightarrow> AList.update ''help_text'' (PStr (h ! idx)) d)"

definition skipped :: "bool \<Rightarrow> Cell \<Rightarrow> bool" where
  "skipped skip_nan_cell c = (cell_value c = PNone \<and> skip_nan_cell)"

fun last_where :: "(nat \<Rightarrow> bool) \<Rightarrow> nat \<Rightarrow> nat option" where
  "last_where P 0 = None"
| "last_where P (Suc n) = (if P n then Some n else last_where P n)"

definition axis_range :: "Serialization \<Rightarrow> bool \<Rightarrow> nat" where
  "axis_range s rows = (if rows then fst (shape s) else snd (shape s))"

definition axis_labels :: "Serialization \<Rightarrow> string \<Rightarrow> bool \<Rightarrow> string list" where
  "axis_labels s spaces_replacement rows =
     (if rows
      then sliced_labels spaces_replacement (fst (export_offset s)) (rows_labels (cell_indices s))
      else sliced_labels spaces_replacement (snd (export_offset s))
             (columns_labels (cell_indices s)))"

definition axis_help :: "Serialization \<Rightarrow> bool \<Rightarrow> string list option" where
  "axis_help s rows =
     (if rows then sliced_help (fst (export_offset s)) (rows_help_text (cell_indices s))
      else sliced_help (snd (export_offset s)) (columns_help_text (cell_indices s)))"

definition axis_key :: "bool \<Rightarrow> string" where
  "axis_key rows = (if rows then ''rows'' else ''columns'')"

definition used_languages :: "Serialization \<Rightarrow> string list option \<Rightarrow> string list" where
  "used_languages s languages_arg =
     (case languages_arg of None \<Rightarrow> languages (cell_indices s) | Some l \<Rightarrow> l)"

definition used_names ::
  "Serialization \<Rightarrow> string list option \<Rightarrow> string list option \<Rightarrow> string list" where
  "used_names s languages_arg languages_pseudonyms =
     (case languages_pseudonyms of None \<Rightarrow> used_languages s languages_arg | Some p \<Rightarrow> p)"

definition dict_entry ::
  "Serialization \<Rightarrow> string list option \<Rightarrow> bool \<Rightarrow> string list option \<Rightarrow> pyobj \<Rightarrow> nat \<Rightarrow> nat \<Rightarrow> pyobj" where
  "dict_entry s languages_arg by_row languages_pseudonyms nan_replacement idx_x idx_y =
     PDict (with_help (axis_help s (\<not> by_row)) idx_y
       (base_record (used_languages s languages_arg)
          (used_names s languages_arg languages_pseudonyms) nan_replacement
          (dict_cell_of s by_row idx_x idx_y)))"

definition inner_dict ::
  "Serialization \<Rightarrow> string list option \<Rightarrow> bool \<Rightarrow> string list option \<Rightarrow> string \<Rightarrow> bool \<Rightarrow> pyobj \<Rightarrow>
   nat \<Rightarrow> (string \<times> pyobj) list" where
  "inner_dict s languages_arg by_row languages_pseudonyms spaces_replacement skip_nan_cell
      nan_replacement idx_x =
     fold (\<lambda>idx_y acc.
             if skipped skip_nan_cell (dict_cell_of s by_row idx_x idx_y) then acc
             else AList.update (axis_labels s spaces_replacement (\<not> by_row) ! idx_y)
                    (dict_entry s languages_arg by_row languages_pseudonyms nan_replacement
                       idx_x idx_y) acc)
       [0..<axis_range s (\<not> by_row)] []"

definition row_entry ::
  "Serialization \<Rightarrow> string list option \<Rightarrow> bool \<Rightarrow> string list option \<Rightarrow> string \<Rightarrow> bool \<Rightarrow> pyobj \<Rightarrow>
   nat \<Rightarrow> pyobj" where
  "row_entry s languages_arg by_row languages_pseudonyms spaces_replacement skip_nan_cell
      nan_replacement idx_x =
     PDict (with_help (axis_help s by_row) idx_x
       [(axis_key (\<not> by_row),
         PDict (inner_dict s languages_arg by_row languages_pseudonyms spaces_replacement
                  skip_nan_cell nan_replacement idx_x))])"

definition outer_dict ::
  "Serialization \<Rightarrow> string list option \<Rightarrow> bool \<Rightarrow> string list option \<Rightarrow> string \<Rightarrow> bool \<Rightarrow> pyobj \<Rightarrow>
   (string \<times> pyobj) list" where
  "outer_dict s languages_arg by_row languages_pseudonyms spaces_replacement skip_nan_cell
      nan_replacement =
     fold (\<lambda>idx_x acc.
             AList.update (axis_labels s spaces_replacement by_row ! idx_x)
               (row_entry s languages_arg by_row languages_pseudonyms spaces_replacement
                  skip_nan_cell nan_replacement idx_x) acc)
       [0..<axis_range s by_row] []"

fun dict_get :: "pyobj \<Rightarrow> string \<Rightarrow> pyobj option" where
  "dict_get (PDict d) k = map_of d k"
| "dict_get _ k = None"

definition cell_entry :: "pyobj \<Rightarrow> string \<Rightarrow> string \<Rightarrow> string \<Rightarrow> string \<Rightarrow> pyobj option" where
  "cell_entry out k1 l1 k2 l2 =
     Option.bind (dict_get out k1) (\<lambda>a.
     Option.bind (dict_get a l1) (\<lambda>b.
     Option.bind (dict_get b k2) (\<lambda>c. dict_get c l2)))"

definition dict_labels_part :: "Serialization \<Rightarrow> string \<Rightarrow> bool \<Rightarrow> (string \<times> pyobj) list \<Rightarrow> (string \<times> pyobj) list" where
  "dict_labels_part s spaces_replacement by_row values =
     AList.update ''column-labels'' (PList (map PStr (axis_labels s spaces_replacement False)))
       (AList.update ''row-labels'' (PList (map PStr (axis_labels s spaces_replacement True)))
          (AList.update ''variables''
             (PDict (map (\<lambda>(n, d). (n, PDict d)) (variables_dict (get_variables s)))) values))"


subsection \<open>Notions for the entries of the dictionary\<close>

text \<open>
  \<open>keys_once\<close>: the object is a dictionary and no key occurs twice in it.
  \<open>result_entry m k1 l1 k2 l2\<close> is \<open>out[k1][l1][k2][l2]\<close> for the dictionary \<open>out\<close> that the
  run returns, and nothing when the run raises.
\<close>

definition keys_once :: "pyobj \<Rightarrow> bool" where
  "keys_once d = (case d of PDict al \<Rightarrow> distinct (map fst al) | _ \<Rightarrow> False)"

definition result_entry :: "pyobj run \<Rightarrow> string \<Rightarrow> string \<Rightarrow> string \<Rightarrow> string \<Rightarrow> pyobj option" where
  "result_entry m k1 l1 k2 l2 =
     (case snd m of Inr out \<Rightarrow> cell_entry out k1 l1 k2 l2 | Inl e \<Rightarrow> None)"

text \<open>
  A sheet of one row whose two columns carry the same label \<open>c\<close>; the first cell holds 5
  and the second one \<open>None\<close>.
\<close>

definition sheet_duplicate_columns :: Serialization where
  "sheet_duplicate_columns =
     \<lparr>export_offset = (0, 0), export_subset = False, shape = (1, 2),
      cell_indices =
        \<lparr>rows_labels = [''r0''], columns_labels = [''c'', ''c''],
         rows_help_text = None, columns_help_text = None,
         languages = [''excel''], excel_append_labels = False\<rparr>,
      cell_at = grid_of [[PInt 5, PNone]],
      get_variables = no_variables\<rparr>"

text \<open>A sheet of one row: the text \<open>x\<close> and the complex number \<open>1j\<close>.\<close>

definition sheet_text_complex :: Serialization where
  "sheet_text_complex =
     \<lparr>export_offset = (0, 0), export_subset = False, shape = (1, 2),
      cell_indices =
        \<lparr>rows_labels = [''r0''], columns_labels = [''c0'', ''c1''],
         rows_help_text = None, columns_help_text = None,
         languages = [''excel''], excel_append_labels = False\<rparr>,
      cell_at = grid_of [[PStr ''x'', PComplex 0 1]],
      get_variables = no_variables\<rparr>"

text \<open>
  A sheet whose two rows carry the same label \<open>a\<close>: the values are \<open>[[5, 6], [7, None]]\<close>
  and the columns are labelled \<open>c\<close> and \<open>d\<close>.
\<close>

definition sheet_duplicate_rows :: Serialization where
  "sheet_duplicate_rows =
     \<lparr>export_offset = (0, 0), export_subset = False, shape = (2, 2),
      cell_indices =
        \<lparr>rows_labels = [''a'', ''a''], columns_labels = [''c'', ''d''],
         rows_help_text = None, columns_help_text = None,
         languages = [''excel''], excel_append_labels = False\<rparr>,
      cell_at = grid_of [[PInt 5, PInt 6], [PInt 7, PNone]],
      get_variables = no_variables\<rparr>"

subsection \<open>What the flat and the textual encoders return\<close>

text \<open>
  The pure content of the loops of the flat and the textual encoders, used to state what a
  call that returns has built: every cell of the shape contributes, in row-major order.
  \<open>cell_text\<close> is the text of a value where \<open>na_rep\<close> stands for \<open>None\<close>.
  \<open>values_2d\<close> and \<open>values_text\<close> are the results of \<open>to_2d_list\<close> and
  \<open>to_string_of_values\<close>; \<open>csv_text\<close>, \<open>markdown_text\<close> and \<open>html_text\<close> are the
  header followed by the rows of \<open>to_csv\<close>, \<open>to_markdown\<close> and \<open>to_html_table\<close>.
  \<open>markdown_cell_end\<close> is what follows a cell of a Markdown row, \<open>html_help_title\<close> the
  \<open>title\<close> attribute taken from a help text and \<open>html_cell_title\<close> the one of a cell.
  The tooltip of a row label is read at the index \<open>row_idx + export_offset[1]\<close>, as in the
  source. \<open>label_once labels n i\<close>: among the first \<open>n\<close> labels, the label at \<open>i\<close> occurs
  only there.
\<close>

definition cell_text :: "(pyobj \<Rightarrow> string) \<Rightarrow> string \<Rightarrow> pyobj \<Rightarrow> string" where
  "cell_text py_str na_rep v = (if v = PNone then na_rep else py_str v)"

definition values_2d :: "Serialization \<Rightarrow> pyobj list list" where
  "values_2d s =
     map (\<lambda>r. map (\<lambda>c. cell_value (cell_at s r c)) [0..<snd (shape s)]) [0..<fst (shape s)]"

definition values_row_text :: "(pyobj \<Rightarrow> string) \<Rightarrow> Serialization \<Rightarrow> nat \<Rightarrow> string" where
  "values_row_text py_str s r =
     ''['' @ concat (map (\<lambda>c. py_str (cell_value (cell_at s r c))
                              @ (if c + 1 < snd (shape s) then '', '' else []))
                   [0..<snd (shape s)])
     @ '']'' @ (if r + 1 < fst (shape s) then '','' @ [CHR 0x0A] else [])"

definition values_text :: "(pyobj \<Rightarrow> string) \<Rightarrow> Serialization \<Rightarrow> string" where
  "values_text py_str s =
     ''['' @ concat (map (values_row_text py_str s) [0..<fst (shape s)]) @ '']''"

definition csv_header_text :: "Serialization \<Rightarrow> string \<Rightarrow> string \<Rightarrow> string \<Rightarrow> string \<Rightarrow> string" where
  "csv_header_text s spaces_replacement top_right_corner_text sep line_terminator =
     top_right_corner_text @ sep
     @ concat (map (\<lambda>col_i.
                 replace_spaces spaces_replacement
                   (columns_labels (cell_indices s) ! (col_i + snd (export_offset s)))
                 @ (if col_i + 1 < snd (shape s) then sep else []))
               [0..<snd (shape s)])
     @ (if 0 < fst (shape s) then line_terminator else [])"

definition csv_row_text ::
  "(pyobj \<Rightarrow> string) \<Rightarrow> Serialization \<Rightarrow> string \<Rightarrow> string \<Rightarrow> string \<Rightarrow> string \<Rightarrow> nat \<Rightarrow> string" where
  "csv_row_text py_str s spaces_replacement sep line_terminator na_rep row_idx =
     replace_spaces spaces_replacement
       (rows_labels (cell_indices s) ! (row_idx + fst (export_offset s))) @ sep
     @ concat (map (\<lambda>col_idx.
                 cell_text py_str na_rep (cell_value (cell_at s row_idx col_idx))
                 @ (if col_idx + 1 < snd (shape s) then sep else []))
               [0..<snd (shape s)])
     @ (if row_idx + 1 < fst (shape s) then line_terminator else [])"

definition csv_text ::
  "(pyobj \<Rightarrow> string) \<Rightarrow> Serialization \<Rightarrow> string \<Rightarrow> string \<Rightarrow> string \<Rightarrow> string \<Rightarrow> string \<Rightarrow> string" where
  "csv_text py_str s spaces_replacement top_right_corner_text sep line_terminator na_rep =
     csv_header_text s spaces_replacement top_right_corner_text sep line_terminator
     @ concat (map (csv_row_text py_str s spaces_replacement sep line_terminator na_rep)
                 [0..<fst (shape s)])"

definition markdown_cell_end :: "Serialization \<Rightarrow> nat \<Rightarrow> string" where
  "markdown_cell_end s col_idx =
     (if col_idx + 1 < snd (shape s) then '' | ''
      else if col_idx + 1 = snd (shape s) then '' |'' @ [CHR 0x0A] else [])"

definition markdown_header_text :: "Serialization \<Rightarrow> string \<Rightarrow> string \<Rightarrow> string" where
  "markdown_header_text s spaces_replacement top_right_corner_text =
     ''| '' @ top_right_corner_text @ '' |''
     @ concat (map (\<lambda>col_i.
                 ''*'' @ replace_spaces spaces_replacement
                          (columns_labels (cell_indices s) ! (col_i + snd (export_offset s)))
                 @ ''*'' @ markdown_cell_end s col_i)
               [0..<snd (shape s)])
     @ ''|----|''
     @ concat (map (\<lambda>col_i. ''----|'' @ (if col_i + 1 = snd (shape s) then [CHR 0x0A] else []))
               [0..<snd (shape s)])"

definition markdown_row_text ::
  "(pyobj \<Rightarrow> string) \<Rightarrow> Serialization \<Rightarrow> string \<Rightarrow> string \<Rightarrow> nat \<Rightarrow> string" where
  "markdown_row_text py_str s spaces_replacement na_rep row_idx =
     ''| *'' @ replace_spaces spaces_replacement
                (rows_labels (cell_indices s) ! (row_idx + fst (export_offset s)))
     @ ''*'' @ '' | ''
     @ concat (map (\<lambda>col_idx.
                 cell_text py_str na_rep (cell_value (cell_at s row_idx col_idx))
                 @ markdown_cell_end s col_idx)
               [0..<snd (shape s)])"

definition markdown_text ::
  "(pyobj \<Rightarrow> string) \<Rightarrow> Serialization \<Rightarrow> string \<Rightarrow> string \<Rightarrow> string \<Rightarrow> string" where
  "markdown_text py_str s spaces_replacement top_right_corner_text na_rep =
     markdown_header_text s spaces_replacement top_right_corner_text
     @ concat (map (markdown_row_text py_str s spaces_replacement na_rep) [0..<fst (shape s)])"

definition html_help_title :: "string list option \<Rightarrow> nat \<Rightarrow> string" where
  "html_help_title help_text idx =
     (case help_text of Some h \<Rightarrow> title_attr_of (h ! idx) | None \<Rightarrow> [])"

definition html_cell_title :: "string option \<Rightarrow> Cell \<Rightarrow> string" where
  "html_cell_title language_for_description c =
     (case description c of
        Some d \<Rightarrow> title_attr_of d
      | None \<Rightarrow>
          (case language_for_description of
             Some lang \<Rightarrow>
               if cell_type c = computational
               then title_attr_of (the (constructing_words c lang)) else []
           | None \<Rightarrow> []))"

definition html_cell_text :: "(pyobj \<Rightarrow> string) \<Rightarrow> string \<Rightarrow> string option \<Rightarrow> Cell \<Rightarrow> string" where
  "html_cell_text py_str na_rep language_for_description c =
     ''<td>'' @ anchor_open (html_cell_title language_for_description c)
     @ cell_text py_str na_rep (cell_value c) @ ''</a>'' @ ''</td>''"

definition html_header_text :: "Serialization \<Rightarrow> string \<Rightarrow> string \<Rightarrow> string" where
  "html_header_text s spaces_replacement top_right_corner_text =
     ''<table>'' @ ''<tr>'' @ ''<th>'' @ top_right_corner_text @ ''</th>''
     @ concat (map (\<lambda>col_i.
                 ''<th>''
                 @ anchor_open (html_help_title (columns_help_text (cell_indices s))
                                  (col_i + snd (export_offset s)))
                 @ replace_spaces spaces_replacement
                     (columns_labels (cell_indices s) ! (col_i + snd (export_offset s)))
                 @ ''</a>'' @ ''</th>'')
               [0..<snd (shape s)])
     @ ''</tr>''"

definition html_row_text ::
  "(pyobj \<Rightarrow> string) \<Rightarrow> Serialization \<Rightarrow> string \<Rightarrow> string \<Rightarrow> string option \<Rightarrow> nat \<Rightarrow> string" where
  "html_row_text py_str s spaces_replacement na_rep language_for_description row_idx =
     ''<tr>'' @ ''<td>''
     @ anchor_open (html_help_title (rows_help_text (cell_indices s))
                      (row_idx + snd (export_offset s)))
     @ replace_spaces spaces_replacement
         (rows_labels (cell_indices s) ! (row_idx + fst (export_offset s)))
     @ ''</a>'' @ ''</td>''
     @ concat (map (\<lambda>col_idx.
                 html_cell_text py_str na_rep language_for_description
                   (cell_at s row_idx col_idx))
               [0..<snd (shape s)])
     @ ''</tr>''"

definition html_text ::
  "(pyobj \<Rightarrow> string) \<Rightarrow> Serialization \<Rightarrow> string \<Rightarrow> string \<Rightarrow> string \<Rightarrow> string option \<Rightarrow> string" where
  "html_text py_str s spaces_replacement top_right_corner_text na_rep language_for_description =
     html_header_text s spaces_replacement top_right_corner_text
     @ concat (map (html_row_text py_str s spaces_replacement na_rep language_for_description)
                 [0..<fst (shape s)])
     @ ''</table>''"

definition label_once :: "string list \<Rightarrow> nat \<Rightarrow> nat \<Rightarrow> bool" where
  "label_once labels n i = (\<forall>k \<in> set [0..<n]. labels ! k = labels ! i \<longrightarrow> k = i)"

section \<open>The effect monad\<close>

lemma bind_ret [simp]: "bind (ret x) f = f x"
  by (simp add: bind_def ret_def)

lemma bind_raise [simp]: "bind (raise e) f = raise e"
  by (simp add: bind_def raise_def)

lemma bind_emit: "bind (emit e) f = (e # fst (f ()), snd (f ()))"
  by (simp add: bind_def emit_def split: prod.splits)

lemma bind_pair [simp]: "bind (es, Inr x) f = (es @ fst (f x), snd (f x))"
  by (simp add: bind_def split: prod.splits)

lemma bind_pair_err [simp]: "bind (es, Inl e) f = (es, Inl e)"
  by (simp add: bind_def)

lemma fst_bind: "fst (bind m f) = (case snd m of Inl e \<Rightarrow> fst m | Inr x \<Rightarrow> fst m @ fst (f x))"
  by (cases m; cases "snd m") (auto simp: bind_def split: prod.splits)

lemma snd_bind: "snd (bind m f) = (case snd m of Inl e \<Rightarrow> Inl e | Inr x \<Rightarrow> snd (f x))"
  by (cases m; cases "snd m") (auto simp: bind_def split: prod.splits)

lemma snd_ret [simp]: "snd (ret x) = Inr x"
  by (simp add: ret_def)

lemma snd_raise [simp]: "snd (raise e) = Inl e"
  by (simp add: raise_def)

lemma snd_py_index: "snd (py_index xs i) = Inr v \<Longrightarrow> v = xs ! i \<and> i < length xs"
  by (auto simp: py_index_def ret_def raise_def split: if_splits)

lemma snd_py_getitem: "snd (py_getitem d k) = Inr v \<Longrightarrow> d k = Some v"
  by (auto simp: py_getitem_def ret_def raise_def split: option.splits)

lemma snd_get_cell_at [simp]: "snd (get_cell_at s r c) = Inr (cell_at s r c)"
  by (simp add: get_cell_at_def bind_emit ret_def)

lemma bind_success:
  assumes "snd (bind m f) = Inr y"
  obtains x where "snd m = Inr x" "snd (f x) = Inr y" "fst (bind m f) = fst m @ fst (f x)"
  using assms by (auto simp: snd_bind fst_bind split: sum.splits)

lemma for_loop_event:
  "e \<in> set (fst (for_loop ns body a)) \<Longrightarrow> \<exists>i \<in> set ns. \<exists>a'. e \<in> set (fst (body i a'))"
proof (induction ns arbitrary: a)
  case Nil
  then show ?case by (simp add: ret_def)
next
  case (Cons n ns)
  then show ?case
    by (fastforce simp: fst_bind split: sum.splits)
qed

lemma for_loop_success:
  "snd (for_loop ns body a) = Inr x \<Longrightarrow> i \<in> set ns \<Longrightarrow>
   \<exists>a' y. snd (body i a') = Inr y \<and> set (fst (body i a')) \<subseteq> set (fst (for_loop ns body a))"
proof (induction ns arbitrary: a)
  case Nil
  then show ?case by simp
next
  case (Cons n ns)
  from Cons.prems(1) obtain y where y: "snd (body n a) = Inr y"
    and rest: "snd (for_loop ns body y) = Inr x"
    by (auto simp: snd_bind split: sum.splits)
  have evs: "fst (for_loop (n # ns) body a) = fst (body n a) @ fst (for_loop ns body y)"
    using y by (simp add: fst_bind)
  show ?case
  proof (cases "i = n")
    case True
    with y evs show ?thesis by auto
  next
    case False
    with Cons.prems(2) have "i \<in> set ns" by simp
    from Cons.IH [OF rest this] evs show ?thesis by auto
  qed
qed

lemma for_loop_fold:
  assumes "snd (for_loop ns body a) = Inr r"
    and "\<And>i a b. i \<in> set ns \<Longrightarrow> snd (body i a) = Inr b \<Longrightarrow> b = g i a"
  shows "r = fold g ns a"
  using assms
proof (induction ns arbitrary: a)
  case Nil
  then show ?case by (simp add: ret_def)
next
  case (Cons n ns)
  from Cons.prems(1) obtain b where b: "snd (body n a) = Inr b"
    and rest: "snd (for_loop ns body b) = Inr r"
    by (auto simp: snd_bind split: sum.splits)
  from Cons.prems(2) [OF _ b] have "b = g n a" by simp
  moreover have "r = fold g ns b"
    using rest Cons.prems(2) by (intro Cons.IH) auto
  ultimately show ?case by simp
qed

lemma every_event_ret [simp]: "every_event P (ret x)"
  by (simp add: every_event_def ret_def)

lemma every_event_raise [simp]: "every_event P (raise e)"
  by (simp add: every_event_def raise_def)

lemma every_event_emit [simp]: "every_event P (emit e) \<longleftrightarrow> P e"
  by (simp add: every_event_def emit_def)

lemma every_event_bind:
  "every_event P m \<Longrightarrow> (\<And>x. every_event P (f x)) \<Longrightarrow> every_event P (bind m f)"
  by (auto simp: every_event_def fst_bind split: sum.splits)

lemma every_event_for_loop:
  "(\<And>i acc. i \<in> set ns \<Longrightarrow> every_event P (body i acc)) \<Longrightarrow> every_event P (for_loop ns body acc)"
  by (induction ns arbitrary: acc) (auto intro: every_event_bind)

lemma every_event_py_index [simp]: "every_event P (py_index xs i)"
  by (simp add: py_index_def)

lemma every_event_py_getitem [simp]: "every_event P (py_getitem d k)"
  by (simp add: py_getitem_def split: option.splits)

lemma every_event_mono:
  "every_event P m \<Longrightarrow> (\<And>e. P e \<Longrightarrow> Q e) \<Longrightarrow> every_event Q m"
  by (auto simp: every_event_def)

lemma every_event_log [simp]:
  "every_event P (log_export_subset_warning_if_needed s) \<longleftrightarrow>
     (export_subset s \<longrightarrow> P (Warn subset_warning))"
  by (simp add: log_export_subset_warning_if_needed_def)

lemma quiet_ret [simp]: "quiet (ret x)"
  by (simp add: quiet_def ret_def)

lemma quiet_raise [simp]: "quiet (raise e)"
  by (simp add: quiet_def raise_def)

lemma quiet_emit [simp]: "quiet (emit e) \<longleftrightarrow> e \<noteq> Warn subset_warning"
  by (auto simp: quiet_def emit_def)

lemma quiet_bind: "quiet m \<Longrightarrow> (\<And>x. quiet (f x)) \<Longrightarrow> quiet (bind m f)"
  by (auto simp: quiet_def fst_bind split: sum.splits)

lemma quiet_for_loop: "(\<And>i acc. quiet (body i acc)) \<Longrightarrow> quiet (for_loop ns body acc)"
  by (induction ns arbitrary: acc) (auto intro: quiet_bind)

lemma quiet_py_index [simp]: "quiet (py_index xs i)"
  by (simp add: py_index_def)

lemma quiet_py_getitem [simp]: "quiet (py_getitem d k)"
  by (simp add: py_getitem_def split: option.splits)

lemma quiet_get_cell_at [simp]: "quiet (get_cell_at s r c)"
  by (simp add: get_cell_at_def quiet_bind)

lemmas quiet_intros = quiet_bind quiet_for_loop

lemma subset_warning_first_log:
  assumes "quiet (f ())"
  shows "subset_warning_first s (fst (bind (log_export_subset_warning_if_needed s) f))"
  using assms
  by (simp add: subset_warning_first_def log_export_subset_warning_if_needed_def bind_emit
        quiet_def)

section \<open>to_numpy: what it returns and what it logs\<close>

declare bit_length.simps [simp del]

lemma bit_length_le: "m < 2 ^ k \<Longrightarrow> bit_length m \<le> k"
proof (induction k arbitrary: m)
  case 0
  then show ?case by (simp add: bit_length.simps)
next
  case (Suc k)
  show ?case
  proof (cases "m = 0")
    case True
    then show ?thesis by (simp add: bit_length.simps)
  next
    case False
    from Suc.prems have "m div 2 < 2 ^ k" by simp
    then have "bit_length (m div 2) \<le> k" by (rule Suc.IH)
    with False show ?thesis by (subst bit_length.simps) simp
  qed
qed

lemma round_to_double_small: "m < 2 ^ 53 \<Longrightarrow> round_to_double m = m"
  using bit_length_le [of m 53] by (simp add: round_to_double_def)

lemma float64_of_small_int:
  assumes "\<bar>n\<bar> < 2 ^ 53"
  shows "float64_of_int n = Inr (Num (real_of_int n))"
proof -
  have small: "nat \<bar>n\<bar> < 2 ^ 53"
    using assms by (simp add: nat_less_iff)
  have "(2::nat) ^ 53 \<le> 2 ^ 1024"
    by (rule power_increasing) simp_all
  with small have "\<not> (2::nat) ^ 1024 \<le> nat \<bar>n\<bar>"
    by linarith
  then show ?thesis
    by (simp add: float64_of_int_def round_to_double_small [OF small] Let_def)
qed

lemma is_number_simps [simp]:
  "\<not> is_number PNone" "\<not> is_number (PStr t)" "\<not> is_number (PList l)"
  "\<not> is_number (PDict d)" "is_number (PBool b)" "is_number (PInt n)" "is_number (PFloat f)"
  "is_number (PComplex re im)"
  by (simp_all add: is_number_def)

lemma storable_simps [simp]:
  "storable PNone" "storable (PStr t)" "storable (PList l)" "storable (PDict d)"
  "storable (PBool b)" "storable (PFloat f)" "\<not> storable (PComplex re im)"
  by (auto simp: storable_def float64_of_def is_number_def split: sum.splits)

lemma storable_int: "storable (PInt n) \<longleftrightarrow> (\<exists>x. float64_of_int n = Inr x)"
  by (auto simp: storable_def float64_of_def is_number_def split: sum.splits)

lemma np_of_simps [simp]:
  "np_of PNone = NaN" "np_of (PStr t) = NaN" "np_of (PList l) = NaN" "np_of (PDict d) = NaN"
  "np_of (PBool b) = Num (if b then 1 else 0)" "np_of (PFloat f) = f"
  by (simp_all add: np_of_def float64_of_def is_number_def)

lemma np_of_small_int [simp]: "\<bar>n\<bar> < 2 ^ 53 \<Longrightarrow> np_of (PInt n) = Num (real_of_int n)"
  by (simp add: np_of_def float64_of_def is_number_def float64_of_small_int)

lemma storable_small_int [simp]: "\<bar>n\<bar> < 2 ^ 53 \<Longrightarrow> storable (PInt n)"
  by (simp add: storable_int float64_of_small_int)

lemma non_numeric_simps [simp]:
  "\<not> non_numeric PNone" "non_numeric (PStr t)" "non_numeric (PList l)" "non_numeric (PDict d)"
  "\<not> non_numeric (PBool b)" "\<not> non_numeric (PInt n)" "\<not> non_numeric (PFloat f)"
  "\<not> non_numeric (PComplex re im)"
  by (simp_all add: non_numeric_def is_number_def)

lemma np_of_not_number: "v = PNone \<or> non_numeric v \<Longrightarrow> np_of v = NaN"
  by (auto simp: np_of_def non_numeric_def split: sum.splits)

lemma numpy_cell_eq:
  assumes "r < fst (nd_shape a)" "c < snd (nd_shape a)" "storable (cell_value (cell_at s r c))"
  shows "numpy_cell s r c (a, f) =
    ([CellRead r c],
     Inr (a\<lparr>nd_data := (nd_data a)[r := (nd_data a ! r)[c := np_of (cell_value (cell_at s r c))]]\<rparr>,
          f \<or> non_numeric (cell_value (cell_at s r c))))"
  using assms
  by (auto simp: numpy_cell_def get_cell_at_def nd_setitem_def bind_emit np_of_def
        non_numeric_def storable_def ret_def split: sum.splits)

lemma numpy_cell_success:
  assumes "snd (numpy_cell s r c st) = Inr y"
  shows "storable (cell_value (cell_at s r c))"
  using assms
  by (auto simp: numpy_cell_def get_cell_at_def bind_emit snd_bind storable_def ret_def
        split: sum.splits if_splits)

lemma numpy_row_loop:
  assumes "r < fst (nd_shape a)" "\<forall>c \<in> set cs. c < snd (nd_shape a)" "r < length (nd_data a)"
    and "\<forall>c \<in> set cs. storable (cell_value (cell_at s r c))"
  shows "for_loop cs (numpy_cell s r) (a, f) =
    (map (CellRead r) cs,
     Inr (a\<lparr>nd_data := (nd_data a)[r :=
            fold (\<lambda>c row. row[c := np_of (cell_value (cell_at s r c))]) cs (nd_data a ! r)]\<rparr>,
          f \<or> (\<exists>c \<in> set cs. non_numeric (cell_value (cell_at s r c)))))"
  using assms
proof (induction cs arbitrary: a f)
  case Nil
  then show ?case by (simp add: ret_def)
next
  case (Cons c cs)
  let ?a = "a\<lparr>nd_data := (nd_data a)[r := (nd_data a ! r)[c := np_of (cell_value (cell_at s r c))]]\<rparr>"
  have "for_loop cs (numpy_cell s r) (?a, f \<or> non_numeric (cell_value (cell_at s r c))) =
     (map (CellRead r) cs,
     Inr (?a\<lparr>nd_data := (nd_data ?a)[r :=
            fold (\<lambda>c row. row[c := np_of (cell_value (cell_at s r c))]) cs (nd_data ?a ! r)]\<rparr>,
          (f \<or> non_numeric (cell_value (cell_at s r c))) \<or>
          (\<exists>c \<in> set cs. non_numeric (cell_value (cell_at s r c)))))"
    using Cons.prems by (intro Cons.IH) simp_all
  then show ?case using Cons.prems
    by (auto simp: numpy_cell_eq)
qed

lemma fold_update_nth:
  "i < length row \<Longrightarrow>
   fold (\<lambda>c row. row[c := g c]) cs row ! i = (if i \<in> set cs then g i else row ! i)"
  by (induction cs arbitrary: row) (auto simp: nth_list_update)

lemma fold_update_length [simp]:
  "length (fold (\<lambda>c row. row[c := g c]) cs row) = length row"
  by (induction cs arbitrary: row) auto

lemma fold_update_all:
  "length row = n \<Longrightarrow> fold (\<lambda>c row. row[c := g c]) [0..<n] row = map g [0..<n]"
  by (rule nth_equalityI) (simp_all add: fold_update_nth)

lemma numpy_rows_loop:
  assumes "nd_shape a = shape s" "\<forall>r \<in> set rs. r < fst (shape s)"
    "length (nd_data a) = fst (shape s)" "\<forall>row \<in> set (nd_data a). length row = snd (shape s)"
    and "\<forall>r \<in> set rs. \<forall>c < snd (shape s). storable (cell_value (cell_at s r c))"
  shows "for_loop rs (\<lambda>r. for_loop [0..<snd (shape s)] (numpy_cell s r)) (a, f) =
    (concat (map (\<lambda>r. map (CellRead r) [0..<snd (shape s)]) rs),
     Inr (a\<lparr>nd_data := fold (\<lambda>r d. d[r := np_row s r]) rs (nd_data a)\<rparr>,
          f \<or> (\<exists>r \<in> set rs. \<exists>c < snd (shape s). non_numeric (cell_value (cell_at s r c)))))"
  using assms
proof (induction rs arbitrary: a f)
  case Nil
  then show ?case by (simp add: ret_def)
next
  case (Cons r rs)
  have r: "r < fst (shape s)" using Cons.prems by simp
  have len: "length (nd_data a ! r) = snd (shape s)" using Cons.prems r by simp
  let ?a = "a\<lparr>nd_data := (nd_data a)[r := np_row s r]\<rparr>"
  let ?f = "f \<or> (\<exists>c \<in> set [0..<snd (shape s)]. non_numeric (cell_value (cell_at s r c)))"
  have row: "for_loop [0..<snd (shape s)] (numpy_cell s r) (a, f) =
      (map (CellRead r) [0..<snd (shape s)], Inr (?a, ?f))"
    using Cons.prems r len by (subst numpy_row_loop) (simp_all add: fold_update_all np_row_def)
  have wf: "\<forall>row \<in> set (nd_data ?a). length row = snd (shape s)"
    using Cons.prems by (auto simp: np_row_def dest!: set_update_subset_insert [THEN subsetD])
  have "for_loop rs (\<lambda>r. for_loop [0..<snd (shape s)] (numpy_cell s r)) (?a, ?f) =
    (concat (map (\<lambda>r. map (CellRead r) [0..<snd (shape s)]) rs),
     Inr (?a\<lparr>nd_data := fold (\<lambda>r d. d[r := np_row s r]) rs (nd_data ?a)\<rparr>,
          ?f \<or> (\<exists>r \<in> set rs. \<exists>c < snd (shape s). non_numeric (cell_value (cell_at s r c)))))"
    using Cons.prems wf by (intro Cons.IH) simp_all
  then show ?case
    by (auto simp: row)
qed

lemma to_numpy_eq:
  assumes "\<forall>r < fst (shape s). \<forall>c < snd (shape s). storable (cell_value (cell_at s r c))"
  shows "to_numpy s =
    ((if export_subset s then [Warn subset_warning] else []) @ cell_reads s @
     (if \<exists>r < fst (shape s). \<exists>c < snd (shape s). non_numeric (cell_value (cell_at s r c))
      then [Warn coercion_warning] else []),
     Inr \<lparr>nd_shape = shape s, nd_data = map (np_row s) [0..<fst (shape s)]\<rparr>)"
proof -
  have "for_loop [0..<fst (shape s)] (\<lambda>r. for_loop [0..<snd (shape s)] (numpy_cell s r))
          (zeros (shape s), False) =
    (cell_reads s,
     Inr ((zeros (shape s))\<lparr>nd_data := fold (\<lambda>r d. d[r := np_row s r]) [0..<fst (shape s)]
                                         (nd_data (zeros (shape s)))\<rparr>,
          False \<or> (\<exists>r \<in> set [0..<fst (shape s)]. \<exists>c < snd (shape s).
                      non_numeric (cell_value (cell_at s r c)))))"
    unfolding cell_reads_def using assms by (intro numpy_rows_loop) (simp_all add: zeros_def)
  moreover have "fold (\<lambda>r d. d[r := np_row s r]) [0..<fst (shape s)] (nd_data (zeros (shape s)))
     = map (np_row s) [0..<fst (shape s)]"
    by (rule fold_update_all) (simp add: zeros_def)
  ultimately show ?thesis
    by (auto simp: to_numpy_def log_export_subset_warning_if_needed_def bind_emit zeros_def
          emit_def ret_def)
qed

lemma to_numpy_success:
  assumes "snd (to_numpy s) = Inr a" "r < fst (shape s)" "c < snd (shape s)"
  shows "storable (cell_value (cell_at s r c))"
proof -
  from assms(1) obtain st where
    loops: "snd (for_loop [0..<fst (shape s)] (\<lambda>row_idx.
             for_loop [0..<snd (shape s)] (numpy_cell s row_idx)) (zeros (shape s), False))
           = Inr st"
    by (auto simp: to_numpy_def snd_bind split: sum.splits)
  from assms(2) have "r \<in> set [0..<fst (shape s)]" by simp
  from for_loop_success [OF loops this]
  obtain st' y where row: "snd (for_loop [0..<snd (shape s)] (numpy_cell s r) st') = Inr y"
    by blast
  from assms(3) have "c \<in> set [0..<snd (shape s)]" by simp
  from for_loop_success [OF row this]
  obtain st'' y' where "snd (numpy_cell s r c st'') = Inr y'"
    by blast
  then show ?thesis by (rule numpy_cell_success)
qed

lemma cell_reads_no_warn [simp]: "Warn m \<notin> set (cell_reads s)"
  by (auto simp: cell_reads_def)

lemma cell_reads_iff:
  "CellRead r c \<in> set (cell_reads s) \<longleftrightarrow> r < fst (shape s) \<and> c < snd (shape s)"
  by (force simp: cell_reads_def)

lemma warnings_differ [simp]:
  "subset_warning \<noteq> coercion_warning" "coercion_warning \<noteq> subset_warning"
  by (simp_all add: subset_warning_def coercion_warning_def)

lemma numpy_cell_events:
  "every_event is_cell_read (numpy_cell s r c st)"
  by (auto simp: numpy_cell_def get_cell_at_def nd_setitem_def every_event_def
        is_cell_read_def bind_def ret_def emit_def raise_def
        split: sum.splits prod.splits if_splits)

lemma numpy_loops_events:
  "every_event is_cell_read
     (for_loop rs (\<lambda>row_idx. for_loop cs (numpy_cell s row_idx)) st)"
  by (intro every_event_for_loop numpy_cell_events)

lemma to_numpy_coercion_at_most_once:
  "count_list (fst (to_numpy s)) (Warn coercion_warning) \<le> 1"
proof -
  let ?loops = "for_loop [0..<fst (shape s)] (\<lambda>row_idx.
             for_loop [0..<snd (shape s)] (numpy_cell s row_idx)) (zeros (shape s), False)"
  have quiet: "count_list (fst ?loops) (Warn coercion_warning) = 0"
    using numpy_loops_events [of "[0..<fst (shape s)]" "[0..<snd (shape s)]" s
        "(zeros (shape s), False)"]
    by (auto simp: count_list_0_iff every_event_def is_cell_read_def)
  show ?thesis
    by (cases "snd ?loops")
       (auto simp: to_numpy_def fst_bind log_export_subset_warning_if_needed_def emit_def ret_def
          quiet split: sum.splits)
qed

lemma sheet_7_none_9_10_storable:
  "\<forall>r < fst (shape sheet_7_none_9_10). \<forall>c < snd (shape sheet_7_none_9_10).
     storable (cell_value (cell_at sheet_7_none_9_10 r c))"
  by (auto simp: sheet_7_none_9_10_def grid_of_def plain_cell_def less_Suc_eq numeral_2_eq_2)

lemma sheet_7_none_text_10_storable:
  "\<forall>r < fst (shape sheet_7_none_text_10). \<forall>c < snd (shape sheet_7_none_text_10).
     storable (cell_value (cell_at sheet_7_none_text_10 r c))"
  by (auto simp: sheet_7_none_text_10_def sheet_7_none_9_10_def grid_of_def plain_cell_def
        less_Suc_eq numeral_2_eq_2)

text \<open>
  Claim C8, as stated, fails: \<open>isinstance(value, Number)\<close> lets a complex number through
  to the \<open>float64\<close> array, which does not take it. On the sheet \<open>[['x', 1j]]\<close> the call
  raises \<open>TypeError\<close> at the second cell and returns no array.
\<close>

theorem to_numpy_complex_counterexample:
  "cell_value (cell_at sheet_text_complex 0 1) = PComplex 0 1 \<and>
   to_numpy sheet_text_complex =
   ([CellRead 0 0, CellRead 0 1],
    Inl (TypeError ''float() argument must be a string or a real number''))"
  by (simp add: to_numpy_def numpy_cell_def nd_setitem_def zeros_def float64_of_def
        sheet_text_complex_def grid_of_def plain_cell_def get_cell_at_def bind_emit
        log_export_subset_warning_if_needed_def ret_def upt_rec numeral_2_eq_2)

text \<open>
  Claim C8, amended. For every sheet whose numbers the \<open>float64\<close> array takes (bool, float,
  and int that does not overflow a double; no complex), \<open>to_numpy\<close> returns an array whose
  shape is the shape of the sheet, with one row per sheet row and one entry per column;
  every cell of the shape is read, and the entry at \<open>(r, c)\<close> is the double of the number
  in the cell at \<open>(r, c)\<close> (an int rounded to the nearest double), or NaN when the cell
  holds no number.
\<close>

theorem to_numpy_shape_and_entries:
  assumes "\<forall>r < fst (shape s). \<forall>c < snd (shape s). storable (cell_value (cell_at s r c))"
  shows "\<exists>evs a. to_numpy s = (evs, Inr a) \<and> nd_shape a = shape s \<and>
     length (nd_data a) = fst (shape s) \<and>
     (\<forall>r < fst (shape s). length (nd_data a ! r) = snd (shape s) \<and>
        (\<forall>c < snd (shape s). CellRead r c \<in> set evs \<and>
           (is_number (cell_value (cell_at s r c)) \<longrightarrow>
              float64_of (cell_value (cell_at s r c)) = Inr (nd_data a ! r ! c)) \<and>
           (\<not> is_number (cell_value (cell_at s r c)) \<longrightarrow> nd_data a ! r ! c = NaN)))"
  using assms
  by (auto simp: to_numpy_eq [OF assms] np_row_def np_of_def storable_def cell_reads_iff
        split: sum.splits)

theorem to_numpy_shape_and_entries_witness:
  "\<exists>evs a. to_numpy sheet_7_none_9_10 = (evs, Inr a) \<and> nd_shape a = (2, 2) \<and>
     length (nd_data a) = 2 \<and> length (nd_data a ! 1) = 2 \<and>
     CellRead 1 0 \<in> set evs \<and> nd_data a ! 1 ! 0 = Num 9 \<and> nd_data a ! 0 ! 1 = NaN"
proof -
  let ?s = sheet_7_none_9_10
  obtain evs a where *: "to_numpy ?s = (evs, Inr a)"
    "nd_shape a = shape ?s"
    "length (nd_data a) = fst (shape ?s)"
    "\<forall>r < fst (shape ?s). length (nd_data a ! r) = snd (shape ?s) \<and>
        (\<forall>c < snd (shape ?s). CellRead r c \<in> set evs \<and>
           (is_number (cell_value (cell_at ?s r c)) \<longrightarrow>
              float64_of (cell_value (cell_at ?s r c)) = Inr (nd_data a ! r ! c)) \<and>
           (\<not> is_number (cell_value (cell_at ?s r c)) \<longrightarrow> nd_data a ! r ! c = NaN))"
    using to_numpy_shape_and_entries [OF sheet_7_none_9_10_storable] by blast
  have sh: "shape ?s = (2, 2)"
    by (simp add: sheet_7_none_9_10_def)
  have v: "cell_value (cell_at ?s (Suc 0) 0) = PInt 9"
    "cell_value (cell_at ?s 0 (Suc 0)) = PNone"
    by (simp_all add: sheet_7_none_9_10_def grid_of_def plain_cell_def)
  have nine: "float64_of (PInt 9) = Inr (Num 9)"
    by (simp add: float64_of_def float64_of_small_int)
  from *(4) sh have row: "length (nd_data a ! 1) = 2 \<and> CellRead 1 0 \<in> set evs \<and>
      (is_number (cell_value (cell_at ?s 1 0)) \<longrightarrow>
         float64_of (cell_value (cell_at ?s 1 0)) = Inr (nd_data a ! 1 ! 0))"
    by simp
  then have "Inr (nd_data a ! 1 ! 0) = float64_of (PInt 9)"
    by (simp add: v)
  then have entry: "nd_data a ! 1 ! 0 = Num 9"
    by (simp only: nine sum.inject)
  from *(4) sh have
    "\<not> is_number (cell_value (cell_at ?s 0 1)) \<longrightarrow> nd_data a ! 0 ! 1 = NaN"
    by simp
  then have none: "nd_data a ! 0 ! 1 = NaN"
    by (simp add: v)
  show ?thesis
    using *(1,2,3) sh row entry none by simp
qed

text \<open>
  Claim C1, as stated, fails on the sheet \<open>[[7, None], [9, 10]]\<close>: the call returns
  \<open>[[7, NaN], [9, 10]]\<close>, but the branch for \<open>None\<close> does not set
  \<open>contains_nonumeric_values\<close>, and no coercion notice is sent.
\<close>

theorem to_numpy_none_cell_counterexample:
  "snd (to_numpy sheet_7_none_9_10) =
     Inr \<lparr>nd_shape = (2, 2), nd_data = [[Num 7, NaN], [Num 9, Num 10]]\<rparr> \<and>
   count_list (fst (to_numpy sheet_7_none_9_10)) (Warn coercion_warning) = 0"
  by (simp add: to_numpy_eq [OF sheet_7_none_9_10_storable])
     (simp add: sheet_7_none_9_10_def np_row_def cell_reads_def
        grid_of_def plain_cell_def upt_rec numeral_2_eq_2 Ex_less_Suc All_less_Suc)

text \<open>
  Claim C1, amended. The coercion notice is sent at most once per call. In a call that
  returns, \<open>to_numpy\<close> has stored NaN for \<open>None\<close> and for every value that is not a number,
  and the notice has been sent exactly once when some cell of the shape holds a value
  that is neither \<open>None\<close> nor a number, and not otherwise; a \<open>None\<close> cell alone sends no
  notice.
\<close>

theorem to_numpy_nan_and_coercion_notice:
  "count_list (fst (to_numpy s)) (Warn coercion_warning) \<le> 1 \<and>
   (\<forall>a. snd (to_numpy s) = Inr a \<longrightarrow>
      (\<forall>r < fst (shape s). \<forall>c < snd (shape s).
         cell_value (cell_at s r c) = PNone \<or> non_numeric (cell_value (cell_at s r c)) \<longrightarrow>
         nd_data a ! r ! c = NaN) \<and>
      count_list (fst (to_numpy s)) (Warn coercion_warning) =
        (if \<exists>r < fst (shape s). \<exists>c < snd (shape s). non_numeric (cell_value (cell_at s r c))
         then 1 else 0))"
proof (rule conjI)
  show "count_list (fst (to_numpy s)) (Warn coercion_warning) \<le> 1"
    by (rule to_numpy_coercion_at_most_once)
next
  show "\<forall>a. snd (to_numpy s) = Inr a \<longrightarrow>
      (\<forall>r < fst (shape s). \<forall>c < snd (shape s).
         cell_value (cell_at s r c) = PNone \<or> non_numeric (cell_value (cell_at s r c)) \<longrightarrow>
         nd_data a ! r ! c = NaN) \<and>
      count_list (fst (to_numpy s)) (Warn coercion_warning) =
        (if \<exists>r < fst (shape s). \<exists>c < snd (shape s). non_numeric (cell_value (cell_at s r c))
         then 1 else 0)"
  proof (rule allI, rule impI, rule conjI)
  fix a
  assume ok: "snd (to_numpy s) = Inr a"
  then have st: "\<forall>r < fst (shape s). \<forall>c < snd (shape s). storable (cell_value (cell_at s r c))"
    by (auto intro: to_numpy_success)
  note eq = to_numpy_eq [OF st]
  from ok have a: "a = \<lparr>nd_shape = shape s, nd_data = map (np_row s) [0..<fst (shape s)]\<rparr>"
    by (simp add: eq)
  show "\<forall>r < fst (shape s). \<forall>c < snd (shape s).
         cell_value (cell_at s r c) = PNone \<or> non_numeric (cell_value (cell_at s r c)) \<longrightarrow>
         nd_data a ! r ! c = NaN"
    by (simp add: a np_row_def np_of_not_number)
  show "count_list (fst (to_numpy s)) (Warn coercion_warning) =
        (if \<exists>r < fst (shape s). \<exists>c < snd (shape s). non_numeric (cell_value (cell_at s r c))
         then 1 else 0)"
    by (simp add: eq count_list_0_iff)
  qed
qed

theorem to_numpy_nan_and_coercion_notice_witness:
  "\<exists>a. snd (to_numpy sheet_7_none_text_10) = Inr a \<and>
     nd_data a ! 0 ! 1 = NaN \<and> nd_data a ! 1 ! 0 = NaN \<and>
     count_list (fst (to_numpy sheet_7_none_text_10)) (Warn coercion_warning) = 1"
proof -
  let ?s = sheet_7_none_text_10
  obtain a where ok: "snd (to_numpy ?s) = Inr a"
    by (simp add: to_numpy_eq [OF sheet_7_none_text_10_storable])
  note all = to_numpy_nan_and_coercion_notice [of ?s, THEN conjunct2, rule_format, OF ok]
  have sh: "shape ?s = (2, 2)"
    by (simp add: sheet_7_none_text_10_def sheet_7_none_9_10_def)
  have v: "cell_value (cell_at ?s 0 1) = PNone" "non_numeric (cell_value (cell_at ?s 1 0))"
    by (simp_all add: sheet_7_none_text_10_def grid_of_def plain_cell_def)
  have "1 < fst (shape ?s) \<and> 0 < snd (shape ?s) \<and> non_numeric (cell_value (cell_at ?s 1 0))"
    using v(2) sh by simp
  then have ex:
    "\<exists>r < fst (shape ?s). \<exists>c < snd (shape ?s). non_numeric (cell_value (cell_at ?s r c))"
    by blast
  have "nd_data a ! 0 ! 1 = NaN" "nd_data a ! 1 ! 0 = NaN"
    using all [THEN conjunct1] sh v by simp_all
  moreover have "count_list (fst (to_numpy ?s)) (Warn coercion_warning) = 1"
    using all [THEN conjunct2] ex by simp
  ultimately show ?thesis
    using ok by simp
qed

section \<open>Argument checks of to_dictionary and to_excel\<close>

text \<open>
  Claim C6. When a pseudonym list is supplied whose length differs from the length of the
  language list (the argument, or all the languages of the sheet when the argument is
  \<open>None\<close>), \<open>to_dictionary\<close> raises \<open>ValueError\<close>: no dictionary is returned and no cell
  has been read.
\<close>

theorem to_dictionary_pseudonym_mismatch:
  assumes "length pseudonyms \<noteq>
           length (case languages_arg of None \<Rightarrow> languages (cell_indices s) | Some l \<Rightarrow> l)"
  shows "\<exists>evs msg.
           to_dictionary s languages_arg by_row (Some pseudonyms) spaces_replacement
             skip_nan_cell nan_replacement = (evs, Inl (ValueError msg)) \<and>
           \<not> list_ex is_cell_read evs"
  using assms
  by (simp add: to_dictionary_def log_export_subset_warning_if_needed_def bind_emit raise_def
        is_cell_read_def)

theorem to_dictionary_pseudonym_mismatch_witness:
  "\<exists>evs msg.
     to_dictionary sheet_7_none_9_10 (Some [''d1'', ''d2'']) True (Some [''p1'']) '' '' False PNone
       = (evs, Inl (ValueError msg)) \<and> \<not> list_ex is_cell_read evs"
  using to_dictionary_pseudonym_mismatch
          [where pseudonyms = "[''p1'']" and languages_arg = "Some [''d1'', ''d2'']"
             and s = sheet_7_none_9_10 and by_row = True and spaces_replacement = "'' ''"
             and skip_nan_cell = False and nan_replacement = PNone]
  by simp

text \<open>
  Claim C10. With \<open>export_subset\<close> set, a call of \<open>to_dictionary\<close> that fails the
  pseudonym check has sent the subset warning exactly once, and nothing else, before it
  raises: the warning precedes the check.
\<close>

theorem to_dictionary_warns_before_validation:
  assumes "export_subset s"
    and "length pseudonyms \<noteq>
         length (case languages_arg of None \<Rightarrow> languages (cell_indices s) | Some l \<Rightarrow> l)"
  shows "to_dictionary s languages_arg by_row (Some pseudonyms) spaces_replacement
           skip_nan_cell nan_replacement =
         ([Warn subset_warning],
          Inl (ValueError
            ''Language pseudonyms does not have the same size as the language array!''))"
  using assms
  by (simp add: to_dictionary_def log_export_subset_warning_if_needed_def bind_emit raise_def)

theorem to_dictionary_warns_before_validation_witness:
  "to_dictionary (sheet_7_none_9_10\<lparr>export_subset := True\<rparr>) None False (Some [''p1''])
     ''_'' True PNone =
   ([Warn subset_warning],
    Inl (ValueError ''Language pseudonyms does not have the same size as the language array!''))"
  using to_dictionary_warns_before_validation
          [where s = "sheet_7_none_9_10\<lparr>export_subset := True\<rparr>" and pseudonyms = "[''p1'']"
             and languages_arg = None and by_row = False and spaces_replacement = "''_''"
             and skip_nan_cell = True and nan_replacement = PNone]
  by (simp add: sheet_7_none_9_10_def)

lemma py_in_short: "length t \<le> length sub \<Longrightarrow> py_in sub t \<longleftrightarrow> t = sub"
proof (induction t)
  case Nil
  then show ?case by auto
next
  case (Cons c cs)
  then have "py_in sub cs \<longleftrightarrow> cs = sub" by simp
  moreover have "cs \<noteq> sub" using Cons.prems by auto
  ultimately show ?case using Cons.prems by auto
qed

lemma py_last_n_eq_iff:
  assumes "length x = n"
  shows "py_last_n n p = x \<longleftrightarrow> (\<exists>pre. p = pre @ x)"
proof
  assume "py_last_n n p = x"
  then have "take (length p - n) p @ x = p"
    unfolding py_last_n_def by auto
  then have "p = take (length p - n) p @ x"
    by simp
  then show "\<exists>pre. p = pre @ x" ..
next
  assume "\<exists>pre. p = pre @ x"
  then show "py_last_n n p = x"
    using assms by (auto simp: py_last_n_def)
qed

lemma py_in_last_n:
  assumes "length x = n"
  shows "py_in x (py_last_n n p) \<longleftrightarrow> (\<exists>pre. p = pre @ x)"
proof -
  have "length (py_last_n n p) \<le> length x"
    using assms by (simp add: py_last_n_def)
  then have "py_in x (py_last_n n p) \<longleftrightarrow> py_last_n n p = x"
    by (rule py_in_short)
  then show ?thesis
    using py_last_n_eq_iff [OF assms] by simp
qed

lemma xlsx_suffix_check:
  "py_in ''.xlsx'' (py_last_n 5 file_path) \<longleftrightarrow> (\<exists>pre. file_path = pre @ ''.xlsx'')"
  by (rule py_in_last_n) simp

text \<open>
  Claim C7. When the file path does not end in \<open>.xlsx\<close>, or the sheet name is not a
  non-empty string, \<open>to_excel\<close> raises \<open>ValueError\<close> with an empty trace: the workbook
  has not been opened, nothing has been written and nothing has been logged.
\<close>

theorem to_excel_rejects_before_opening:
  assumes "(\<nexists>pre. file_path = pre @ ''.xlsx'') \<or> (\<nexists>name. sheet_name = PStr name \<and> name \<noteq> [])"
  shows "\<exists>msg. to_excel py_str s file_path sheet_name spaces_replacement label_row_format
           label_column_format variables_sheet_name variables_sheet_header =
         ([], Inl (ValueError msg))"
proof (cases "py_in ''.xlsx'' (py_last_n 5 file_path)")
  case False
  then show ?thesis by (simp add: to_excel_def raise_def)
next
  case True
  with assms have bad: "\<nexists>name. sheet_name = PStr name \<and> name \<noteq> []"
    by (auto simp: xlsx_suffix_check)
  show ?thesis
  proof (cases sheet_name)
    case (PStr name)
    with bad have "name = []" by simp
    with True PStr show ?thesis by (simp add: to_excel_def raise_def)
  qed (use True in \<open>simp_all add: to_excel_def raise_def\<close>)
qed

theorem to_excel_rejects_before_opening_witness:
  "(\<exists>msg. to_excel (\<lambda>v. ''?'') (sheet_7_none_9_10\<lparr>export_subset := True\<rparr>) ''out.XLSX''
      (PStr ''Results'') '' '' [] [] None [] = ([], Inl (ValueError msg))) \<and>
   (\<exists>msg. to_excel (\<lambda>v. ''?'') (sheet_7_none_9_10\<lparr>export_subset := True\<rparr>) ''out.xlsx''
      (PStr []) '' '' [] [] None [] = ([], Inl (ValueError msg))) \<and>
   (\<exists>msg. to_excel (\<lambda>v. ''?'') (sheet_7_none_9_10\<lparr>export_subset := True\<rparr>) ''out.xlsx''
      PNone '' '' [] [] None [] = ([], Inl (ValueError msg)))"
proof -
  have suffix: "\<nexists>pre. ''out.XLSX'' = pre @ ''.xlsx''"
    by simp
  have empty: "\<nexists>name. PStr [] = PStr name \<and> name \<noteq> []"
    and no_string: "\<nexists>name. PNone = PStr name \<and> name \<noteq> []"
    by simp_all
  show ?thesis
    by (intro conjI
          to_excel_rejects_before_opening [OF disjI1 [OF suffix]]
          to_excel_rejects_before_opening [OF disjI2 [OF empty]]
          to_excel_rejects_before_opening [OF disjI2 [OF no_string]])
qed

section \<open>to_html_table: the tooltip of a row label\<close>

text \<open>
  Claim C2 fails on the code. \<open>to_html_table\<close> takes the label of exported row \<open>i\<close> from
  \<open>rows_labels[i + export_offset[0]]\<close> but its tooltip from
  \<open>rows_help_text[i + export_offset[1]]\<close>, the column component. On the sheet exported
  from its second row on, the row label is \<open>r1\<close> and its tooltip is the help text of
  \<open>r0\<close>.
\<close>

theorem to_html_table_row_tooltip_uses_column_offset:
  \<open>to_html_table (\<lambda>v. ''5'') sheet_row_offset '' '' ''Sheet'' [] None =
   ([CellRead 0 0],
    Inr (''<table><tr><th>Sheet</th><th><a href="javascript:;"  title="help c0">c0</a></th></tr>''
       @ ''<tr><td><a href="javascript:;"  title="help r0">r1</a></td>''
       @ ''<td><a href="javascript:;" >5</a></td></tr></table>''))\<close>
  by (simp add: to_html_table_def html_header_def html_row_def html_cell_def
        sheet_row_offset_def log_export_subset_warning_if_needed_def get_cell_at_def
        py_index_def bind_emit title_attr_of_def anchor_open_def replace_spaces_def
        grid_of_def plain_cell_def ret_def)

section \<open>The subset warning\<close>

lemma to_string_of_values_first:
  "subset_warning_first s (fst (to_string_of_values py_str s))"
  unfolding to_string_of_values_def
  by (intro subset_warning_first_log quiet_intros) simp_all

lemma to_2d_list_first: "subset_warning_first s (fst (to_2d_list s))"
  unfolding to_2d_list_def
  by (intro subset_warning_first_log quiet_intros) simp_all

lemma to_csv_first:
  "subset_warning_first s
     (fst (to_csv py_str s spaces_replacement top_right_corner_text sep line_terminator na_rep))"
  unfolding to_csv_def csv_header_def csv_row_def
  by (intro subset_warning_first_log quiet_intros) simp_all

lemma to_markdown_first:
  "subset_warning_first s
     (fst (to_markdown py_str s spaces_replacement top_right_corner_text na_rep))"
  unfolding to_markdown_def markdown_header_def markdown_row_def
  by (intro subset_warning_first_log quiet_intros) simp_all

lemma quiet_html_cell: "quiet (html_cell py_str s na_rep lang row_idx col_idx export)"
  unfolding html_cell_def
  by (intro quiet_intros) (auto split: option.splits intro!: quiet_intros)

lemma quiet_html_row: "quiet (html_row py_str s sr na_rep lang row_idx export)"
  unfolding html_row_def
  by (intro quiet_intros quiet_html_cell) (auto split: option.splits intro!: quiet_intros)

lemma quiet_html_header: "quiet (html_header s sr export)"
  unfolding html_header_def
  by (intro quiet_intros) (auto split: option.splits intro!: quiet_intros)

lemma to_html_table_first:
  "subset_warning_first s
     (fst (to_html_table py_str s spaces_replacement top_right_corner_text na_rep lang))"
  unfolding to_html_table_def
  by (intro subset_warning_first_log quiet_intros quiet_html_row quiet_html_header) simp_all

lemma quiet_numpy_cell: "quiet (numpy_cell s r c st)"
  by (auto simp: numpy_cell_def get_cell_at_def nd_setitem_def quiet_def
        bind_def ret_def emit_def raise_def
        split: sum.splits prod.splits if_splits)

lemma to_numpy_first: "subset_warning_first s (fst (to_numpy s))"
  unfolding to_numpy_def
  by (intro subset_warning_first_log quiet_intros quiet_numpy_cell) simp_all

lemma quiet_dict_record: "quiet (dict_record langs langs_used v c)"
  unfolding dict_record_def Let_def
  by (intro quiet_intros) (auto split: prod.splits intro!: quiet_intros)

lemma quiet_dict_cell:
  "quiet (dict_cell s langs langs_used by_row skip nanr y yh idx_x idx_y y_dict)"
  unfolding dict_cell_def Let_def
  by (intro quiet_intros) (auto split: option.splits intro!: quiet_intros quiet_dict_record)

lemma quiet_dict_row:
  "quiet (dict_row s langs langs_used by_row skip nanr x xh y_range y yh yk idx_x x_dict)"
  unfolding dict_row_def Let_def
  by (intro quiet_intros quiet_dict_cell) (auto split: option.splits intro!: quiet_intros)

lemma to_dictionary_first:
  "subset_warning_first s
     (fst (to_dictionary s languages_arg by_row languages_pseudonyms spaces_replacement
        skip_nan_cell nan_replacement))"
  unfolding to_dictionary_def Let_def
  by (intro subset_warning_first_log) (auto intro!: quiet_intros quiet_dict_row)

lemma quiet_excel_cell: "quiet (excel_cell s row_idx col_idx u)"
  unfolding excel_cell_def Let_def
  by (intro quiet_intros) (auto intro!: quiet_intros)

lemma quiet_excel_labels: "quiet (excel_labels s sr cf rf)"
  unfolding excel_labels_def
  by (auto intro!: quiet_intros)

lemma quiet_excel_define_names: "quiet (excel_define_names py_str s)"
  unfolding excel_define_names_def
  by (auto intro!: quiet_intros)

lemma quiet_excel_variables_sheet: "quiet (excel_variables_sheet s vn vh cf)"
  unfolding excel_variables_sheet_def
  by (auto intro!: quiet_intros)

lemma to_excel_first:
  assumes "excel_arguments_ok file_path sheet_name"
  shows "subset_warning_first s
     (fst (to_excel py_str s file_path sheet_name spaces_replacement label_row_format
        label_column_format variables_sheet_name variables_sheet_header))"
proof -
  from assms obtain name where n: "sheet_name = PStr name" "\<not> length name < 1"
    and p: "py_in ''.xlsx'' (py_last_n 5 file_path)"
    by (auto simp: excel_arguments_ok_def split: pyobj.splits)
  show ?thesis
    unfolding to_excel_def using n p
    by (simp del: bind_ret split del: if_split)
       (intro subset_warning_first_log quiet_intros quiet_excel_cell quiet_excel_labels; 
        auto split: option.splits intro!: quiet_excel_define_names quiet_excel_variables_sheet)
qed

lemma to_excel_rejected:
  assumes "\<not> excel_arguments_ok file_path sheet_name"
  shows "fst (to_excel py_str s file_path sheet_name spaces_replacement label_row_format
        label_column_format variables_sheet_name variables_sheet_header) = []"
  using assms
  by (cases sheet_name) (auto simp: to_excel_def excel_arguments_ok_def raise_def)

lemma subset_warning_first_count:
  "subset_warning_first s evs \<Longrightarrow>
   count_list evs (Warn subset_warning) = (if export_subset s then 1 else 0)"
  by (auto simp: subset_warning_first_def count_list_0_iff split: list.splits if_splits)

text \<open>
  Claim C5, as stated, fails for \<open>to_excel\<close>: its sanity check comes before the warning,
  so a call with \<open>export_subset\<close> set and a path that does not end in \<open>.xlsx\<close> raises
  without having sent the subset warning.
\<close>

theorem to_excel_rejected_sends_no_warning_counterexample:
  "export_subset (sheet_7_none_9_10\<lparr>export_subset := True\<rparr>) \<and>
   count_list
     (fst (to_excel (\<lambda>v. ''?'') (sheet_7_none_9_10\<lparr>export_subset := True\<rparr>) ''out.txt''
             (PStr ''Results'') '' '' [] [] None []))
     (Warn subset_warning) = 0"
  by (simp add: to_excel_def py_last_n_def raise_def)

text \<open>
  Claim C5, amended. In every encoder call other than a \<open>to_excel\<close> call rejected by its
  sanity check, the subset warning is sent exactly once when \<open>export_subset\<close> is set and
  never otherwise, and when it is sent it is the first event of the call, before any cell
  is read. A \<open>to_excel\<close> call rejected by its sanity check sends nothing.
\<close>

theorem subset_warning_once_and_first:
  "subset_warning_first s
     (fst (to_dictionary s languages_arg by_row languages_pseudonyms spaces_replacement
             skip_nan_cell nan_replacement)) \<and>
   subset_warning_first s (fst (to_string_of_values py_str s)) \<and>
   subset_warning_first s (fst (to_2d_list s)) \<and>
   subset_warning_first s
     (fst (to_csv py_str s spaces_replacement top_right_corner_text sep line_terminator na_rep)) \<and>
   subset_warning_first s
     (fst (to_markdown py_str s spaces_replacement top_right_corner_text na_rep)) \<and>
   subset_warning_first s (fst (to_numpy s)) \<and>
   subset_warning_first s
     (fst (to_html_table py_str s spaces_replacement top_right_corner_text na_rep
             language_for_description)) \<and>
   (excel_arguments_ok file_path sheet_name \<longrightarrow>
      subset_warning_first s
        (fst (to_excel py_str s file_path sheet_name spaces_replacement label_row_format
                label_column_format variables_sheet_name variables_sheet_header))) \<and>
   (\<not> excel_arguments_ok file_path sheet_name \<longrightarrow>
      fst (to_excel py_str s file_path sheet_name spaces_replacement label_row_format
             label_column_format variables_sheet_name variables_sheet_header) = [])"
  by (intro conjI impI to_dictionary_first to_string_of_values_first to_2d_list_first
        to_csv_first to_markdown_first to_numpy_first to_html_table_first to_excel_first
        to_excel_rejected)

theorem subset_warning_once_and_first_witness:
  "excel_arguments_ok ''out.xlsx'' (PStr ''Results'') \<and>
   subset_warning_first (sheet_7_none_9_10\<lparr>export_subset := True\<rparr>)
     (fst (to_excel (\<lambda>v. ''?'') (sheet_7_none_9_10\<lparr>export_subset := True\<rparr>) ''out.xlsx''
             (PStr ''Results'') '' '' [] [] None [])) \<and>
   \<not> excel_arguments_ok ''out.txt'' (PStr ''Results'') \<and>
   fst (to_excel (\<lambda>v. ''?'') (sheet_7_none_9_10\<lparr>export_subset := True\<rparr>) ''out.txt''
          (PStr ''Results'') '' '' [] [] None []) = []"
proof -
  have ok: "excel_arguments_ok ''out.xlsx'' (PStr ''Results'')"
    by (simp add: excel_arguments_ok_def py_last_n_def)
  have bad: "\<not> excel_arguments_ok ''out.txt'' (PStr ''Results'')"
    by (simp add: excel_arguments_ok_def py_last_n_def)
  show ?thesis
    using ok bad
      subset_warning_once_and_first
        [where file_path = "''out.xlsx''" and sheet_name = "PStr ''Results''"
           and s = "sheet_7_none_9_10\<lparr>export_subset := True\<rparr>"
           and py_str = "\<lambda>v. ''?''" and spaces_replacement = "'' ''"
           and label_row_format = "[]" and label_column_format = "[]"
           and variables_sheet_name = None and variables_sheet_header = "[]"
           and languages_arg = None and by_row = True and languages_pseudonyms = None
           and skip_nan_cell = False and nan_replacement = PNone
           and top_right_corner_text = "''Sheet''" and sep = "'',''" and line_terminator = "[]"
           and na_rep = "[]" and language_for_description = None]
      subset_warning_once_and_first
        [where file_path = "''out.txt''" and sheet_name = "PStr ''Results''"
           and s = "sheet_7_none_9_10\<lparr>export_subset := True\<rparr>"
           and py_str = "\<lambda>v. ''?''" and spaces_replacement = "'' ''"
           and label_row_format = "[]" and label_column_format = "[]"
           and variables_sheet_name = None and variables_sheet_header = "[]"
           and languages_arg = None and by_row = True and languages_pseudonyms = None
           and skip_nan_cell = False and nan_replacement = PNone
           and top_right_corner_text = "''Sheet''" and sep = "'',''" and line_terminator = "[]"
           and na_rep = "[]" and language_for_description = None]
    by simp
qed

section \<open>to_excel: the calls that write cells\<close>

lemma excel_cell_reads: "CellRead r c \<in> set (fst (excel_cell s r c u))"
  by (auto simp: excel_cell_def get_cell_at_def Let_def ret_def emit_def raise_def bind_def
        py_getitem_def split: option.splits)

lemma excel_cell_writes:
  assumes "e \<in> set (fst (excel_cell s r c u))" "main_write_pos e = Some p"
  shows "p = (r + excel_offset s, c + excel_offset s) \<and> cell_value (cell_at s r c) \<noteq> PNone"
  using assms
  by (auto simp: excel_cell_def get_cell_at_def Let_def ret_def emit_def raise_def bind_def
        py_getitem_def main_write_pos_def excel_offset_def
        split: if_splits option.splits)

lemma excel_cell_write_call:
  assumes "snd (excel_cell s r c u) = Inr y" "cell_value (cell_at s r c) \<noteq> PNone"
  shows "\<exists>e \<in> set (fst (excel_cell s r c u)).
           main_write_pos e = Some (r + excel_offset s, c + excel_offset s)"
  using assms
  by (auto simp: excel_cell_def get_cell_at_def Let_def ret_def emit_def raise_def bind_def
        py_getitem_def main_write_pos_def excel_offset_def
        split: if_splits option.splits)

lemma excel_data_writes:
  "every_event (\<lambda>e. \<forall>p. main_write_pos e = Some p \<longrightarrow> data_write s p) (excel_data s)"
  unfolding excel_data_def
  by (intro every_event_for_loop)
     (auto simp: every_event_def data_write_def dest!: excel_cell_writes)

lemma excel_data_complete:
  assumes "snd (excel_data s) = Inr y" "r < fst (shape s)" "c < snd (shape s)"
  shows "CellRead r c \<in> set (fst (excel_data s)) \<and>
         (cell_value (cell_at s r c) \<noteq> PNone \<longrightarrow>
            (\<exists>e \<in> set (fst (excel_data s)).
               main_write_pos e = Some (r + excel_offset s, c + excel_offset s)))"
proof -
  from assms(2) have "r \<in> set [0..<fst (shape s)]" by simp
  from for_loop_success [OF assms(1) [unfolded excel_data_def] this]
  obtain a y' where row: "snd (for_loop [0..<snd (shape s)] (excel_cell s r) a) = Inr y'"
    and sub1: "set (fst (for_loop [0..<snd (shape s)] (excel_cell s r) a))
                 \<subseteq> set (fst (excel_data s))"
    unfolding excel_data_def by blast
  from assms(3) have "c \<in> set [0..<snd (shape s)]" by simp
  from for_loop_success [OF row this]
  obtain u y'' where ok: "snd (excel_cell s r c u) = Inr y''"
    and sub2: "set (fst (excel_cell s r c u))
                 \<subseteq> set (fst (for_loop [0..<snd (shape s)] (excel_cell s r) a))"
    by blast
  show ?thesis
    using excel_cell_reads [of r c s u] excel_cell_write_call [OF ok] sub1 sub2 by blast
qed

lemma excel_labels_writes:
  "every_event (\<lambda>e. \<forall>p. main_write_pos e = Some p \<longrightarrow>
       excel_offset s = 1 \<and> (fst p = 0 \<or> snd p = 0))
     (excel_labels s spaces_replacement col_label_format row_label_format)"
  unfolding excel_labels_def
  by (auto intro!: every_event_bind every_event_for_loop
        simp: main_write_pos_def excel_offset_def)

lemma excel_define_names_writes:
  "every_event (\<lambda>e. main_write_pos e = None) (excel_define_names py_str s)"
  unfolding excel_define_names_def
  by (auto intro!: every_event_bind every_event_for_loop simp: main_write_pos_def)

lemma excel_variables_sheet_writes:
  "every_event (\<lambda>e. main_write_pos e = None) (excel_variables_sheet s vn vh cf)"
  unfolding excel_variables_sheet_def
  by (auto intro!: every_event_bind every_event_for_loop simp: main_write_pos_def)

lemma to_excel_writes:
  "every_event
     (\<lambda>e. \<forall>p. main_write_pos e = Some p \<longrightarrow>
        data_write s p \<or> excel_offset s = 1 \<and> (fst p = 0 \<or> snd p = 0))
     (to_excel py_str s file_path sheet_name spaces_replacement label_row_format
        label_column_format variables_sheet_name variables_sheet_header)"
  unfolding to_excel_def excel_data_def [symmetric]
  by (auto split: pyobj.splits option.splits
        intro!: every_event_bind
          every_event_mono [OF excel_data_writes]
          every_event_mono [OF excel_labels_writes]
          every_event_mono [OF excel_define_names_writes]
          every_event_mono [OF excel_variables_sheet_writes]
        simp: main_write_pos_def)

lemma to_excel_data_part:
  assumes "snd (to_excel py_str s file_path sheet_name spaces_replacement label_row_format
        label_column_format variables_sheet_name variables_sheet_header) = Inr u"
  shows "snd (excel_data s) = Inr () \<and>
         set (fst (excel_data s)) \<subseteq>
         set (fst (to_excel py_str s file_path sheet_name spaces_replacement label_row_format
        label_column_format variables_sheet_name variables_sheet_header))"
  using assms
  unfolding to_excel_def excel_data_def [symmetric]
  by (auto simp: snd_bind fst_bind raise_def split: sum.splits pyobj.splits if_splits)

lemma to_excel_7_none_9_10:
  "to_excel (\<lambda>v. ''?'') sheet_7_none_9_10 ''out.xlsx'' (PStr ''Results'') ''_''
     [(''bold'', PStr ''True'')] [(''bold'', PStr ''True'')] None [] =
   ([WorkbookOpen ''out.xlsx'', AddWorksheet MainSheet ''Results'',
     AddFormat [(''bold'', PStr ''True'')], AddFormat [(''bold'', PStr ''True'')],
     CellRead 0 0, SheetWrite MainSheet 1 1 (PInt 7) None,
     CellRead 0 1,
     CellRead 1 0, SheetWrite MainSheet 2 1 (PInt 9) None,
     CellRead 1 1, SheetWrite MainSheet 2 2 (PInt 10) None,
     SheetWrite MainSheet 0 1 (PStr ''c0'') (Some [(''bold'', PStr ''True'')]),
     SheetWrite MainSheet 0 2 (PStr ''c1'') (Some [(''bold'', PStr ''True'')]),
     SheetWrite MainSheet 1 0 (PStr ''r0'') (Some [(''bold'', PStr ''True'')]),
     SheetWrite MainSheet 2 0 (PStr ''r1'') (Some [(''bold'', PStr ''True'')]),
     WorkbookClose],
    Inr ())"
  by (simp add: to_excel_def py_last_n_def sheet_7_none_9_10_def no_variables_def
        log_export_subset_warning_if_needed_def bind_emit excel_cell_def excel_labels_def
        get_cell_at_def grid_of_def plain_cell_def py_index_def replace_spaces_def
        upt_rec numeral_2_eq_2 ret_def emit_def)

lemma to_excel_write_calls:
  assumes "snd (to_excel py_str s file_path sheet_name spaces_replacement label_row_format
        label_column_format variables_sheet_name variables_sheet_header) = Inr u"
    and r: "r < fst (shape s)" and c: "c < snd (shape s)"
  shows "CellRead r c \<in> set (fst (to_excel py_str s file_path sheet_name spaces_replacement
        label_row_format label_column_format variables_sheet_name variables_sheet_header)) \<and>
     (write_called (fst (to_excel py_str s file_path sheet_name spaces_replacement
        label_row_format label_column_format variables_sheet_name variables_sheet_header))
        (r + excel_offset s) (c + excel_offset s)
      \<longleftrightarrow> cell_value (cell_at s r c) \<noteq> PNone)"
proof -
  let ?evs = "fst (to_excel py_str s file_path sheet_name spaces_replacement
        label_row_format label_column_format variables_sheet_name variables_sheet_header)"
  from to_excel_data_part [OF assms(1)]
  have ok: "snd (excel_data s) = Inr ()" and sub: "set (fst (excel_data s)) \<subseteq> set ?evs"
    by simp_all
  note data = excel_data_complete [OF ok r c]
  have read: "CellRead r c \<in> set ?evs"
    using data sub by blast
  have written: "write_called ?evs (r + excel_offset s) (c + excel_offset s)"
    if "cell_value (cell_at s r c) \<noteq> PNone"
  proof -
    from data that obtain e where "e \<in> set (fst (excel_data s))"
      "main_write_pos e = Some (r + excel_offset s, c + excel_offset s)"
      by blast
    with sub show ?thesis
      unfolding write_called_def by force
  qed
  have not_none: "cell_value (cell_at s r c) \<noteq> PNone"
    if "write_called ?evs (r + excel_offset s) (c + excel_offset s)"
  proof -
    from that obtain e where e: "e \<in> set ?evs"
      "main_write_pos e = Some (r + excel_offset s, c + excel_offset s)"
      unfolding write_called_def by force
    with to_excel_writes [of s py_str file_path sheet_name spaces_replacement label_row_format
        label_column_format variables_sheet_name variables_sheet_header]
    have "data_write s (r + excel_offset s, c + excel_offset s) \<or>
          excel_offset s = 1 \<and> (r + excel_offset s = 0 \<or> c + excel_offset s = 0)"
      unfolding every_event_def by fastforce
    then show ?thesis
      by (auto simp: data_write_def)
  qed
  show ?thesis
    using read written not_none by blast
qed

text \<open>
  Claim C3, as stated, fails for \<open>to_excel\<close>, which guards every write by
  \<open>if cell.value is not None\<close>. On the sheet \<open>[[7, None], [9, 10]]\<close>, exported with its
  labels, the call returns normally and calls neither \<open>write\<close> nor \<open>write_formula\<close> for
  the cell at \<open>(0, 1)\<close>, whose place in the worksheet is \<open>(1, 2)\<close>: nothing is written
  for that cell.
\<close>

theorem to_excel_skips_none_cell_counterexample:
  "cell_value (cell_at sheet_7_none_9_10 0 1) = PNone \<and>
   snd (to_excel (\<lambda>v. ''?'') sheet_7_none_9_10 ''out.xlsx'' (PStr ''Results'') ''_''
          [(''bold'', PStr ''True'')] [(''bold'', PStr ''True'')] None []) = Inr () \<and>
   \<not> write_called
       (fst (to_excel (\<lambda>v. ''?'') sheet_7_none_9_10 ''out.xlsx'' (PStr ''Results'') ''_''
               [(''bold'', PStr ''True'')] [(''bold'', PStr ''True'')] None []))
       (0 + 1) (1 + 1)"
  by (simp add: to_excel_7_none_9_10 write_called_def main_write_pos_def)
     (simp add: sheet_7_none_9_10_def grid_of_def plain_cell_def)

section \<open>to_dictionary: the dictionary of a call that returns\<close>

lemma dict_record_success:
  assumes "snd (dict_record langs langs_used v c) = Inr d"
  shows "d = record_of langs langs_used v c"
proof -
  from assms obtain d0 where
    d0: "snd (for_loop (enumerate 0 langs) (\<lambda>(i, language) d.
                 bind (py_getitem (parse c) language) (\<lambda>txt.
                 bind (py_index langs_used i) (\<lambda>k.
                 ret (AList.update k (PStr txt) d)))) []) = Inr d0"
    and d: "d = AList.update ''description''
                  (case description c of None \<Rightarrow> PNone | Some t \<Rightarrow> PStr t)
                  (AList.update ''value'' v d0)"
    by (auto simp: dict_record_def snd_bind Let_def split: sum.splits)
  have "d0 = fold (\<lambda>(i, language) d.
                   AList.update (langs_used ! i) (PStr (the (parse c language))) d)
             (enumerate 0 langs) []"
    using d0
    by (rule for_loop_fold)
       (auto simp: snd_bind split: sum.splits dest!: snd_py_index snd_py_getitem)
  with d show ?thesis
    by (simp add: record_of_def)
qed

lemma dict_cell_success:
  assumes "snd (dict_cell s langs langs_used by_row skip_nan_cell nan_replacement y y_helptext
                  idx_x idx_y y_dict) = Inr r"
  shows "r = (if skipped skip_nan_cell (dict_cell_of s by_row idx_x idx_y) then y_dict
              else AList.update (y ! idx_y)
                     (PDict (with_help y_helptext idx_y
                        (base_record langs langs_used nan_replacement
                           (dict_cell_of s by_row idx_x idx_y)))) y_dict)"
proof -
  let ?c = "dict_cell_of s by_row idx_x idx_y"
  have cell: "snd (if by_row then get_cell_at s idx_x idx_y else get_cell_at s idx_y idx_x)
                = Inr ?c"
    by (simp add: dict_cell_of_def)
  show ?thesis
    using assms cell
    by (auto simp: dict_cell_def snd_bind skipped_def Let_def with_help_def base_record_def
          split: sum.splits option.splits dest!: dict_record_success snd_py_index)
qed

lemma map_of_fold_update:
  "map_of (fold (\<lambda>j acc. if A j then acc else AList.update (k j) (v j) acc) [0..<n] acc0) l =
   (case last_where (\<lambda>j. \<not> A j \<and> k j = l) n of
      None \<Rightarrow> map_of acc0 l | Some j \<Rightarrow> Some (v j))"
  by (induction n) (auto simp: update_conv')

lemma map_of_fold_update_skip:
  "map_of (fold (\<lambda>j acc. if A j then acc else AList.update (k j) (v j) acc) [0..<n] []) l =
   (case last_where (\<lambda>j. \<not> A j \<and> k j = l) n of None \<Rightarrow> None | Some j \<Rightarrow> Some (v j))"
  by (simp add: map_of_fold_update cong: option.case_cong)

lemma map_of_fold_update_all:
  "map_of (fold (\<lambda>j acc. AList.update (k j) (v j) acc) [0..<n] []) l =
   (case last_where (\<lambda>j. k j = l) n of None \<Rightarrow> None | Some j \<Rightarrow> Some (v j))"
  using map_of_fold_update_skip [of "\<lambda>j. False" k v n l] by simp

lemma inner_loop_success:
  assumes "snd (for_loop [0..<axis_range s (\<not> by_row)]
             (dict_cell s (used_languages s languages_arg)
                (used_names s languages_arg languages_pseudonyms) by_row skip_nan_cell
                nan_replacement (axis_labels s spaces_replacement (\<not> by_row))
                (axis_help s (\<not> by_row)) idx_x) []) = Inr r"
  shows "r = inner_dict s languages_arg by_row languages_pseudonyms spaces_replacement
               skip_nan_cell nan_replacement idx_x"
  unfolding inner_dict_def dict_entry_def
  using assms by (rule for_loop_fold) (auto dest!: dict_cell_success)

lemma dict_row_success:
  assumes "snd (dict_row s (used_languages s languages_arg)
                (used_names s languages_arg languages_pseudonyms) by_row skip_nan_cell
                nan_replacement (axis_labels s spaces_replacement by_row) (axis_help s by_row)
                (axis_range s (\<not> by_row)) (axis_labels s spaces_replacement (\<not> by_row))
                (axis_help s (\<not> by_row)) (axis_key (\<not> by_row)) idx_x x_dict) = Inr r"
  shows "r = AList.update (axis_labels s spaces_replacement by_row ! idx_x)
               (row_entry s languages_arg by_row languages_pseudonyms spaces_replacement
                  skip_nan_cell nan_replacement idx_x) x_dict"
  using assms
  by (auto simp: dict_row_def snd_bind Let_def row_entry_def with_help_def
        split: sum.splits option.splits dest!: inner_loop_success snd_py_index)

lemma to_dictionary_unfold:
  "to_dictionary s languages_arg by_row languages_pseudonyms spaces_replacement
      skip_nan_cell nan_replacement =
   bind (log_export_subset_warning_if_needed s) (\<lambda>_.
     if languages_pseudonyms \<noteq> None \<and>
        length (the languages_pseudonyms) \<noteq> length (used_languages s languages_arg)
     then raise (ValueError
            ''Language pseudonyms does not have the same size as the language array!'')
     else
       bind (for_loop [0..<axis_range s by_row]
               (dict_row s (used_languages s languages_arg)
                  (used_names s languages_arg languages_pseudonyms) by_row skip_nan_cell
                  nan_replacement (axis_labels s spaces_replacement by_row)
                  (axis_help s by_row) (axis_range s (\<not> by_row))
                  (axis_labels s spaces_replacement (\<not> by_row)) (axis_help s (\<not> by_row))
                  (axis_key (\<not> by_row))) []) (\<lambda>x_dict.
       ret (PDict (dict_labels_part s spaces_replacement by_row
                     [(axis_key by_row, PDict x_dict)]))))"
  by (cases by_row; cases languages_pseudonyms)
     (simp_all add: to_dictionary_def Let_def axis_range_def axis_labels_def axis_help_def
        axis_key_def used_languages_def used_names_def dict_labels_part_def
        del: bind_ret cong: if_cong)

lemma to_dictionary_result:
  assumes "snd (to_dictionary s languages_arg by_row languages_pseudonyms spaces_replacement
                  skip_nan_cell nan_replacement) = Inr out"
  shows "out = PDict (dict_labels_part s spaces_replacement by_row
                 [(axis_key by_row,
                   PDict (outer_dict s languages_arg by_row languages_pseudonyms
                            spaces_replacement skip_nan_cell nan_replacement))])"
proof -
  from assms obtain x_dict where
    loop: "snd (for_loop [0..<axis_range s by_row]
               (dict_row s (used_languages s languages_arg)
                  (used_names s languages_arg languages_pseudonyms) by_row skip_nan_cell
                  nan_replacement (axis_labels s spaces_replacement by_row)
                  (axis_help s by_row) (axis_range s (\<not> by_row))
                  (axis_labels s spaces_replacement (\<not> by_row)) (axis_help s (\<not> by_row))
                  (axis_key (\<not> by_row))) []) = Inr x_dict"
    and out: "out = PDict (dict_labels_part s spaces_replacement by_row
                     [(axis_key by_row, PDict x_dict)])"
    unfolding to_dictionary_unfold
    by (auto simp: snd_bind split: sum.splits if_splits)
  have "x_dict = outer_dict s languages_arg by_row languages_pseudonyms
                            spaces_replacement skip_nan_cell nan_replacement"
    unfolding outer_dict_def
    using loop by (rule for_loop_fold) (auto dest!: dict_row_success)
  with out show ?thesis by simp
qed

lemma to_dictionary_lookup:
  assumes "snd (to_dictionary s languages_arg by_row languages_pseudonyms spaces_replacement
                  skip_nan_cell nan_replacement) = Inr out"
  shows "cell_entry out (axis_key by_row) lx (axis_key (\<not> by_row)) ly =
     (case last_where (\<lambda>i. axis_labels s spaces_replacement by_row ! i = lx)
             (axis_range s by_row) of
        None \<Rightarrow> None
      | Some i \<Rightarrow>
          (case last_where
                  (\<lambda>j. \<not> skipped skip_nan_cell (dict_cell_of s by_row i j) \<and>
                       axis_labels s spaces_replacement (\<not> by_row) ! j = ly)
                  (axis_range s (\<not> by_row)) of
             None \<Rightarrow> None
           | Some j \<Rightarrow>
               Some (dict_entry s languages_arg by_row languages_pseudonyms nan_replacement
                       i j)))"
proof -
  have top: "dict_get out (axis_key by_row) =
      Some (PDict (outer_dict s languages_arg by_row languages_pseudonyms
                            spaces_replacement skip_nan_cell nan_replacement))"
    unfolding to_dictionary_result [OF assms]
    by (simp add: dict_labels_part_def update_conv' axis_key_def)
  have outer: "map_of (outer_dict s languages_arg by_row languages_pseudonyms
                            spaces_replacement skip_nan_cell nan_replacement) lx =
      (case last_where (\<lambda>i. axis_labels s spaces_replacement by_row ! i = lx)
             (axis_range s by_row) of
        None \<Rightarrow> None
      | Some i \<Rightarrow> Some (row_entry s languages_arg by_row languages_pseudonyms
                          spaces_replacement skip_nan_cell nan_replacement i))"
    unfolding outer_dict_def by (simp add: map_of_fold_update_all)
  have row: "dict_get (row_entry s languages_arg by_row languages_pseudonyms
                          spaces_replacement skip_nan_cell nan_replacement i)
                (axis_key (\<not> by_row)) =
      Some (PDict (inner_dict s languages_arg by_row languages_pseudonyms spaces_replacement
                  skip_nan_cell nan_replacement i))" for i
    by (simp add: row_entry_def with_help_def update_conv' axis_key_def split: option.splits)
  have inner: "map_of (inner_dict s languages_arg by_row languages_pseudonyms
                  spaces_replacement skip_nan_cell nan_replacement i) ly =
      (case last_where
                  (\<lambda>j. \<not> skipped skip_nan_cell (dict_cell_of s by_row i j) \<and>
                       axis_labels s spaces_replacement (\<not> by_row) ! j = ly)
                  (axis_range s (\<not> by_row)) of
             None \<Rightarrow> None
           | Some j \<Rightarrow>
               Some (dict_entry s languages_arg by_row languages_pseudonyms nan_replacement
                       i j))" for i
    unfolding inner_dict_def by (simp add: map_of_fold_update_skip)
  show ?thesis
    by (simp add: cell_entry_def top outer row inner split: option.splits)
qed

lemma last_where_Some:
  "last_where P n = Some i \<longleftrightarrow> i < n \<and> P i \<and> (\<forall>k. i < k \<and> k < n \<longrightarrow> \<not> P k)"
proof (induction n)
  case 0
  then show ?case by simp
next
  case (Suc n)
  show ?case
  proof (cases "P n")
    case True
    then show ?thesis
      by (auto simp: less_Suc_eq)
  next
    case False
    then show ?thesis
      using Suc by (auto simp: less_Suc_eq)
  qed
qed

lemma last_where_None: "last_where P n = None \<longleftrightarrow> (\<forall>i < n. \<not> P i)"
  by (induction n) (auto simp: less_Suc_eq)

lemma last_where_unique:
  assumes "last_where P n = Some i0"
    and "\<forall>i < n. \<forall>i' < n. P i \<and> P i' \<longrightarrow> i = i'"
  shows "last_where (\<lambda>i. B i \<and> P i) n = (if B i0 then Some i0 else None)"
proof -
  from assms(1) have i0: "i0 < n" "P i0"
    by (simp_all add: last_where_Some)
  show ?thesis
  proof (cases "B i0")
    case True
    have "last_where (\<lambda>i. B i \<and> P i) n = Some i0"
      unfolding last_where_Some using i0 True assms(2) by auto
    with True show ?thesis by simp
  next
    case False
    have "last_where (\<lambda>i. B i \<and> P i) n = None"
      unfolding last_where_None using i0 False assms(2) by auto
    with False show ?thesis by simp
  qed
qed



lemmas to_dictionary_eval =
  to_dictionary_def dict_row_def dict_cell_def dict_record_def no_variables_def
  sliced_labels_def sliced_help_def log_export_subset_warning_if_needed_def get_cell_at_def
  bind_emit py_index_def py_getitem_def replace_spaces_def grid_of_def plain_cell_def ret_def
  Let_def upt_rec numeral_2_eq_2

section \<open>Every encoder visits every cell of the shape\<close>

lemma get_cell_at_bind:
  "bind (get_cell_at s r c) f = (CellRead r c # fst (f (cell_at s r c)), snd (f (cell_at s r c)))"
  by (simp add: get_cell_at_def bind_def emit_def ret_def split: prod.splits sum.splits)

lemma fold_append_concat:
  "fold (\<lambda>i acc. acc @ piece i) ns acc = acc @ concat (map piece ns)"
  by (induction ns arbitrary: acc) simp_all

lemma for_loop_append:
  assumes "snd (for_loop ns body acc) = Inr r"
    and "\<And>i acc r. i \<in> set ns \<Longrightarrow> snd (body i acc) = Inr r \<Longrightarrow> r = acc @ piece i"
  shows "r = acc @ concat (map piece ns)"
  using for_loop_fold [OF assms(1), of "\<lambda>i acc. acc @ piece i"] assms(2)
  by (simp add: fold_append_concat)

lemma for_loop_total:
  assumes "\<And>i acc. i \<in> set ns \<Longrightarrow> body i acc = (ev i, Inr (acc @ piece i))"
  shows "for_loop ns body acc = (concat (map ev ns), Inr (acc @ concat (map piece ns)))"
  using assms
proof (induction ns arbitrary: acc)
  case Nil
  then show ?case by (simp add: ret_def)
next
  case (Cons n ns)
  then show ?case by simp
qed

lemma for_loop_reads:
  assumes "snd (for_loop ns body a) = Inr x" and "i \<in> set ns"
    and "\<And>a' y. snd (body i a') = Inr y \<Longrightarrow> e \<in> set (fst (body i a'))"
  shows "e \<in> set (fst (for_loop ns body a))"
  using for_loop_success [OF assms(1,2)] assms(3) by blast

lemma to_string_of_values_eq:
  "to_string_of_values py_str s =
   ((if export_subset s then [Warn subset_warning] else []) @ cell_reads s,
    Inr (values_text py_str s))"
proof -
  have row: "for_loop [0..<snd (shape s)] (\<lambda>col_idx export.
                     bind (get_cell_at s r col_idx) (\<lambda>c.
                     ret (export @ py_str (cell_value c)
                            @ (if col_idx + 1 < snd (shape s) then '', '' else []))))
                     (export @ ''['') =
     (concat (map (\<lambda>c. [CellRead r c]) [0..<snd (shape s)]),
      Inr ((export @ ''['') @ concat (map (\<lambda>c. py_str (cell_value (cell_at s r c))
                              @ (if c + 1 < snd (shape s) then '', '' else []))
                   [0..<snd (shape s)])))" for r export
    by (rule for_loop_total) (simp add: get_cell_at_bind ret_def)
  have rows: "for_loop [0..<fst (shape s)] (\<lambda>row_idx export.
             bind (for_loop [0..<snd (shape s)] (\<lambda>col_idx export.
                     bind (get_cell_at s row_idx col_idx) (\<lambda>c.
                     ret (export @ py_str (cell_value c)
                            @ (if col_idx + 1 < snd (shape s) then '', '' else []))))
                     (export @ ''['')) (\<lambda>export.
             ret (export @ '']''
                    @ (if row_idx + 1 < fst (shape s) then '','' @ [CHR 0x0A] else []))))
             ''['' =
     (concat (map (\<lambda>r. concat (map (\<lambda>c. [CellRead r c]) [0..<snd (shape s)]))
                [0..<fst (shape s)]),
      Inr (''['' @ concat (map (values_row_text py_str s) [0..<fst (shape s)])))"
    by (rule for_loop_total) (simp only: row, simp add: values_row_text_def ret_def bind_def)
  have reads: "concat (map (\<lambda>r. concat (map (\<lambda>c. [CellRead r c]) [0..<snd (shape s)]))
                [0..<fst (shape s)]) = cell_reads s"
    by (simp add: cell_reads_def)
  show ?thesis
    unfolding to_string_of_values_def rows reads
    by (simp add: log_export_subset_warning_if_needed_def bind_emit values_text_def ret_def)
qed

lemma to_2d_list_eq:
  "to_2d_list s =
   ((if export_subset s then [Warn subset_warning] else []) @ cell_reads s, Inr (values_2d s))"
proof -
  have row: "for_loop [0..<snd (shape s)] (\<lambda>col_idx row.
               bind (get_cell_at s r col_idx) (\<lambda>c.
               ret (row @ [cell_value c]))) [] =
     (concat (map (\<lambda>c. [CellRead r c]) [0..<snd (shape s)]),
      Inr ([] @ concat (map (\<lambda>c. [cell_value (cell_at s r c)]) [0..<snd (shape s)])))" for r
    by (rule for_loop_total) (simp add: get_cell_at_bind ret_def)
  have rows: "for_loop [0..<fst (shape s)] (\<lambda>row_idx export.
       bind (for_loop [0..<snd (shape s)] (\<lambda>col_idx row.
               bind (get_cell_at s row_idx col_idx) (\<lambda>c.
               ret (row @ [cell_value c]))) []) (\<lambda>row.
       ret (export @ [row]))) [] =
     (concat (map (\<lambda>r. concat (map (\<lambda>c. [CellRead r c]) [0..<snd (shape s)]))
                [0..<fst (shape s)]),
      Inr ([] @ concat (map (\<lambda>r. [map (\<lambda>c. cell_value (cell_at s r c)) [0..<snd (shape s)]])
                        [0..<fst (shape s)])))"
    by (rule for_loop_total) (simp only: row, simp add: ret_def bind_def)
  have reads: "concat (map (\<lambda>r. concat (map (\<lambda>c. [CellRead r c]) [0..<snd (shape s)]))
                [0..<fst (shape s)]) = cell_reads s"
    by (simp add: cell_reads_def)
  show ?thesis
    unfolding to_2d_list_def rows reads
    by (simp add: log_export_subset_warning_if_needed_def bind_emit values_2d_def
         )
qed

lemma bind_reads_left:
  "snd (bind m f) = Inr y \<Longrightarrow> (\<And>x. snd m = Inr x \<Longrightarrow> e \<in> set (fst m))
   \<Longrightarrow> e \<in> set (fst (bind m f))"
  by (auto simp: fst_bind snd_bind split: sum.splits)

lemma bind_reads_right:
  "snd (bind m f) = Inr y \<Longrightarrow> (\<And>x. snd m = Inr x \<Longrightarrow> snd (f x) = Inr y \<Longrightarrow> e \<in> set (fst (f x)))
   \<Longrightarrow> e \<in> set (fst (bind m f))"
  by (auto simp: fst_bind snd_bind split: sum.splits)

lemma for_loop_cell_reads:
  assumes "snd (for_loop [0..<n] body a) = Inr x" "c < n"
    and "\<And>a'. CellRead r c \<in> set (fst (body c a'))"
  shows "CellRead r c \<in> set (fst (for_loop [0..<n] body a))"
  using assms(1) by (rule for_loop_reads [where i = c]) (simp_all add: assms)

lemma csv_row_success:
  assumes "snd (csv_row py_str s spaces_replacement sep line_terminator na_rep row_idx export)
             = Inr y"
  shows "y = export @ csv_row_text py_str s spaces_replacement sep line_terminator na_rep row_idx"
proof -
  from assms obtain label e where
    label: "snd (py_index (rows_labels (cell_indices s)) (row_idx + fst (export_offset s)))
              = Inr label"
    and loop: "snd (for_loop [0..<snd (shape s)] (\<lambda>col_idx export.
             bind (get_cell_at s row_idx col_idx) (\<lambda>c.
             ret (export @ (if cell_value c = PNone then na_rep else py_str (cell_value c))
                    @ (if col_idx + 1 < snd (shape s) then sep else []))))
             (export @ replace_spaces spaces_replacement label @ sep)) = Inr e"
    and y: "y = e @ (if row_idx + 1 < fst (shape s) then line_terminator else [])"
    by (auto simp: csv_row_def snd_bind split: sum.splits)
  have "e = (export @ replace_spaces spaces_replacement label @ sep)
     @ concat (map (\<lambda>col_idx.
                 cell_text py_str na_rep (cell_value (cell_at s row_idx col_idx))
                 @ (if col_idx + 1 < snd (shape s) then sep else []))
               [0..<snd (shape s)])"
    using loop by (rule for_loop_append) (simp add: get_cell_at_bind cell_text_def)
  with y snd_py_index [OF label] show ?thesis
    by (simp add: csv_row_text_def)
qed

lemma csv_row_reads:
  assumes "snd (csv_row py_str s spaces_replacement sep line_terminator na_rep row_idx export)
             = Inr y" "c < snd (shape s)"
  shows "CellRead row_idx c \<in>
           set (fst (csv_row py_str s spaces_replacement sep line_terminator na_rep row_idx export))"
  using assms(1) unfolding csv_row_def
  apply (rule bind_reads_right)
  apply (erule bind_reads_left)
  apply (erule for_loop_cell_reads [OF _ assms(2)])
  apply (simp add: get_cell_at_bind)
  done

lemma csv_header_success:
  assumes "snd (csv_header s spaces_replacement sep line_terminator export) = Inr y"
  shows "y = export
     @ concat (map (\<lambda>col_i.
                 replace_spaces spaces_replacement
                   (columns_labels (cell_indices s) ! (col_i + snd (export_offset s)))
                 @ (if col_i + 1 < snd (shape s) then sep else []))
               [0..<snd (shape s)])
     @ (if 0 < fst (shape s) then line_terminator else [])"
proof -
  from assms obtain e where
    loop: "snd (for_loop [0..<snd (shape s)] (\<lambda>col_i export.
             bind (py_index (columns_labels (cell_indices s))
                     (col_i + snd (export_offset s))) (\<lambda>col.
             ret (export @ replace_spaces spaces_replacement col
                    @ (if col_i + 1 < snd (shape s) then sep else []))))
             export) = Inr e"
    and y: "y = e @ (if 0 < fst (shape s) then line_terminator else [])"
    by (auto simp: csv_header_def snd_bind split: sum.splits)
  have "e = export @ concat (map (\<lambda>col_i.
                 replace_spaces spaces_replacement
                   (columns_labels (cell_indices s) ! (col_i + snd (export_offset s)))
                 @ (if col_i + 1 < snd (shape s) then sep else []))
               [0..<snd (shape s)])"
    using loop
    by (rule for_loop_append) (auto simp: snd_bind split: sum.splits dest!: snd_py_index)
  with y show ?thesis by simp
qed

lemma to_csv_success:
  assumes "snd (to_csv py_str s spaces_replacement top_right_corner_text sep line_terminator
                  na_rep) = Inr y"
  shows "y = csv_text py_str s spaces_replacement top_right_corner_text sep line_terminator
               na_rep"
proof -
  from assms obtain e where
    header: "snd (csv_header s spaces_replacement sep line_terminator
                    (top_right_corner_text @ sep)) = Inr e"
    and loop: "snd (for_loop [0..<fst (shape s)]
                 (csv_row py_str s spaces_replacement sep line_terminator na_rep) e) = Inr y"
    by (auto simp: to_csv_def snd_bind split: sum.splits)
  have "y = e @ concat (map (csv_row_text py_str s spaces_replacement sep line_terminator na_rep)
                 [0..<fst (shape s)])"
    using loop by (rule for_loop_append) (rule csv_row_success)
  with csv_header_success [OF header] show ?thesis
    by (simp add: csv_text_def csv_header_text_def)
qed

lemma to_csv_reads:
  assumes "snd (to_csv py_str s spaces_replacement top_right_corner_text sep line_terminator
                  na_rep) = Inr y" "r < fst (shape s)" "c < snd (shape s)"
  shows "CellRead r c \<in> set (fst (to_csv py_str s spaces_replacement top_right_corner_text sep
                                     line_terminator na_rep))"
proof -
  have row: "CellRead r c \<in> set (fst (for_loop [0..<fst (shape s)]
                 (csv_row py_str s spaces_replacement sep line_terminator na_rep) e))"
    if "snd (for_loop [0..<fst (shape s)]
                 (csv_row py_str s spaces_replacement sep line_terminator na_rep) e) = Inr y'"
    for e y'
    using that
    by (rule for_loop_reads [where i = r]) (simp_all add: assms(2) csv_row_reads [OF _ assms(3)])
  show ?thesis
    using assms(1) unfolding to_csv_def
    apply (rule bind_reads_right)
    apply (erule bind_reads_right)
    apply (erule row)
    done
qed

lemma markdown_row_success:
  assumes "snd (markdown_row py_str s spaces_replacement na_rep row_idx export) = Inr y"
  shows "y = export @ markdown_row_text py_str s spaces_replacement na_rep row_idx"
proof -
  from assms obtain label where
    label: "snd (py_index (rows_labels (cell_indices s)) (row_idx + fst (export_offset s)))
              = Inr label"
    and loop: "snd (for_loop [0..<snd (shape s)] (\<lambda>col_idx export.
       bind (get_cell_at s row_idx col_idx) (\<lambda>c.
       ret (export @ (if cell_value c = PNone then na_rep else py_str (cell_value c))
              @ (if col_idx + 1 < snd (shape s) then '' | ''
                 else if col_idx + 1 = snd (shape s) then '' |'' @ [CHR 0x0A] else []))))
       (export @ ''| *'' @ replace_spaces spaces_replacement label @ ''*'' @ '' | '')) = Inr y"
    by (auto simp: markdown_row_def snd_bind split: sum.splits)
  have "y = (export @ ''| *'' @ replace_spaces spaces_replacement label @ ''*'' @ '' | '')
     @ concat (map (\<lambda>col_idx.
                 cell_text py_str na_rep (cell_value (cell_at s row_idx col_idx))
                 @ markdown_cell_end s col_idx)
               [0..<snd (shape s)])"
    using loop
    by (rule for_loop_append) (simp add: get_cell_at_bind cell_text_def markdown_cell_end_def)
  with snd_py_index [OF label] show ?thesis
    by (simp add: markdown_row_text_def)
qed

lemma markdown_row_reads:
  assumes "snd (markdown_row py_str s spaces_replacement na_rep row_idx export) = Inr y"
    "c < snd (shape s)"
  shows "CellRead row_idx c \<in>
           set (fst (markdown_row py_str s spaces_replacement na_rep row_idx export))"
  using assms(1) unfolding markdown_row_def
  apply (rule bind_reads_right)
  apply (erule for_loop_cell_reads [OF _ assms(2)])
  apply (simp add: get_cell_at_bind)
  done

lemma markdown_header_success:
  assumes "snd (markdown_header s spaces_replacement export) = Inr y"
  shows "y = export
     @ concat (map (\<lambda>col_i.
                 ''*'' @ replace_spaces spaces_replacement
                          (columns_labels (cell_indices s) ! (col_i + snd (export_offset s)))
                 @ ''*'' @ markdown_cell_end s col_i)
               [0..<snd (shape s)])
     @ ''|----|''
     @ concat (map (\<lambda>col_i. ''----|'' @ (if col_i + 1 = snd (shape s) then [CHR 0x0A] else []))
               [0..<snd (shape s)])"
proof -
  from assms obtain e where
    loop1: "snd (for_loop [0..<snd (shape s)] (\<lambda>col_i export.
             bind (py_index (columns_labels (cell_indices s))
                     (col_i + snd (export_offset s))) (\<lambda>col.
             ret (export @ ''*'' @ replace_spaces spaces_replacement col @ ''*''
                    @ (if col_i + 1 < snd (shape s) then '' | ''
                       else if col_i + 1 = snd (shape s) then '' |'' @ [CHR 0x0A] else []))))
             export) = Inr e"
    and loop2: "snd (for_loop [0..<snd (shape s)] (\<lambda>col_i export.
       ret (export @ ''----|''
              @ (if col_i + 1 = snd (shape s) then [CHR 0x0A] else []))) (e @ ''|----|''))
       = Inr y"
    by (auto simp: markdown_header_def snd_bind split: sum.splits)
  have "e = export @ concat (map (\<lambda>col_i.
                 ''*'' @ replace_spaces spaces_replacement
                          (columns_labels (cell_indices s) ! (col_i + snd (export_offset s)))
                 @ ''*'' @ markdown_cell_end s col_i)
               [0..<snd (shape s)])"
    using loop1
    by (rule for_loop_append)
       (auto simp: snd_bind markdown_cell_end_def split: sum.splits dest!: snd_py_index)
  moreover have "y = (e @ ''|----|'')
     @ concat (map (\<lambda>col_i. ''----|'' @ (if col_i + 1 = snd (shape s) then [CHR 0x0A] else []))
               [0..<snd (shape s)])"
    using loop2 by (rule for_loop_append) auto
  ultimately show ?thesis by simp
qed

lemma to_markdown_success:
  assumes "snd (to_markdown py_str s spaces_replacement top_right_corner_text na_rep) = Inr y"
  shows "y = markdown_text py_str s spaces_replacement top_right_corner_text na_rep"
proof -
  from assms obtain e where
    header: "snd (markdown_header s spaces_replacement
                    (''| '' @ top_right_corner_text @ '' |'')) = Inr e"
    and loop: "snd (for_loop [0..<fst (shape s)]
                 (markdown_row py_str s spaces_replacement na_rep) e) = Inr y"
    by (auto simp: to_markdown_def snd_bind split: sum.splits)
  have "y = e @ concat (map (markdown_row_text py_str s spaces_replacement na_rep)
                 [0..<fst (shape s)])"
    using loop by (rule for_loop_append) (rule markdown_row_success)
  with markdown_header_success [OF header] show ?thesis
    by (simp add: markdown_text_def markdown_header_text_def)
qed

lemma to_markdown_reads:
  assumes "snd (to_markdown py_str s spaces_replacement top_right_corner_text na_rep) = Inr y"
    "r < fst (shape s)" "c < snd (shape s)"
  shows "CellRead r c \<in>
           set (fst (to_markdown py_str s spaces_replacement top_right_corner_text na_rep))"
proof -
  have row: "CellRead r c \<in> set (fst (for_loop [0..<fst (shape s)]
                 (markdown_row py_str s spaces_replacement na_rep) e))"
    if "snd (for_loop [0..<fst (shape s)]
                 (markdown_row py_str s spaces_replacement na_rep) e) = Inr y'"
    for e y'
    using that
    by (rule for_loop_reads [where i = r])
       (simp_all add: assms(2) markdown_row_reads [OF _ assms(3)])
  show ?thesis
    using assms(1) unfolding to_markdown_def
    apply (rule bind_reads_right)
    apply (erule bind_reads_right)
    apply (erule row)
    done
qed

lemma html_cell_success:
  assumes "snd (html_cell py_str s na_rep language_for_description row_idx col_idx export)
             = Inr y"
  shows "y = export @ html_cell_text py_str na_rep language_for_description
                        (cell_at s row_idx col_idx)"
  using assms
  by (auto simp: html_cell_def get_cell_at_bind snd_bind html_cell_text_def html_cell_title_def
        cell_text_def split: sum.splits option.splits if_splits dest!: snd_py_getitem)

lemma html_cell_reads:
  "CellRead row_idx col_idx \<in>
     set (fst (html_cell py_str s na_rep language_for_description row_idx col_idx export))"
  by (simp add: html_cell_def get_cell_at_bind)

lemma html_row_success:
  assumes "snd (html_row py_str s spaces_replacement na_rep language_for_description row_idx
                  export) = Inr y"
  shows "y = export @ html_row_text py_str s spaces_replacement na_rep language_for_description
                        row_idx"
proof -
  from assms obtain title_attr label e where
    title: "snd (case rows_help_text (cell_indices s) of
             Some help_text \<Rightarrow>
               bind (py_index help_text (row_idx + snd (export_offset s))) (\<lambda>t.
               ret (title_attr_of t))
           | None \<Rightarrow> ret []) = Inr title_attr"
    and label: "snd (py_index (rows_labels (cell_indices s)) (row_idx + fst (export_offset s)))
              = Inr label"
    and loop: "snd (for_loop [0..<snd (shape s)]
             (html_cell py_str s na_rep language_for_description row_idx)
             (export @ ''<tr>'' @ ''<td>'' @ anchor_open title_attr
                @ replace_spaces spaces_replacement label @ ''</a>'' @ ''</td>'')) = Inr e"
    and y: "y = e @ ''</tr>''"
    by (auto simp: html_row_def snd_bind split: sum.splits)
  have t: "title_attr = html_help_title (rows_help_text (cell_indices s))
                          (row_idx + snd (export_offset s))"
    using title
    by (auto simp: html_help_title_def snd_bind split: option.splits sum.splits
          dest!: snd_py_index)
  have "e = (export @ ''<tr>'' @ ''<td>'' @ anchor_open title_attr
                @ replace_spaces spaces_replacement label @ ''</a>'' @ ''</td>'')
     @ concat (map (\<lambda>col_idx.
                 html_cell_text py_str na_rep language_for_description
                   (cell_at s row_idx col_idx))
               [0..<snd (shape s)])"
    using loop by (rule for_loop_append) (rule html_cell_success)
  with y t snd_py_index [OF label] show ?thesis
    by (simp add: html_row_text_def)
qed

lemma html_row_reads:
  assumes "snd (html_row py_str s spaces_replacement na_rep language_for_description row_idx
                  export) = Inr y" "c < snd (shape s)"
  shows "CellRead row_idx c \<in>
           set (fst (html_row py_str s spaces_replacement na_rep language_for_description
                       row_idx export))"
  using assms(1) unfolding html_row_def
  apply (rule bind_reads_right)
  apply (erule bind_reads_right)
  apply (erule bind_reads_left)
  apply (erule for_loop_cell_reads [OF _ assms(2)])
  apply (rule html_cell_reads)
  done

lemma html_header_success:
  assumes "snd (html_header s spaces_replacement export) = Inr y"
  shows "y = export
     @ concat (map (\<lambda>col_i.
                 ''<th>''
                 @ anchor_open (html_help_title (columns_help_text (cell_indices s))
                                  (col_i + snd (export_offset s)))
                 @ replace_spaces spaces_replacement
                     (columns_labels (cell_indices s) ! (col_i + snd (export_offset s)))
                 @ ''</a>'' @ ''</th>'')
               [0..<snd (shape s)])"
  using assms unfolding html_header_def
  by (rule for_loop_append)
     (auto simp: snd_bind html_help_title_def split: sum.splits option.splits
        dest!: snd_py_index)

lemma to_html_table_success:
  assumes "snd (to_html_table py_str s spaces_replacement top_right_corner_text na_rep
                  language_for_description) = Inr y"
  shows "y = html_text py_str s spaces_replacement top_right_corner_text na_rep
               language_for_description"
proof -
  from assms obtain e e' where
    header: "snd (html_header s spaces_replacement
             (''<table>'' @ ''<tr>'' @ ''<th>'' @ top_right_corner_text @ ''</th>'')) = Inr e"
    and loop: "snd (for_loop [0..<fst (shape s)]
             (html_row py_str s spaces_replacement na_rep language_for_description)
             (e @ ''</tr>'')) = Inr e'"
    and y: "y = e' @ ''</table>''"
    by (auto simp: to_html_table_def snd_bind split: sum.splits)
  have "e' = (e @ ''</tr>'')
     @ concat (map (html_row_text py_str s spaces_replacement na_rep language_for_description)
                 [0..<fst (shape s)])"
    using loop by (rule for_loop_append) (rule html_row_success)
  with y html_header_success [OF header] show ?thesis
    by (simp add: html_text_def html_header_text_def)
qed

lemma to_html_table_reads:
  assumes "snd (to_html_table py_str s spaces_replacement top_right_corner_text na_rep
                  language_for_description) = Inr y" "r < fst (shape s)" "c < snd (shape s)"
  shows "CellRead r c \<in>
           set (fst (to_html_table py_str s spaces_replacement top_right_corner_text na_rep
                       language_for_description))"
proof -
  have row: "CellRead r c \<in> set (fst (for_loop [0..<fst (shape s)]
                 (html_row py_str s spaces_replacement na_rep language_for_description) e))"
    if "snd (for_loop [0..<fst (shape s)]
                 (html_row py_str s spaces_replacement na_rep language_for_description) e)
          = Inr y'"
    for e y'
    using that
    by (rule for_loop_reads [where i = r])
       (simp_all add: assms(2) html_row_reads [OF _ assms(3)])
  show ?thesis
    using assms(1) unfolding to_html_table_def
    apply (rule bind_reads_right)
    apply (erule bind_reads_right)
    apply (erule bind_reads_left)
    apply (erule row)
    done
qed

lemma to_numpy_returns:
  assumes "snd (to_numpy s) = Inr a"
  shows "a = \<lparr>nd_shape = shape s, nd_data = map (np_row s) [0..<fst (shape s)]\<rparr> \<and>
         set (cell_reads s) \<subseteq> set (fst (to_numpy s))"
proof -
  have "\<forall>r < fst (shape s). \<forall>c < snd (shape s). storable (cell_value (cell_at s r c))"
    using to_numpy_success [OF assms] by blast
  from to_numpy_eq [OF this] assms show ?thesis
    by auto
qed

lemma cell_reads_mem:
  "r < fst (shape s) \<Longrightarrow> c < snd (shape s) \<Longrightarrow> CellRead r c \<in> set (cell_reads s)"
  by (simp add: cell_reads_iff)

lemma dict_cell_reads:
  "(if by_row then CellRead idx_x idx_y else CellRead idx_y idx_x) \<in>
     set (fst (dict_cell s langs langs_used by_row skip_nan_cell nan_replacement y y_helptext
                 idx_x idx_y y_dict))"
  by (simp add: dict_cell_def get_cell_at_bind)

lemma dict_row_reads:
  assumes "snd (dict_row s langs langs_used by_row skip_nan_cell nan_replacement
                  x x_helptext y_range y y_helptext y_start_key idx_x x_dict) = Inr r"
    "idx_y < y_range"
  shows "(if by_row then CellRead idx_x idx_y else CellRead idx_y idx_x) \<in>
     set (fst (dict_row s langs langs_used by_row skip_nan_cell nan_replacement
                  x x_helptext y_range y y_helptext y_start_key idx_x x_dict))"
  using assms(1) unfolding dict_row_def
  apply (rule bind_reads_left)
  apply (erule for_loop_reads [where i = idx_y])
   apply (simp add: assms(2))
  apply (rule dict_cell_reads)
  done

lemma to_dictionary_reads:
  assumes "snd (to_dictionary s languages_arg by_row languages_pseudonyms spaces_replacement
                  skip_nan_cell nan_replacement) = Inr out"
    "r < fst (shape s)" "c < snd (shape s)"
  shows "CellRead r c \<in> set (fst (to_dictionary s languages_arg by_row languages_pseudonyms
                                     spaces_replacement skip_nan_cell nan_replacement))"
proof -
  let ?i = "if by_row then r else c" and ?j = "if by_row then c else r"
  have i: "?i \<in> set [0..<axis_range s by_row]" and j: "?j < axis_range s (\<not> by_row)"
    using assms(2,3) by (simp_all add: axis_range_def)
  have cell: "(if by_row then CellRead ?i ?j else CellRead ?j ?i) = CellRead r c"
    by simp
  let ?loop = "for_loop [0..<axis_range s by_row]
               (dict_row s (used_languages s languages_arg)
                  (used_names s languages_arg languages_pseudonyms) by_row skip_nan_cell
                  nan_replacement (axis_labels s spaces_replacement by_row)
                  (axis_help s by_row) (axis_range s (\<not> by_row))
                  (axis_labels s spaces_replacement (\<not> by_row)) (axis_help s (\<not> by_row))
                  (axis_key (\<not> by_row))) []"
  from assms(1) obtain x_dict where loop: "snd ?loop = Inr x_dict"
    and sub: "set (fst ?loop) \<subseteq>
                set (fst (to_dictionary s languages_arg by_row languages_pseudonyms
                            spaces_replacement skip_nan_cell nan_replacement))"
    unfolding to_dictionary_unfold
    by (auto simp: snd_bind fst_bind split: sum.splits if_splits)
  from for_loop_success [OF loop i] obtain a' y where
    row: "snd (dict_row s (used_languages s languages_arg)
                  (used_names s languages_arg languages_pseudonyms) by_row skip_nan_cell
                  nan_replacement (axis_labels s spaces_replacement by_row)
                  (axis_help s by_row) (axis_range s (\<not> by_row))
                  (axis_labels s spaces_replacement (\<not> by_row)) (axis_help s (\<not> by_row))
                  (axis_key (\<not> by_row)) ?i a') = Inr y"
    and sub2: "set (fst (dict_row s (used_languages s languages_arg)
                  (used_names s languages_arg languages_pseudonyms) by_row skip_nan_cell
                  nan_replacement (axis_labels s spaces_replacement by_row)
                  (axis_help s by_row) (axis_range s (\<not> by_row))
                  (axis_labels s spaces_replacement (\<not> by_row)) (axis_help s (\<not> by_row))
                  (axis_key (\<not> by_row)) ?i a')) \<subseteq> set (fst ?loop)"
    by blast
  from dict_row_reads [OF row j] cell sub sub2 show ?thesis
    by (auto simp only:)
qed

lemma to_dictionary_cell:
  assumes ok: "snd (to_dictionary s languages_arg by_row languages_pseudonyms spaces_replacement
                  skip_nan_cell nan_replacement) = Inr out"
    and i: "i < axis_range s by_row" and j: "j < axis_range s (\<not> by_row)"
    and once_i: "label_once (axis_labels s spaces_replacement by_row) (axis_range s by_row) i"
    and once_j: "label_once (axis_labels s spaces_replacement (\<not> by_row))
                   (axis_range s (\<not> by_row)) j"
  shows "cell_entry out (axis_key by_row) (axis_labels s spaces_replacement by_row ! i)
           (axis_key (\<not> by_row)) (axis_labels s spaces_replacement (\<not> by_row) ! j) =
         (if skipped skip_nan_cell (dict_cell_of s by_row i j) then None
          else Some (dict_entry s languages_arg by_row languages_pseudonyms nan_replacement
                       i j))"
proof -
  let ?x = "axis_labels s spaces_replacement by_row"
  let ?y = "axis_labels s spaces_replacement (\<not> by_row)"
  have lw1: "last_where (\<lambda>k. ?x ! k = ?x ! i) (axis_range s by_row) = Some i"
    unfolding last_where_Some using i once_i by (auto simp: label_once_def)
  have lw2: "last_where (\<lambda>k. ?y ! k = ?y ! j) (axis_range s (\<not> by_row)) = Some j"
    unfolding last_where_Some using j once_j by (auto simp: label_once_def)
  have "last_where (\<lambda>k. \<not> skipped skip_nan_cell (dict_cell_of s by_row i k) \<and> ?y ! k = ?y ! j)
          (axis_range s (\<not> by_row)) =
        (if \<not> skipped skip_nan_cell (dict_cell_of s by_row i j) then Some j else None)"
  proof (rule last_where_unique [OF lw2])
    have "k = j" if "k < axis_range s (\<not> by_row)" "?y ! k = ?y ! j" for k
      using once_j that by (simp add: label_once_def)
    then show "\<forall>k < axis_range s (\<not> by_row). \<forall>k' < axis_range s (\<not> by_row).
                 ?y ! k = ?y ! j \<and> ?y ! k' = ?y ! j \<longrightarrow> k = k'"
      by blast
  qed
  with lw1 show ?thesis
    by (simp add: to_dictionary_lookup [OF ok])
qed

lemmas text_encoder_eval =
  csv_header_def csv_row_def markdown_header_def markdown_row_def
  html_header_def html_row_def html_cell_def sheet_7_none_9_10_def no_variables_def
  log_export_subset_warning_if_needed_def get_cell_at_def bind_emit py_index_def
  replace_spaces_def grid_of_def plain_cell_def ret_def upt_rec numeral_2_eq_2

lemma to_csv_7_none_9_10:
  "snd (to_csv (\<lambda>v. ''?'') sheet_7_none_9_10 ''_'' ''T'' '','' '';'' ''NA'') =
   Inr ''T,c0,c1;r0,?,NA;r1,?,?''"
  by (simp add: to_csv_def text_encoder_eval)

text \<open>
  Claim C3, amended. Every encoder visits the full exported shape: a call that returns has
  read every cell of the shape (\<open>to_2d_list\<close> and \<open>to_string_of_values\<close> always
  return). No encoder other than \<open>to_excel\<close> leaves a cell out unless it is configured
  to: \<open>to_2d_list\<close> returns the value of every cell, row by row;
  \<open>to_string_of_values\<close>, \<open>to_csv\<close>, \<open>to_markdown\<close> and \<open>to_html_table\<close> return the
  text made of every cell in row-major order, with \<open>na_rep\<close> for \<open>None\<close> in the last
  three; \<open>to_numpy\<close> returns an array with an entry for every cell; \<open>to_dictionary\<close>
  returns the dictionary that receives the record of every cell in traversal order,
  except the cells whose value is \<open>None\<close> when \<open>skip_nan_cell\<close> is set, so that for
  labels that occur once on their axis the entry of the cell \<open>(i, j)\<close> is missing exactly
  when that cell is skipped. \<open>to_excel\<close>, which has no null-skipping configuration, skips
  \<open>None\<close> cells always: a call that returns has called \<open>write\<close> or \<open>write_formula\<close>
  for the place of the cell \<open>(r, c)\<close> if and only if the value of that cell is not
  \<open>None\<close>.
\<close>

theorem encoders_visit_every_cell:
  "(\<forall>r < fst (shape s). \<forall>c < snd (shape s).
      CellRead r c \<in> set (fst (to_2d_list s)) \<and>
      CellRead r c \<in> set (fst (to_string_of_values py_str s)) \<and>
      (\<forall>y. snd (to_csv py_str s spaces_replacement top_right_corner_text sep line_terminator
                  na_rep) = Inr y \<longrightarrow>
           CellRead r c \<in> set (fst (to_csv py_str s spaces_replacement top_right_corner_text
                                       sep line_terminator na_rep))) \<and>
      (\<forall>y. snd (to_markdown py_str s spaces_replacement top_right_corner_text na_rep) = Inr y \<longrightarrow>
           CellRead r c \<in> set (fst (to_markdown py_str s spaces_replacement
                                       top_right_corner_text na_rep))) \<and>
      (\<forall>y. snd (to_html_table py_str s spaces_replacement top_right_corner_text na_rep
                  language_for_description) = Inr y \<longrightarrow>
           CellRead r c \<in> set (fst (to_html_table py_str s spaces_replacement
                                       top_right_corner_text na_rep language_for_description))) \<and>
      (\<forall>a. snd (to_numpy s) = Inr a \<longrightarrow> CellRead r c \<in> set (fst (to_numpy s))) \<and>
      (\<forall>out. snd (to_dictionary s languages_arg by_row languages_pseudonyms spaces_replacement
                    skip_nan_cell nan_replacement) = Inr out \<longrightarrow>
           CellRead r c \<in> set (fst (to_dictionary s languages_arg by_row languages_pseudonyms
                                       spaces_replacement skip_nan_cell nan_replacement))) \<and>
      (\<forall>u. snd (to_excel py_str s file_path sheet_name spaces_replacement label_row_format
                  label_column_format variables_sheet_name variables_sheet_header) = Inr u \<longrightarrow>
           CellRead r c \<in> set (fst (to_excel py_str s file_path sheet_name spaces_replacement
                                       label_row_format label_column_format variables_sheet_name
                                       variables_sheet_header)))) \<and>
   snd (to_2d_list s) = Inr (values_2d s) \<and>
   snd (to_string_of_values py_str s) = Inr (values_text py_str s) \<and>
   (\<forall>y. snd (to_csv py_str s spaces_replacement top_right_corner_text sep line_terminator
               na_rep) = Inr y \<longrightarrow>
        y = csv_text py_str s spaces_replacement top_right_corner_text sep line_terminator
              na_rep) \<and>
   (\<forall>y. snd (to_markdown py_str s spaces_replacement top_right_corner_text na_rep) = Inr y \<longrightarrow>
        y = markdown_text py_str s spaces_replacement top_right_corner_text na_rep) \<and>
   (\<forall>y. snd (to_html_table py_str s spaces_replacement top_right_corner_text na_rep
               language_for_description) = Inr y \<longrightarrow>
        y = html_text py_str s spaces_replacement top_right_corner_text na_rep
              language_for_description) \<and>
   (\<forall>a. snd (to_numpy s) = Inr a \<longrightarrow>
        a = \<lparr>nd_shape = shape s, nd_data = map (np_row s) [0..<fst (shape s)]\<rparr>) \<and>
   (\<forall>out. snd (to_dictionary s languages_arg by_row languages_pseudonyms spaces_replacement
                 skip_nan_cell nan_replacement) = Inr out \<longrightarrow>
        out = PDict (dict_labels_part s spaces_replacement by_row
                 [(axis_key by_row,
                   PDict (outer_dict s languages_arg by_row languages_pseudonyms
                            spaces_replacement skip_nan_cell nan_replacement))]) \<and>
        (\<forall>i < axis_range s by_row. \<forall>j < axis_range s (\<not> by_row).
           label_once (axis_labels s spaces_replacement by_row) (axis_range s by_row) i \<and>
           label_once (axis_labels s spaces_replacement (\<not> by_row))
             (axis_range s (\<not> by_row)) j \<longrightarrow>
           cell_entry out (axis_key by_row) (axis_labels s spaces_replacement by_row ! i)
             (axis_key (\<not> by_row)) (axis_labels s spaces_replacement (\<not> by_row) ! j) =
           (if skipped skip_nan_cell (dict_cell_of s by_row i j) then None
            else Some (dict_entry s languages_arg by_row languages_pseudonyms nan_replacement
                         i j)))) \<and>
   (\<forall>u. snd (to_excel py_str s file_path sheet_name spaces_replacement label_row_format
               label_column_format variables_sheet_name variables_sheet_header) = Inr u \<longrightarrow>
        (\<forall>r < fst (shape s). \<forall>c < snd (shape s).
           write_called (fst (to_excel py_str s file_path sheet_name spaces_replacement
                                label_row_format label_column_format variables_sheet_name
                                variables_sheet_header))
             (r + excel_offset s) (c + excel_offset s)
           \<longleftrightarrow> cell_value (cell_at s r c) \<noteq> PNone))"
  apply (intro conjI allI impI)
  subgoal by (simp add: to_2d_list_eq cell_reads_mem)
  subgoal by (simp add: to_string_of_values_eq cell_reads_mem)
  subgoal by (erule to_csv_reads; assumption)
  subgoal by (erule to_markdown_reads; assumption)
  subgoal by (erule to_html_table_reads; assumption)
  subgoal for r c a using to_numpy_returns [of s a] cell_reads_mem [of r s c] by blast
  subgoal by (erule to_dictionary_reads; assumption)
  subgoal for r c u
    using to_excel_write_calls [of py_str s file_path sheet_name spaces_replacement
        label_row_format label_column_format variables_sheet_name variables_sheet_header u r c]
    by simp
  subgoal by (simp add: to_2d_list_eq)
  subgoal by (simp add: to_string_of_values_eq)
  subgoal by (erule to_csv_success)
  subgoal by (erule to_markdown_success)
  subgoal by (erule to_html_table_success)
  subgoal for a using to_numpy_returns [of s a] by simp
  subgoal by (erule to_dictionary_result)
  subgoal by (erule to_dictionary_cell; simp)
  subgoal for u r c
    using to_excel_write_calls [of py_str s file_path sheet_name spaces_replacement
        label_row_format label_column_format variables_sheet_name variables_sheet_header u r c]
    by simp
  done

theorem encoders_visit_every_cell_witness:
  "CellRead 0 1 \<in> set (fst (to_2d_list sheet_7_none_9_10)) \<and>
   CellRead 0 1 \<in> set (fst (to_string_of_values (\<lambda>v. ''?'') sheet_7_none_9_10)) \<and>
   CellRead 0 1 \<in> set (fst (to_csv (\<lambda>v. ''?'') sheet_7_none_9_10 ''_'' ''T'' '','' '';'' ''NA'')) \<and>
   csv_text (\<lambda>v. ''?'') sheet_7_none_9_10 ''_'' ''T'' '','' '';'' ''NA'' =
     ''T,c0,c1;r0,?,NA;r1,?,?'' \<and>
   CellRead 0 1 \<in> set (fst (to_markdown (\<lambda>v. ''?'') sheet_7_none_9_10 ''_'' ''T'' ''NA'')) \<and>
   snd (to_markdown (\<lambda>v. ''?'') sheet_7_none_9_10 ''_'' ''T'' ''NA'') =
     Inr (markdown_text (\<lambda>v. ''?'') sheet_7_none_9_10 ''_'' ''T'' ''NA'') \<and>
   CellRead 0 1 \<in> set (fst (to_html_table (\<lambda>v. ''?'') sheet_7_none_9_10 ''_'' ''T'' ''NA'' None)) \<and>
   snd (to_html_table (\<lambda>v. ''?'') sheet_7_none_9_10 ''_'' ''T'' ''NA'' None) =
     Inr (html_text (\<lambda>v. ''?'') sheet_7_none_9_10 ''_'' ''T'' ''NA'' None) \<and>
   CellRead 0 1 \<in> set (fst (to_numpy sheet_7_none_9_10)) \<and>
   snd (to_numpy sheet_7_none_9_10) =
     Inr \<lparr>nd_shape = (2, 2), nd_data = [[Num 7, NaN], [Num 9, Num 10]]\<rparr> \<and>
   CellRead 0 1 \<in> set (fst (to_dictionary sheet_7_none_9_10 (Some [''excel'']) True None ''_''
                               True PNone)) \<and>
   result_entry (to_dictionary sheet_7_none_9_10 (Some [''excel'']) True None ''_'' True PNone)
     ''rows'' ''r0'' ''columns'' ''c1'' = None \<and>
   result_entry (to_dictionary sheet_7_none_9_10 (Some [''excel'']) True None ''_'' True PNone)
     ''rows'' ''r1'' ''columns'' ''c0'' =
     Some (dict_entry sheet_7_none_9_10 (Some [''excel'']) True None PNone 1 0) \<and>
   CellRead 0 1 \<in> set (fst (to_excel (\<lambda>v. ''?'') sheet_7_none_9_10 ''out.xlsx''
          (PStr ''Results'') ''_'' [(''bold'', PStr ''True'')] [(''bold'', PStr ''True'')] None [])) \<and>
   \<not> write_called (fst (to_excel (\<lambda>v. ''?'') sheet_7_none_9_10 ''out.xlsx''
          (PStr ''Results'') ''_'' [(''bold'', PStr ''True'')] [(''bold'', PStr ''True'')] None []))
       1 2 \<and>
   write_called (fst (to_excel (\<lambda>v. ''?'') sheet_7_none_9_10 ''out.xlsx''
          (PStr ''Results'') ''_'' [(''bold'', PStr ''True'')] [(''bold'', PStr ''True'')] None []))
       2 1"
proof -
  let ?s = sheet_7_none_9_10
  let ?p = "\<lambda>v::pyobj. ''?''"
  let ?excel = "to_excel ?p ?s ''out.xlsx'' (PStr ''Results'') ''_''
                  [(''bold'', PStr ''True'')] [(''bold'', PStr ''True'')] None []"
  let ?dict = "to_dictionary ?s (Some [''excel'']) True None ''_'' True PNone"
  note all = encoders_visit_every_cell [where s = ?s and py_str = ?p
      and spaces_replacement = "''_''" and top_right_corner_text = "''T''" and sep = "'',''"
      and line_terminator = "'';''" and na_rep = "''NA''" and language_for_description = None
      and languages_arg = "Some [''excel'']" and by_row = True and languages_pseudonyms = None
      and skip_nan_cell = True and nan_replacement = PNone and file_path = "''out.xlsx''"
      and sheet_name = "PStr ''Results''" and label_row_format = "[(''bold'', PStr ''True'')]"
      and label_column_format = "[(''bold'', PStr ''True'')]" and variables_sheet_name = None
      and variables_sheet_header = "[]"]
  have sh: "shape ?s = (2, 2)" "excel_offset ?s = 1"
    "axis_range ?s True = 2" "axis_range ?s False = 2"
    "axis_labels ?s ''_'' True = [''r0'', ''r1'']"
    "axis_labels ?s ''_'' False = [''c0'', ''c1'']"
    by (simp_all add: sheet_7_none_9_10_def excel_offset_def axis_range_def axis_labels_def
          sliced_labels_def replace_spaces_def)
  have v: "cell_value (cell_at ?s 0 1) = PNone" "cell_value (cell_at ?s 1 0) = PInt 9"
    "cell_value (cell_at ?s 0 0) = PInt 7" "cell_value (cell_at ?s 1 1) = PInt 10"
    "cell_value (cell_at ?s 0 (Suc 0)) = PNone" "cell_value (cell_at ?s (Suc 0) 0) = PInt 9"
    "cell_value (cell_at ?s (Suc 0) (Suc 0)) = PInt 10"
    by (simp_all add: sheet_7_none_9_10_def grid_of_def plain_cell_def)
  have in_shape: "(0::nat) < fst (shape ?s)" "(1::nat) < snd (shape ?s)"
    "(1::nat) < fst (shape ?s)" "(0::nat) < snd (shape ?s)"
    by (simp_all add: sh)
  note reads = all [THEN conjunct1, rule_format, OF in_shape(1,2)]
  note csv = all [THEN conjunct2, THEN conjunct2, THEN conjunct2, THEN conjunct1]
  note md = all [THEN conjunct2, THEN conjunct2, THEN conjunct2, THEN conjunct2,
                 THEN conjunct1]
  note html = all [THEN conjunct2, THEN conjunct2, THEN conjunct2, THEN conjunct2,
                   THEN conjunct2, THEN conjunct1]
  note numpy = all [THEN conjunct2, THEN conjunct2, THEN conjunct2, THEN conjunct2,
                    THEN conjunct2, THEN conjunct2, THEN conjunct1]
  note dict = all [THEN conjunct2, THEN conjunct2, THEN conjunct2, THEN conjunct2,
                   THEN conjunct2, THEN conjunct2, THEN conjunct2, THEN conjunct1]
  note excel = all [THEN conjunct2, THEN conjunct2, THEN conjunct2, THEN conjunct2,
                    THEN conjunct2, THEN conjunct2, THEN conjunct2, THEN conjunct2]
  have csv_ok: "snd (to_csv ?p ?s ''_'' ''T'' '','' '';'' ''NA'') = Inr ''T,c0,c1;r0,?,NA;r1,?,?''"
    by (rule to_csv_7_none_9_10)
  obtain y_md where md_ok: "snd (to_markdown ?p ?s ''_'' ''T'' ''NA'') = Inr y_md"
    by (simp add: to_markdown_def text_encoder_eval)
  obtain y_html where html_ok: "snd (to_html_table ?p ?s ''_'' ''T'' ''NA'' None) = Inr y_html"
    by (simp add: to_html_table_def text_encoder_eval)
  obtain a where numpy_ok: "snd (to_numpy ?s) = Inr a"
    by (simp add: to_numpy_eq [OF sheet_7_none_9_10_storable])
  obtain out where dict_ok: "snd ?dict = Inr out"
    by (simp add: to_dictionary_eval sheet_7_none_9_10_def)
  have excel_ok: "snd ?excel = Inr ()"
    by (simp add: to_excel_7_none_9_10)
  have c1: "csv_text ?p ?s ''_'' ''T'' '','' '';'' ''NA'' = ''T,c0,c1;r0,?,NA;r1,?,?''"
    using csv [rule_format, OF csv_ok] by simp
  have c2: "snd (to_markdown ?p ?s ''_'' ''T'' ''NA'') = Inr (markdown_text ?p ?s ''_'' ''T'' ''NA'')"
    using md [rule_format, OF md_ok] md_ok by simp
  have c3: "snd (to_html_table ?p ?s ''_'' ''T'' ''NA'' None) =
              Inr (html_text ?p ?s ''_'' ''T'' ''NA'' None)"
    using html [rule_format, OF html_ok] html_ok by simp
  have c4: "snd (to_numpy ?s) =
              Inr \<lparr>nd_shape = (2, 2), nd_data = [[Num 7, NaN], [Num 9, Num 10]]\<rparr>"
    using numpy [rule_format, OF numpy_ok] numpy_ok
    by (simp add: sh np_row_def v upt_rec numeral_2_eq_2)
  have once: "label_once (axis_labels ?s ''_'' True) (axis_range ?s True) 0"
    "label_once (axis_labels ?s ''_'' True) (axis_range ?s True) 1"
    "label_once (axis_labels ?s ''_'' (\<not> True)) (axis_range ?s (\<not> True)) 0"
    "label_once (axis_labels ?s ''_'' (\<not> True)) (axis_range ?s (\<not> True)) 1"
    by (simp_all add: sh label_once_def upt_rec numeral_2_eq_2)
  note cell = dict [rule_format, OF dict_ok, THEN conjunct2, rule_format]
  have c5: "result_entry ?dict ''rows'' ''r0'' ''columns'' ''c1'' = None"
    using cell [of 0 1] once
    by (simp add: sh result_entry_def dict_ok axis_key_def skipped_def dict_cell_of_def v)
  have c6: "result_entry ?dict ''rows'' ''r1'' ''columns'' ''c0'' =
              Some (dict_entry ?s (Some [''excel'']) True None PNone 1 0)"
    using cell [of 1 0] once
    by (simp add: sh result_entry_def dict_ok axis_key_def skipped_def dict_cell_of_def v)
  have c7: "\<not> write_called (fst ?excel) 1 2"
    using excel [rule_format, OF excel_ok in_shape(1,2)]
    by (simp add: sh v numeral_2_eq_2)
  have c8: "write_called (fst ?excel) 2 1"
    using excel [rule_format, OF excel_ok in_shape(3,4)]
    by (simp add: sh v numeral_2_eq_2)
  show ?thesis
    using reads csv_ok md_ok html_ok numpy_ok dict_ok excel_ok c1 c2 c3 c4 c5 c6 c7 c8
    by simp
qed

section \<open>to_dictionary: labels that occur twice\<close>

lemma distinct_fold_update:
  "distinct (map fst acc) \<Longrightarrow>
   distinct (map fst (fold (\<lambda>j acc. if A j then acc else AList.update (k j) (v j) acc) ns acc))"
  by (induction ns arbitrary: acc) (auto simp: distinct_update)

lemma set_update_subset: "set (AList.update k v al) \<subseteq> insert (k, v) (set al)"
  by (induction al) auto

lemma fold_update_values:
  "(l, e) \<in> set (fold (\<lambda>j acc. AList.update (k j) (v j) acc) ns acc) \<Longrightarrow>
   (l, e) \<in> set acc \<or> (\<exists>j \<in> set ns. e = v j)"
proof (induction ns arbitrary: acc)
  case Nil
  then show ?case by simp
next
  case (Cons n ns)
  from Cons.IH [OF Cons.prems [simplified]]
  show ?case
    using set_update_subset [of "k n" "v n" acc] by auto
qed

lemma keys_once_outer:
  "keys_once (PDict (outer_dict s languages_arg by_row languages_pseudonyms
                       spaces_replacement skip_nan_cell nan_replacement))"
  unfolding keys_once_def outer_dict_def
  using distinct_fold_update [where A = "\<lambda>j. False" and acc = "[]"] by simp

lemma keys_once_inner:
  "keys_once (PDict (inner_dict s languages_arg by_row languages_pseudonyms
                       spaces_replacement skip_nan_cell nan_replacement i))"
  unfolding keys_once_def inner_dict_def
  using distinct_fold_update [where acc = "[]"] by simp

lemma outer_dict_entries:
  assumes "map_of (outer_dict s languages_arg by_row languages_pseudonyms
                       spaces_replacement skip_nan_cell nan_replacement) lx = Some e"
  shows "\<exists>i. e = row_entry s languages_arg by_row languages_pseudonyms
                       spaces_replacement skip_nan_cell nan_replacement i"
  using fold_update_values [OF map_of_SomeD [OF assms [unfolded outer_dict_def]]] by auto

lemma dict_get_row_entry:
  "dict_get (row_entry s languages_arg by_row languages_pseudonyms
                          spaces_replacement skip_nan_cell nan_replacement i)
                (axis_key (\<not> by_row)) =
      Some (PDict (inner_dict s languages_arg by_row languages_pseudonyms spaces_replacement
                  skip_nan_cell nan_replacement i))"
  by (simp add: row_entry_def with_help_def update_conv' axis_key_def split: option.splits)

lemma dict_get_top:
  assumes "snd (to_dictionary s languages_arg by_row languages_pseudonyms spaces_replacement
                  skip_nan_cell nan_replacement) = Inr out"
  shows "dict_get out (axis_key by_row) =
      Some (PDict (outer_dict s languages_arg by_row languages_pseudonyms
                            spaces_replacement skip_nan_cell nan_replacement))"
  unfolding to_dictionary_result [OF assms]
  by (simp add: dict_labels_part_def update_conv' axis_key_def)

lemma to_dictionary_duplicate_columns_skip:
  "to_dictionary sheet_duplicate_columns None True None '' '' True PNone =
   ([CellRead 0 0, CellRead 0 1],
    Inr (PDict
      [(''rows'', PDict
         [(''r0'', PDict
            [(''columns'', PDict
               [(''c'', PDict [(''excel'', PStr ''text in excel''), (''value'', PInt 5),
                              (''description'', PNone)])])])]),
       (''variables'', PDict []),
       (''row-labels'', PList [PStr ''r0'']),
       (''column-labels'', PList [PStr ''c'', PStr ''c''])]))"
  by (simp add: to_dictionary_def dict_row_def dict_cell_def dict_record_def
        sheet_duplicate_columns_def no_variables_def sliced_labels_def sliced_help_def
        log_export_subset_warning_if_needed_def get_cell_at_def bind_emit py_index_def
        py_getitem_def replace_spaces_def grid_of_def plain_cell_def ret_def Let_def
        upt_rec numeral_2_eq_2)

lemma to_dictionary_duplicate_columns_keep:
  "snd (to_dictionary sheet_duplicate_columns None True None '' '' False PNone) =
    Inr (PDict
      [(''rows'', PDict
         [(''r0'', PDict
            [(''columns'', PDict
               [(''c'', PDict [(''excel'', PStr ''text in excel''), (''value'', PNone),
                              (''description'', PNone)])])])]),
       (''variables'', PDict []),
       (''row-labels'', PList [PStr ''r0'']),
       (''column-labels'', PList [PStr ''c'', PStr ''c''])])"
  by (simp add: to_dictionary_def dict_row_def dict_cell_def dict_record_def
        sheet_duplicate_columns_def no_variables_def sliced_labels_def sliced_help_def
        log_export_subset_warning_if_needed_def get_cell_at_def bind_emit py_index_def
        py_getitem_def replace_spaces_def grid_of_def plain_cell_def ret_def Let_def
        upt_rec numeral_2_eq_2)

lemma sheet_duplicate_columns_axes:
  "axis_range sheet_duplicate_columns True = 1"
  "axis_range sheet_duplicate_columns False = 2"
  "axis_labels sheet_duplicate_columns '' '' True = [''r0'']"
  "axis_labels sheet_duplicate_columns '' '' False = [''c'', ''c'']"
  "dict_cell_of sheet_duplicate_columns True 0 0 = plain_cell (PInt 5)"
  "dict_cell_of sheet_duplicate_columns True 0 1 = plain_cell PNone"
  by (simp_all add: axis_range_def axis_labels_def sliced_labels_def replace_spaces_def
        dict_cell_of_def sheet_duplicate_columns_def grid_of_def)

text \<open>
  Claim C9, as stated, fails when \<open>skip_nan_cell\<close> is set: a skipped cell stores nothing,
  so the entry of a label on the secondary axis keeps the record of an earlier duplicate.
  Both exported columns are labelled \<open>c\<close>; the cell of the second one is \<open>None\<close> and is
  skipped, and the one entry for \<open>c\<close> holds the record of the first column, with value 5.
\<close>

theorem to_dictionary_skipped_duplicate_counterexample:
  "axis_labels sheet_duplicate_columns '' '' False = [''c'', ''c''] \<and>
   cell_value (cell_at sheet_duplicate_columns 0 1) = PNone \<and>
   to_dictionary sheet_duplicate_columns None True None '' '' True PNone =
   ([CellRead 0 0, CellRead 0 1],
    Inr (PDict
      [(''rows'', PDict
         [(''r0'', PDict
            [(''columns'', PDict
               [(''c'', PDict [(''excel'', PStr ''text in excel''), (''value'', PInt 5),
                              (''description'', PNone)])])])]),
       (''variables'', PDict []),
       (''row-labels'', PList [PStr ''r0'']),
       (''column-labels'', PList [PStr ''c'', PStr ''c''])]))"
  by (simp add: to_dictionary_duplicate_columns_skip)
     (simp add: axis_labels_def sliced_labels_def replace_spaces_def
        sheet_duplicate_columns_def grid_of_def plain_cell_def)

lemma dict_get_outer:
  "map_of (outer_dict s languages_arg by_row languages_pseudonyms
             spaces_replacement skip_nan_cell nan_replacement) lx =
   (case last_where (\<lambda>i. axis_labels s spaces_replacement by_row ! i = lx)
           (axis_range s by_row) of
      None \<Rightarrow> None
    | Some i \<Rightarrow> Some (row_entry s languages_arg by_row languages_pseudonyms
                        spaces_replacement skip_nan_cell nan_replacement i))"
  unfolding outer_dict_def by (simp add: map_of_fold_update_all)

text \<open>
  Claim C9, amended. In the dictionary of a call that returns, no label is a key twice, on
  either level. The entry of a label of the primary axis is the one built for the highest
  index \<open>i\<close> with that label, whatever its cells hold, and inside it the entry of a label
  of the secondary axis is the record built for the highest index \<open>j\<close> with that label
  whose cell in row or column \<open>i\<close> is not skipped; there is no entry when no such \<open>j\<close>
  exists. A cell is skipped only when \<open>skip_nan_cell\<close> is set and its value is \<open>None\<close>.
  The records of the other duplicates are not in the output.
\<close>

theorem to_dictionary_duplicate_labels:
  assumes "snd (to_dictionary s languages_arg by_row languages_pseudonyms spaces_replacement
                  skip_nan_cell nan_replacement) = Inr out"
  shows "(\<forall>lx ly.
            cell_entry out (axis_key by_row) lx (axis_key (\<not> by_row)) ly =
            (case last_where (\<lambda>i. axis_labels s spaces_replacement by_row ! i = lx)
                    (axis_range s by_row) of
               None \<Rightarrow> None
             | Some i \<Rightarrow>
                 (case last_where
                         (\<lambda>j. \<not> skipped skip_nan_cell (dict_cell_of s by_row i j) \<and>
                              axis_labels s spaces_replacement (\<not> by_row) ! j = ly)
                         (axis_range s (\<not> by_row)) of
                    None \<Rightarrow> None
                  | Some j \<Rightarrow>
                      Some (dict_entry s languages_arg by_row languages_pseudonyms
                              nan_replacement i j)))) \<and>
         (\<exists>xd. dict_get out (axis_key by_row) = Some xd \<and> keys_once xd \<and>
            (\<forall>lx. dict_get xd lx =
               (case last_where (\<lambda>i. axis_labels s spaces_replacement by_row ! i = lx)
                       (axis_range s by_row) of
                  None \<Rightarrow> None
                | Some i \<Rightarrow>
                    Some (row_entry s languages_arg by_row languages_pseudonyms
                            spaces_replacement skip_nan_cell nan_replacement i))) \<and>
            (\<forall>lx e. dict_get xd lx = Some e \<longrightarrow>
               (\<exists>yd. dict_get e (axis_key (\<not> by_row)) = Some yd \<and> keys_once yd)))"
proof (rule conjI)
  show "\<forall>lx ly.
            cell_entry out (axis_key by_row) lx (axis_key (\<not> by_row)) ly =
            (case last_where (\<lambda>i. axis_labels s spaces_replacement by_row ! i = lx)
                    (axis_range s by_row) of
               None \<Rightarrow> None
             | Some i \<Rightarrow>
                 (case last_where
                         (\<lambda>j. \<not> skipped skip_nan_cell (dict_cell_of s by_row i j) \<and>
                              axis_labels s spaces_replacement (\<not> by_row) ! j = ly)
                         (axis_range s (\<not> by_row)) of
                    None \<Rightarrow> None
                  | Some j \<Rightarrow>
                      Some (dict_entry s languages_arg by_row languages_pseudonyms
                              nan_replacement i j)))"
    using to_dictionary_lookup [OF assms] by blast
next
  let ?xd = "PDict (outer_dict s languages_arg by_row languages_pseudonyms
                            spaces_replacement skip_nan_cell nan_replacement)"
  have "dict_get out (axis_key by_row) = Some ?xd"
    by (rule dict_get_top [OF assms])
  moreover have "keys_once ?xd"
    by (rule keys_once_outer)
  moreover have "\<forall>lx. dict_get ?xd lx =
               (case last_where (\<lambda>i. axis_labels s spaces_replacement by_row ! i = lx)
                       (axis_range s by_row) of
                  None \<Rightarrow> None
                | Some i \<Rightarrow>
                    Some (row_entry s languages_arg by_row languages_pseudonyms
                            spaces_replacement skip_nan_cell nan_replacement i))"
    by (simp add: dict_get_outer)
  moreover have "\<forall>lx e. dict_get ?xd lx = Some e \<longrightarrow>
               (\<exists>yd. dict_get e (axis_key (\<not> by_row)) = Some yd \<and> keys_once yd)"
    using keys_once_inner by (auto dest!: outer_dict_entries simp: dict_get_row_entry)
  ultimately show "\<exists>xd. dict_get out (axis_key by_row) = Some xd \<and> keys_once xd \<and>
            (\<forall>lx. dict_get xd lx =
               (case last_where (\<lambda>i. axis_labels s spaces_replacement by_row ! i = lx)
                       (axis_range s by_row) of
                  None \<Rightarrow> None
                | Some i \<Rightarrow>
                    Some (row_entry s languages_arg by_row languages_pseudonyms
                            spaces_replacement skip_nan_cell nan_replacement i))) \<and>
            (\<forall>lx e. dict_get xd lx = Some e \<longrightarrow>
               (\<exists>yd. dict_get e (axis_key (\<not> by_row)) = Some yd \<and> keys_once yd))"
    by blast
qed

lemma sheet_duplicate_rows_axes:
  "axis_range sheet_duplicate_rows True = 2"
  "axis_range sheet_duplicate_rows False = 2"
  "axis_labels sheet_duplicate_rows '' '' True = [''a'', ''a'']"
  "axis_labels sheet_duplicate_rows '' '' False = [''c'', ''d'']"
  "dict_cell_of sheet_duplicate_rows True (Suc 0) 0 = plain_cell (PInt 7)"
  "dict_cell_of sheet_duplicate_rows True (Suc 0) (Suc 0) = plain_cell PNone"
  by (simp_all add: axis_range_def axis_labels_def sliced_labels_def replace_spaces_def
        dict_cell_of_def sheet_duplicate_rows_def grid_of_def)

theorem to_dictionary_duplicate_labels_witness:
  "result_entry (to_dictionary sheet_duplicate_columns None True None '' '' True PNone)
     ''rows'' ''r0'' ''columns'' ''c'' =
     Some (dict_entry sheet_duplicate_columns None True None PNone 0 0) \<and>
   result_entry (to_dictionary sheet_duplicate_columns None True None '' '' False PNone)
     ''rows'' ''r0'' ''columns'' ''c'' =
     Some (dict_entry sheet_duplicate_columns None True None PNone 0 1) \<and>
   result_entry (to_dictionary sheet_duplicate_rows None True None '' '' True PNone)
     ''rows'' ''a'' ''columns'' ''c'' =
     Some (dict_entry sheet_duplicate_rows None True None PNone 1 0) \<and>
   result_entry (to_dictionary sheet_duplicate_rows None True None '' '' True PNone)
     ''rows'' ''a'' ''columns'' ''d'' = None"
proof -
  let ?c = sheet_duplicate_columns and ?r = sheet_duplicate_rows
  note axes = sheet_duplicate_columns_axes [unfolded One_nat_def] sheet_duplicate_rows_axes
  obtain out1 where ok1: "snd (to_dictionary ?c None True None '' '' True PNone) = Inr out1"
    by (simp add: to_dictionary_duplicate_columns_skip)
  obtain out2 where ok2: "snd (to_dictionary ?c None True None '' '' False PNone) = Inr out2"
    by (simp add: to_dictionary_duplicate_columns_keep)
  obtain out3 where ok3: "snd (to_dictionary ?r None True None '' '' True PNone) = Inr out3"
    by (simp add: to_dictionary_eval sheet_duplicate_rows_def)
  note e1 = to_dictionary_duplicate_labels [OF ok1, THEN conjunct1, rule_format]
    and e2 = to_dictionary_duplicate_labels [OF ok2, THEN conjunct1, rule_format]
    and e3 = to_dictionary_duplicate_labels [OF ok3, THEN conjunct1, rule_format]
  have "cell_entry out1 ''rows'' ''r0'' ''columns'' ''c'' =
          Some (dict_entry ?c None True None PNone 0 0)"
    using e1 [of "''r0''" "''c''"]
    by (simp add: axis_key_def axes numeral_2_eq_2 skipped_def plain_cell_def)
  moreover have "cell_entry out2 ''rows'' ''r0'' ''columns'' ''c'' =
          Some (dict_entry ?c None True None PNone 0 1)"
    using e2 [of "''r0''" "''c''"]
    by (simp add: axis_key_def axes numeral_2_eq_2 skipped_def)
  moreover have "cell_entry out3 ''rows'' ''a'' ''columns'' ''c'' =
          Some (dict_entry ?r None True None PNone 1 0)"
    using e3 [of "''a''" "''c''"]
    by (simp add: axis_key_def axes numeral_2_eq_2 skipped_def plain_cell_def)
  moreover have "cell_entry out3 ''rows'' ''a'' ''columns'' ''d'' = None"
    using e3 [of "''a''" "''d''"]
    by (simp add: axis_key_def axes numeral_2_eq_2 skipped_def plain_cell_def)
  ultimately show ?thesis
    by (simp add: result_entry_def ok1 ok2 ok3)
qed

section \<open>to_dictionary: by rows and by columns\<close>






end
